theory Spec2Isabelle
  imports Main
begin

section \<open>JavaScript values and errors\<close>

text \<open>
  The values that travel through \<^verbatim>\<open>JSON.stringify\<close> and \<^verbatim>\<open>JSON.parse\<close>.
  A property that is absent (\<^verbatim>\<open>undefined\<close>) is \<open>None\<close> of a \<open>json option\<close>.
\<close>

datatype json =
    JNull
  | JBool bool
  | JNum int
  | JStr string
  | JArr "json list"
  | JObj "(string \<times> json) list"

text \<open>Every \<^verbatim>\<open>throw\<close> of the two source files, and the errors of the runtime.\<close>

datatype error =
    EmptyDataSourceList        \<comment> \<open>\<^verbatim>\<open>can not have empty dataSource list\<close>\<close>
  | MissingDataSource          \<comment> \<open>\<^verbatim>\<open>must have a dataSource\<close>\<close>
  | NotReadyAfterAdjustment    \<comment> \<open>\<^verbatim>\<open>visualization must be ready after automatic adjustment\<close>\<close>
  | UnknownDataSource string   \<comment> \<open>\<^verbatim>\<open>unknown DataSource changed: <name>\<close>\<close>
  | NonSelectedDataSource      \<comment> \<open>\<^verbatim>\<open>can not change non-selected dataSource\<close>\<close>
  | MustBeASet                 \<comment> \<open>\<^verbatim>\<open>must be a set\<close>\<close>
  | TypeError                  \<comment> \<open>a property read on \<^verbatim>\<open>undefined\<close> or \<^verbatim>\<open>null\<close>\<close>
  | SyntaxError                \<comment> \<open>\<^verbatim>\<open>JSON.parse\<close> on a text that is not JSON\<close>
  | CollaboratorError string   \<comment> \<open>an error thrown inside a collaborator's \<^verbatim>\<open>fromJS\<close>\<close>

section \<open>Filter clauses (filter-clause.ts)\<close>

text \<open>
  A plywood expression is only stored, compared and handed on by the code modelled
  here: a reference to an attribute by name, or any other expression kept by its
  JS form.
\<close>

datatype expression =
    RefExpression string
  | OtherExpression json

text \<open>A plywood \<^verbatim>\<open>Set\<close>: its element type and its \<^verbatim>\<open>elements\<close>.\<close>

record plywoodSet =
  setType :: string
  elements :: "json list"

text \<open>
  What a caller can put into the \<^verbatim>\<open>values\<close> field at run time (the TypeScript
  type is erased): a plywood \<^verbatim>\<open>Set\<close>, a native ES6 \<^verbatim>\<open>Set\<close> with its members,
  or a value as JSON has them (\<^verbatim>\<open>null\<close>, a boolean, a number, a string, an array, a
  plain object).
\<close>

datatype dynamicValue =
    SetValue plywoodSet
  | NativeSetValue "json list"
  | OtherValue json

text \<open>
  \<^verbatim>\<open>Set.isSet(candidate)\<close>. plywood implements it as
  \<^verbatim>\<open>isInstanceOf(candidate, Set)\<close> of immutable-class, which accepts an instance of
  plywood's \<^verbatim>\<open>Set\<close> and also an object that has a constructor named
  \<^verbatim>\<open>Set\<close> in its prototype chain: a native ES6 \<^verbatim>\<open>Set\<close> passes the test.
\<close>

fun isSet :: "dynamicValue \<Rightarrow> bool" where
  "isSet (SetValue s) = True"
| "isSet (NativeSetValue xs) = True"
| "isSet (OtherValue v) = False"


text \<open>
  \<^verbatim>\<open>FilterClauseValue\<close>, the constructor's argument: \<^verbatim>\<open>exclude\<close> and
  \<^verbatim>\<open>required\<close> are optional.
\<close>

record filterClauseValue =
  fcv_expression :: expression
  fcv_values :: dynamicValue
  fcv_exclude :: "bool option"
  fcv_required :: "bool option"

text \<open>
  A constructed \<^verbatim>\<open>FilterClause\<close>; \<^verbatim>\<open>this.values\<close> holds the value that was
  passed in.
\<close>

record filterClause =
  fc_expression :: expression
  fc_values :: dynamicValue
  fc_exclude :: bool
  fc_required :: bool

text \<open>\<^verbatim>\<open>x || false\<close> for an optional boolean \<open>x\<close>.\<close>

fun orFalse :: "bool option \<Rightarrow> bool" where
  "orFalse None = False"
| "orFalse (Some b) = b"

text \<open>
  \<^verbatim>\<open>constructor(parameters: FilterClauseValue)\<close>: the only check is
  \<^verbatim>\<open>if (!Set.isSet(this.values)) throw new Error('must be a set')\<close>.
\<close>

fun FilterClause :: "filterClauseValue \<Rightarrow> error + filterClause" where
  "FilterClause parameters =
     (if \<not> isSet (fcv_values parameters) then Inl MustBeASet
      else Inr \<lparr> fc_expression = fcv_expression parameters,
                 fc_values = fcv_values parameters,
                 fc_exclude = orFalse (fcv_exclude parameters),
                 fc_required = orFalse (fcv_required parameters) \<rparr>)"

section \<open>The collaborators of the state object\<close>

text \<open>
  \<^verbatim>\<open>Essence\<close> imports its value objects from sibling modules and from the
  libraries plywood, chronoshift, immutable and lz-string. Their data is
  modelled by the fields the state object reads; their methods are taken as
  parameters (the record \<open>collaborators\<close> below), so every theorem holds for
  any implementation of them.
\<close>

datatype timezone = Timezone string

datatype duration = Duration string

text \<open>\<^verbatim>\<open>TimeRange.fromJS({start, end})\<close>; a date is its number of milliseconds.\<close>

record timeRange =
  tr_start :: int
  tr_end :: int

record dimension =
  dim_name :: string
  dim_expression :: expression

record measure =
  m_name :: string

text \<open>\<^verbatim>\<open>Filter\<close>: the source reads \<^verbatim>\<open>clauses\<close>, a list of filter clauses.\<close>

record pivotFilter =
  clauses :: "filterClause list"

text \<open>\<^verbatim>\<open>new Highlight({owner, delta})\<close>.\<close>

record highlight =
  owner :: string
  delta :: pivotFilter

text \<open>
  \<^verbatim>\<open>DataSource\<close>, by the properties the state object reads.
  \<open>ds_defaultSplitDimension\<close> is \<^verbatim>\<open>options['defaultSplitDimension']\<close>.
  \<^verbatim>\<open>dataSource.equals\<close> is the equality of these records.
\<close>

record dataSource =
  ds_name :: string
  ds_dimensions :: "dimension list"
  ds_measures :: "measure list"
  ds_timeAttribute :: "expression option"
  ds_defaultTimezone :: timezone
  ds_defaultDuration :: duration
  ds_defaultFilter :: pivotFilter
  ds_requiredFilter :: pivotFilter
  ds_defaultSortMeasure :: string
  ds_defaultPinnedDimensions :: "string list"
  ds_defaultSplitDimension :: "json option"

text \<open>\<^verbatim>\<open>dataSource.getDimension(name)\<close> and \<^verbatim>\<open>dataSource.getMeasure(name)\<close>.\<close>

definition getDimension :: "dataSource \<Rightarrow> string \<Rightarrow> dimension option" where
  "getDimension ds n = find (\<lambda>d. dim_name d = n) (ds_dimensions ds)"

definition getMeasure :: "dataSource \<Rightarrow> string \<Rightarrow> measure option" where
  "getMeasure ds n = find (\<lambda>m. m_name m = n) (ds_measures ds)"

text \<open>
  Modelled from the spec: the \<^verbatim>\<open>Resolve\<close> verdict of manifest.ts, which is not
  among the sources. A verdict is ready, needs automatic adjustment, is manual, or
  is not applicable; an automatic verdict carries the adjustment (new splits and
  optional colors) that the constructor reads.
\<close>

datatype resolveState = ReadyState | AutomaticState | ManualState | NeverState

record ('s, 'c) adjustment =
  adj_splits :: 's
  adj_colors :: "'c option"

record ('s, 'c) resolve =
  r_state :: resolveState
  r_score :: int
  r_adjustment :: "('s, 'c) adjustment option"

definition isReady :: "('s, 'c) resolve \<Rightarrow> bool" where
  "isReady r = (r_state r = ReadyState)"

definition isAutomatic :: "('s, 'c) resolve \<Rightarrow> bool" where
  "isAutomatic r = (r_state r = AutomaticState)"

definition isManual :: "('s, 'c) resolve \<Rightarrow> bool" where
  "isManual r = (r_state r = ManualState)"

text \<open>
  \<^verbatim>\<open>Manifest\<close>: an identifier and the method
  \<^verbatim>\<open>handleCircumstance(dataSource, splits, colors, current)\<close>.
\<close>

record ('s, 'c) manifest =
  vis_id :: string
  handleCircumstance :: "dataSource \<Rightarrow> 's \<Rightarrow> 'c option \<Rightarrow> bool \<Rightarrow> ('s, 'c) resolve"

text \<open>
  The methods of the collaborators, for splits of type \<open>'s\<close> and colors of type
  \<open>'c\<close>. A \<^verbatim>\<open>fromJS\<close> can throw; \<^verbatim>\<open>decompressFromBase64\<close> can return
  \<^verbatim>\<open>null\<close> (\<open>None\<close>). \<open>orderedSetFromJS\<close> is immutable's
  \<^verbatim>\<open>OrderedSet(value)\<close> on a decoded JSON value: its string members in
  insertion order, or the error of a value that is not iterable.
  \<open>splitsFromExpression\<close> is
  \<^verbatim>\<open>Splits.fromSplitCombine(SplitCombine.fromExpression(ex))\<close>.
  An optional argument that the caller leaves out is \<open>None\<close>
  (\<open>False\<close> for the flag of \<^verbatim>\<open>updateWithTimeRange\<close>).
\<close>

record ('s, 'c) collaborators =
  compressToBase64 :: "string \<Rightarrow> string"
  decompressFromBase64 :: "string \<Rightarrow> error + string option"
  stringify :: "json \<Rightarrow> string"
  parse :: "string \<Rightarrow> error + json"
  orderedSetFromJS :: "json \<Rightarrow> error + string list"
  timezone_toJS :: "timezone \<Rightarrow> json"
  timezone_fromJS :: "json \<Rightarrow> error + timezone"
  filter_toJS :: "pivotFilter \<Rightarrow> json"
  filter_fromJS :: "json \<Rightarrow> error + pivotFilter"
  splits_toJS :: "'s \<Rightarrow> json"
  splits_fromJS :: "json \<Rightarrow> error + 's"
  colors_toJS :: "'c \<Rightarrow> json"
  colors_fromJS :: "json \<Rightarrow> error + 'c"
  highlight_toJS :: "highlight \<Rightarrow> json"
  highlight_fromJS :: "json \<Rightarrow> error + highlight"
  filter_constrainToDimensions ::
    "pivotFilter \<Rightarrow> dimension list \<Rightarrow> expression option \<Rightarrow> expression option \<Rightarrow> pivotFilter"
  splits_constrainToDimensions :: "'s \<Rightarrow> dimension list \<Rightarrow> 's"
  highlight_constrainToDimensions ::
    "highlight \<Rightarrow> dimension list \<Rightarrow> expression option \<Rightarrow> highlight"
  setClause :: "pivotFilter \<Rightarrow> filterClause \<Rightarrow> pivotFilter"
  setTimeRange :: "pivotFilter \<Rightarrow> expression \<Rightarrow> timeRange \<Rightarrow> pivotFilter"
  getTimeRange :: "pivotFilter \<Rightarrow> expression \<Rightarrow> timeRange option"
  filter_remove :: "pivotFilter \<Rightarrow> expression \<Rightarrow> pivotFilter"
  applyToFilter :: "highlight \<Rightarrow> pivotFilter \<Rightarrow> pivotFilter"
  splits_EMPTY :: "'s"
  splitsFromExpression :: "expression \<Rightarrow> 's"
  updateWithTimeRange ::
    "'s \<Rightarrow> expression \<Rightarrow> timeRange option \<Rightarrow> timezone \<Rightarrow> bool \<Rightarrow> 's"
  colors_dimension :: "'c \<Rightarrow> string"
  duration_move :: "duration \<Rightarrow> int \<Rightarrow> timezone \<Rightarrow> int \<Rightarrow> int"
  getMaxTimeDate :: "dataSource \<Rightarrow> int"
  resolve_compare :: "('s, 'c) resolve \<Rightarrow> ('s, 'c) resolve \<Rightarrow> int"

section \<open>JavaScript helpers\<close>

text \<open>Truthiness of a JSON value (\<^verbatim>\<open>if (v)\<close>, \<^verbatim>\<open>v || w\<close>).\<close>

fun truthy :: "json \<Rightarrow> bool" where
  "truthy JNull = False"
| "truthy (JBool b) = b"
| "truthy (JNum n) = (n \<noteq> 0)"
| "truthy (JStr s) = (s \<noteq> [])"
| "truthy (JArr xs) = True"
| "truthy (JObj kvs) = True"

text \<open>\<^verbatim>\<open>v || null\<close>, for \<open>v\<close> a value or \<^verbatim>\<open>undefined\<close>.\<close>

fun orNull :: "json option \<Rightarrow> json" where
  "orNull None = JNull"
| "orNull (Some v) = (if truthy v then v else JNull)"

text \<open>\<^verbatim>\<open>array[i]\<close>: \<^verbatim>\<open>undefined\<close> out of range.\<close>

definition index :: "'a list \<Rightarrow> nat \<Rightarrow> 'a option" where
  "index xs i = (if i < length xs then Some (xs ! i) else None)"

text \<open>
  \<^verbatim>\<open>array[i] = v\<close> on an array with holes: an index beyond the end extends
  the array, and the slots in between stay empty.
\<close>

definition setIndex :: "'a option list \<Rightarrow> nat \<Rightarrow> 'a \<Rightarrow> 'a option list" where
  "setIndex xs i v =
     (if i < length xs then xs[i := Some v]
      else xs @ replicate (i - length xs) None @ [Some v])"

text \<open>\<^verbatim>\<open>strings.join(sep)\<close> and \<^verbatim>\<open>string.split(sep)\<close> for a one-character separator.\<close>

fun join :: "string \<Rightarrow> string list \<Rightarrow> string" where
  "join sep [] = []"
| "join sep [x] = x"
| "join sep (x # y # ys) = x @ sep @ join sep (y # ys)"

fun split :: "char \<Rightarrow> string \<Rightarrow> string list" where
  "split sep [] = [[]]"
| "split sep (c # cs) =
     (if c = sep then [] # split sep cs
      else (case split sep cs of [] \<Rightarrow> [[c]] | p # ps \<Rightarrow> (c # p) # ps))"

text \<open>
  \<^verbatim>\<open>parseInt(s, 10)\<close>: leading white space is skipped, then an optional sign,
  then the longest run of decimal digits; \<open>None\<close> is \<^verbatim>\<open>NaN\<close>. Characters are
  8-bit: the white space among them is TAB, LF, VT, FF, CR, the space and the
  no-break space.
\<close>

definition isWhiteSpace :: "char \<Rightarrow> bool" where
  "isWhiteSpace c = (of_char c \<in> {9, 10, 11, 12, 13, 32, 160 :: nat})"

definition isDigit :: "char \<Rightarrow> bool" where
  "isDigit c = (48 \<le> (of_char c :: nat) \<and> (of_char c :: nat) \<le> 57)"

definition digitsValue :: "string \<Rightarrow> int" where
  "digitsValue ds = foldl (\<lambda>acc c. 10 * acc + (int (of_char c) - 48)) 0 ds"

definition parseInt :: "string \<Rightarrow> int option" where
  "parseInt s =
     (let s1 = dropWhile isWhiteSpace s;
          sign = (if s1 \<noteq> [] \<and> hd s1 = CHR ''-'' then - 1 else 1 :: int);
          s2 = (if s1 \<noteq> [] \<and> (hd s1 = CHR ''-'' \<or> hd s1 = CHR ''+'') then tl s1 else s1);
          ds = takeWhile isDigit s2
      in if ds = [] then None else Some (sign * digitsValue ds))"

text \<open>
  immutable's \<^verbatim>\<open>OrderedSet(array)\<close> is the list of the distinct members in the
  order of their first insertion; \<^verbatim>\<open>has\<close>, \<^verbatim>\<open>delete\<close> and \<^verbatim>\<open>filter\<close> keep
  that order, and \<^verbatim>\<open>equals\<close> compares the members in order.
\<close>

definition OrderedSet :: "'a list \<Rightarrow> 'a list" where
  "OrderedSet xs = foldl (\<lambda>acc x. if x \<in> set acc then acc else acc @ [x]) [] xs"

text \<open>
  \<^verbatim>\<open>array.sort(compare)\<close>, as the stable sort that puts \<open>x\<close> before \<open>y\<close>
  when \<open>compare x y \<le> 0\<close>.
\<close>

fun insertBy :: "('a \<Rightarrow> 'a \<Rightarrow> int) \<Rightarrow> 'a \<Rightarrow> 'a list \<Rightarrow> 'a list" where
  "insertBy cmp x [] = [x]"
| "insertBy cmp x (y # ys) = (if cmp x y \<le> 0 then x # y # ys else y # insertBy cmp x ys)"

fun sortBy :: "('a \<Rightarrow> 'a \<Rightarrow> int) \<Rightarrow> 'a list \<Rightarrow> 'a list" where
  "sortBy cmp [] = []"
| "sortBy cmp (x # xs) = insertBy cmp x (sortBy cmp xs)"

section \<open>The state object (Essence)\<close>

text \<open>\<^verbatim>\<open>constrainDimensions\<close> and \<^verbatim>\<open>constrainMeasures\<close>.\<close>

definition constrainDimensions :: "string list \<Rightarrow> dataSource \<Rightarrow> string list" where
  "constrainDimensions dims ds = filter (\<lambda>n. getDimension ds n \<noteq> None) dims"

definition constrainMeasures :: "string list \<Rightarrow> dataSource \<Rightarrow> string list" where
  "constrainMeasures ms ds = filter (\<lambda>n. getMeasure ds n \<noteq> None) ms"

datatype VisStrategy = FairGame | UnfairGame | KeepAlways

record ('s, 'c) VisualizationAndResolve =
  vr_visualization :: "('s, 'c) manifest"
  vr_resolve :: "('s, 'c) resolve"

text \<open>
  \<^verbatim>\<open>EssenceValue\<close>, the constructor's argument. The data source is absent when
  a lookup by name found none, the visualization when the caller passes
  \<^verbatim>\<open>null\<close>; colors, compare and highlight are \<^verbatim>\<open>null\<close> when not set.
\<close>

record ('s, 'c) EssenceValue =
  v_dataSources :: "dataSource list"
  v_visualizations :: "('s, 'c) manifest list"
  v_dataSource :: "dataSource option"
  v_visualization :: "('s, 'c) manifest option"
  v_timezone :: timezone
  v_filter :: pivotFilter
  v_requiredFilter :: pivotFilter
  v_splits :: 's
  v_selectedMeasures :: "string list"
  v_pinnedDimensions :: "string list"
  v_colors :: "'c option"
  v_pinnedSort :: string
  v_compare :: "pivotFilter option"
  v_highlight :: "highlight option"

text \<open>
  \<^verbatim>\<open>EssenceJS\<close>. \<^verbatim>\<open>fromHash\<close> fills the fields from a decoded array, so
  they hold any JSON value; an optional field can be \<^verbatim>\<open>undefined\<close>.
\<close>

record EssenceJS =
  js_dataSource :: string
  js_visualization :: string
  js_timezone :: json
  js_filter :: json
  js_requiredFilter :: json
  js_splits :: json
  js_selectedMeasures :: json
  js_pinnedDimensions :: json
  js_colors :: "json option"
  js_pinnedSort :: "json option"
  js_compare :: "json option"
  js_highlight :: "json option"

text \<open>A constructed \<^verbatim>\<open>Essence\<close>, with the cached verdict \<^verbatim>\<open>visResolve\<close>.\<close>

record ('s, 'c) essence =
  dataSources :: "dataSource list"
  visualizations :: "('s, 'c) manifest list"
  dataSource :: dataSource
  visualization :: "('s, 'c) manifest"
  timezone :: timezone
  filter' :: pivotFilter
  requiredFilter :: pivotFilter
  splits :: 's
  selectedMeasures :: "string list"
  pinnedDimensions :: "string list"
  colors :: "'c option"
  pinnedSort :: string
  compare :: "pivotFilter option"
  highlight :: "highlight option"
  visResolve :: "('s, 'c) resolve"

text \<open>
  \<^verbatim>\<open>getBestVisualization(splits, colors, currentVisualization)\<close>, with the
  \<^verbatim>\<open>visualizations\<close> and \<^verbatim>\<open>dataSource\<close> it reads from \<^verbatim>\<open>this\<close>.
  The first element of an empty array is \<^verbatim>\<open>undefined\<close> (\<open>None\<close>).
\<close>

definition getBestVisualization ::
  "('s, 'c) collaborators \<Rightarrow> ('s, 'c) manifest list \<Rightarrow> dataSource \<Rightarrow> 's \<Rightarrow> 'c option
   \<Rightarrow> ('s, 'c) manifest option \<Rightarrow> ('s, 'c) VisualizationAndResolve option" where
  "getBestVisualization C viss ds sp cl currentVisualization =
     (let visAndResolves =
            map (\<lambda>v. \<lparr> vr_visualization = v,
                        vr_resolve = handleCircumstance v ds sp cl (Some v = currentVisualization) \<rparr>)
                viss
      in index (sortBy (\<lambda>vr1 vr2. resolve_compare C (vr_resolve vr1) (vr_resolve vr2))
                  visAndResolves) 0)"

text \<open>
  The visualization the constructor works with: the one passed in, or else the
  best one for the splits and colors passed in. Reading
  \<^verbatim>\<open>visAndResolve.visualization\<close> of \<^verbatim>\<open>undefined\<close> (an empty catalog) is
  a \<^verbatim>\<open>TypeError\<close>.
\<close>

definition chooseVisualization ::
  "('s, 'c) collaborators \<Rightarrow> ('s, 'c) EssenceValue \<Rightarrow> dataSource
   \<Rightarrow> error + ('s, 'c) manifest" where
  "chooseVisualization C parameters ds =
     (case v_visualization parameters of
        Some v \<Rightarrow> Inr v
      | None \<Rightarrow>
          (case getBestVisualization C (v_visualizations parameters) ds
                  (v_splits parameters) (v_colors parameters) None of
             None \<Rightarrow> Inl TypeError
           | Some visAndResolve \<Rightarrow> Inr (vr_visualization visAndResolve)))"

text \<open>
  \<^verbatim>\<open>constructor(parameters: EssenceValue)\<close>. Reading
  \<^verbatim>\<open>adjustment.splits\<close> of \<^verbatim>\<open>null\<close> is a \<^verbatim>\<open>TypeError\<close>;
  \<^verbatim>\<open>adjustment.colors || null\<close> is the optional colors of the adjustment.
\<close>

definition Essence ::
  "('s, 'c) collaborators \<Rightarrow> ('s, 'c) EssenceValue \<Rightarrow> error + ('s, 'c) essence" where
  "Essence C parameters =
     (if v_dataSources parameters = [] then Inl EmptyDataSourceList
      else case v_dataSource parameters of
        None \<Rightarrow> Inl MissingDataSource
      | Some ds \<Rightarrow>
         (case chooseVisualization C parameters ds of
            Inl e \<Rightarrow> Inl e
          | Inr vis \<Rightarrow>
             (let this = \<lparr> dataSources = v_dataSources parameters,
                           visualizations = v_visualizations parameters,
                           dataSource = ds,
                           visualization = vis,
                           timezone = v_timezone parameters,
                           filter' = v_filter parameters,
                           requiredFilter = v_requiredFilter parameters,
                           splits = v_splits parameters,
                           selectedMeasures = v_selectedMeasures parameters,
                           pinnedDimensions = v_pinnedDimensions parameters,
                           colors = v_colors parameters,
                           pinnedSort = v_pinnedSort parameters,
                           compare = v_compare parameters,
                           highlight = v_highlight parameters,
                           visResolve = handleCircumstance vis ds (v_splits parameters)
                                          (v_colors parameters) True \<rparr>
              in if isAutomatic (visResolve this) then
                   (case r_adjustment (visResolve this) of
                      None \<Rightarrow> Inl TypeError
                    | Some adjustment \<Rightarrow>
                        (let visResolve' = handleCircumstance vis ds (adj_splits adjustment)
                                             (adj_colors adjustment) True
                         in if \<not> isReady visResolve' then Inl NotReadyAfterAdjustment
                            else Inr (this \<lparr> splits := adj_splits adjustment,
                                             colors := adj_colors adjustment,
                                             visResolve := visResolve' \<rparr>)))
                 else Inr this)))"

text \<open>\<^verbatim>\<open>valueOf()\<close>.\<close>

definition valueOf :: "('s, 'c) essence \<Rightarrow> ('s, 'c) EssenceValue" where
  "valueOf this =
     \<lparr> v_dataSources = dataSources this,
       v_visualizations = visualizations this,
       v_dataSource = Some (dataSource this),
       v_visualization = Some (visualization this),
       v_timezone = timezone this,
       v_filter = filter' this,
       v_requiredFilter = requiredFilter this,
       v_splits = splits this,
       v_selectedMeasures = selectedMeasures this,
       v_pinnedDimensions = pinnedDimensions this,
       v_colors = colors this,
       v_pinnedSort = pinnedSort this,
       v_compare = compare this,
       v_highlight = highlight this \<rparr>"

text \<open>
  A value of the record type \<open>essence\<close> is a state of the program when the
  constructor returns it; rebuilding such a state from its own \<^verbatim>\<open>valueOf()\<close>
  returns it again (lemma \<open>Essence_valueOf\<close> below), which gives a test that runs.
\<close>

definition constructed :: "('s, 'c) collaborators \<Rightarrow> ('s, 'c) essence \<Rightarrow> bool" where
  "constructed C this = (Essence C (valueOf this) = Inr this)"

text \<open>\<^verbatim>\<open>toJS()\<close>: an optional field that is not set stays \<^verbatim>\<open>undefined\<close>.\<close>

definition toJS :: "('s, 'c) collaborators \<Rightarrow> ('s, 'c) essence \<Rightarrow> EssenceJS" where
  "toJS C this =
     \<lparr> js_dataSource = ds_name (dataSource this),
       js_visualization = vis_id (visualization this),
       js_timezone = timezone_toJS C (timezone this),
       js_filter = filter_toJS C (filter' this),
       js_requiredFilter = filter_toJS C (requiredFilter this),
       js_splits = splits_toJS C (splits this),
       js_selectedMeasures = JArr (map JStr (selectedMeasures this)),
       js_pinnedDimensions = JArr (map JStr (pinnedDimensions this)),
       js_colors = map_option (colors_toJS C) (colors this),
       js_pinnedSort =
         (if pinnedSort this \<noteq> ds_defaultSortMeasure (dataSource this)
          then Some (JStr (pinnedSort this)) else None),
       js_compare = map_option (filter_toJS C) (compare this),
       js_highlight = map_option (highlight_toJS C) (highlight this) \<rparr>"

text \<open>
  \<^verbatim>\<open>equals(other)\<close>; the collaborators' \<^verbatim>\<open>equals\<close> is the equality of
  their values, and the visualizations are compared by identifier.
\<close>

definition equals :: "('s, 'c) essence \<Rightarrow> ('s, 'c) essence \<Rightarrow> bool" where
  "equals this other =
     (dataSource this = dataSource other \<and>
      vis_id (visualization this) = vis_id (visualization other) \<and>
      timezone this = timezone other \<and>
      filter' this = filter' other \<and>
      requiredFilter this = requiredFilter other \<and>
      splits this = splits other \<and>
      selectedMeasures this = selectedMeasures other \<and>
      pinnedDimensions this = pinnedDimensions other \<and>
      ((colors this \<noteq> None) = (colors other \<noteq> None)) \<and>
      (colors this = None \<or> colors this = colors other) \<and>
      pinnedSort this = pinnedSort other \<and>
      ((compare this \<noteq> None) = (compare other \<noteq> None)) \<and>
      (compare this = None \<or> compare this = compare other) \<and>
      ((highlight this \<noteq> None) = (highlight other \<noteq> None)) \<and>
      (highlight this = None \<or> highlight this = highlight other))"

text \<open>
  The array \<^verbatim>\<open>compressed\<close> that \<^verbatim>\<open>toHash()\<close> builds: seven slots, then
  colors at index 7, compare at 8 and highlight at 9 when they are set.
\<close>

definition setIfTruthy :: "json option list \<Rightarrow> nat \<Rightarrow> json option \<Rightarrow> json option list" where
  "setIfTruthy compressed i v =
     (case v of
        None \<Rightarrow> compressed
      | Some j \<Rightarrow> if truthy j then setIndex compressed i j else compressed)"

definition compressedArray :: "EssenceJS \<Rightarrow> json option list" where
  "compressedArray js =
     (let compressed = [Some (js_timezone js),
                        Some (js_filter js),
                        Some (js_requiredFilter js),
                        Some (js_splits js),
                        Some (js_selectedMeasures js),
                        Some (js_pinnedDimensions js),
                        js_pinnedSort js];
          compressed = setIfTruthy compressed 7 (js_colors js);
          compressed = setIfTruthy compressed 8 (js_compare js);
          compressed = setIfTruthy compressed 9 (js_highlight js)
      in compressed)"

text \<open>\<^verbatim>\<open>toHash()\<close>; \<^verbatim>\<open>HASH_VERSION\<close>, the number 1, is joined as the text \<^verbatim>\<open>1\<close>.\<close>

definition toHash :: "('s, 'c) collaborators \<Rightarrow> ('s, 'c) essence \<Rightarrow> string" where
  "toHash C this =
     (let js = toJS C this;
          restJSON = map (\<lambda>c. stringify C (orNull c)) (compressedArray js)
      in CHR ''#'' #
         join ''/'' [js_dataSource js,
                     js_visualization js,
                     ''1'',
                     compressToBase64 C (join '','' restJSON)])"

text \<open>Sequencing of steps that can throw.\<close>

definition bindE :: "error + 'a \<Rightarrow> ('a \<Rightarrow> error + 'b) \<Rightarrow> error + 'b" where
  "bindE m f = (case m of Inl e \<Rightarrow> Inl e | Inr x \<Rightarrow> f x)"

text \<open>\<^verbatim>\<open>js ? X.fromJS(js) : null\<close>.\<close>

definition optionalFromJS :: "(json \<Rightarrow> error + 'a) \<Rightarrow> json option \<Rightarrow> error + 'a option" where
  "optionalFromJS fromJS' js =
     (case js of
        None \<Rightarrow> Inr None
      | Some j \<Rightarrow> if truthy j then bindE (fromJS' j) (\<lambda>x. Inr (Some x)) else Inr None)"

text \<open>
  \<^verbatim>\<open>fromJS(parameters, dataSources, visualizations)\<close>. The data source found
  by name is first read at \<^verbatim>\<open>dataSource.dimensions\<close>, after
  \<^verbatim>\<open>Timezone.fromJS\<close> and \<^verbatim>\<open>Filter.fromJS\<close> have run: when none was found,
  that read is a \<^verbatim>\<open>TypeError\<close>. A value that is not a string names no measure.
\<close>

definition fromJS ::
  "('s, 'c) collaborators \<Rightarrow> EssenceJS \<Rightarrow> dataSource list \<Rightarrow> ('s, 'c) manifest list
   \<Rightarrow> error + ('s, 'c) essence" where
  "fromJS C parameters dss viss =
     (let visualization' = find (\<lambda>v. vis_id v = js_visualization parameters) viss;
          dataSource' = find (\<lambda>ds. ds_name ds = js_dataSource parameters) dss
      in bindE (timezone_fromJS C (js_timezone parameters)) (\<lambda>timezone'.
         bindE (filter_fromJS C (js_filter parameters)) (\<lambda>filter0.
         case dataSource' of
           None \<Rightarrow> Inl TypeError
         | Some ds \<Rightarrow>
         bindE (filter_fromJS C (js_requiredFilter parameters)) (\<lambda>requiredFilter0.
         bindE (splits_fromJS C (js_splits parameters)) (\<lambda>splits0.
         bindE (orderedSetFromJS C (js_selectedMeasures parameters)) (\<lambda>selectedMeasures0.
         bindE (orderedSetFromJS C (js_pinnedDimensions parameters)) (\<lambda>pinnedDimensions0.
         bindE (optionalFromJS (colors_fromJS C) (js_colors parameters)) (\<lambda>colors'.
         let defaultSortMeasureName = ds_defaultSortMeasure ds;
             pinnedSort0 = (case js_pinnedSort parameters of
                              None \<Rightarrow> JStr defaultSortMeasureName
                            | Some j \<Rightarrow> if truthy j then j else JStr defaultSortMeasureName);
             pinnedSort' = (case pinnedSort0 of
                              JStr n \<Rightarrow> if getMeasure ds n \<noteq> None then n
                                        else defaultSortMeasureName
                            | _ \<Rightarrow> defaultSortMeasureName)
         in
         bindE (optionalFromJS (filter_fromJS C) (js_compare parameters)) (\<lambda>compare0.
         bindE (optionalFromJS (highlight_fromJS C) (js_highlight parameters)) (\<lambda>highlight0.
         Essence C
           \<lparr> v_dataSources = dss,
             v_visualizations = viss,
             v_dataSource = Some ds,
             v_visualization = visualization',
             v_timezone = timezone',
             v_filter = filter_constrainToDimensions C filter0 (ds_dimensions ds)
                          (ds_timeAttribute ds) None,
             v_requiredFilter = filter_constrainToDimensions C requiredFilter0
                                  (ds_dimensions ds) (ds_timeAttribute ds) None,
             v_splits = splits_constrainToDimensions C splits0 (ds_dimensions ds),
             v_selectedMeasures = constrainMeasures selectedMeasures0 ds,
             v_pinnedDimensions = constrainDimensions pinnedDimensions0 ds,
             v_colors = colors',
             v_pinnedSort = pinnedSort',
             v_compare = map_option (\<lambda>f. filter_constrainToDimensions C f (ds_dimensions ds)
                                            (ds_timeAttribute ds) None) compare0,
             v_highlight = map_option (\<lambda>h. highlight_constrainToDimensions C h
                                              (ds_dimensions ds) (ds_timeAttribute ds))
                             highlight0 \<rparr>))))))))))"

text \<open>
  The payload of a hash: \<^verbatim>\<open>JSON.parse('[' + decompressFromBase64(s) + ']')\<close>;
  a \<^verbatim>\<open>null\<close> from the decompression is concatenated as the text \<^verbatim>\<open>null\<close>.
\<close>

definition parsePayload :: "('s, 'c) collaborators \<Rightarrow> string \<Rightarrow> error + json" where
  "parsePayload C s =
     bindE (decompressFromBase64 C s) (\<lambda>d.
       parse C (''['' @ (case d of None \<Rightarrow> ''null'' | Some t \<Rightarrow> t) @ '']''))"

text \<open>
  The first two statements of \<^verbatim>\<open>fromHash\<close>: a leading \<^verbatim>\<open>#\<close> is trimmed and
  the rest is split at every \<^verbatim>\<open>/\<close>.
\<close>

definition hashParts :: "string \<Rightarrow> string list" where
  "hashParts hash =
     (let hash1 = (if hash \<noteq> [] \<and> hd hash = CHR ''#'' then tl hash else hash)
      in split (CHR ''/'') hash1)"

text \<open>
  \<^verbatim>\<open>fromHash(hash, dataSources, visualizations)\<close>. The result \<open>Inr None\<close> is
  \<^verbatim>\<open>return null\<close>; \<open>Inl\<close> would be an exception leaving the function. Both
  \<^verbatim>\<open>try\<close> blocks turn whatever is thrown inside them into \<^verbatim>\<open>return null\<close>.
\<close>

definition fromHash ::
  "('s, 'c) collaborators \<Rightarrow> string \<Rightarrow> dataSource list \<Rightarrow> ('s, 'c) manifest list
   \<Rightarrow> error + ('s, 'c) essence option" where
  "fromHash C hash dss viss =
     (let parts = hashParts hash
      in if length parts < 4 then Inr None
         else
          (let dataSource' = parts ! 0;
               visualization' = parts ! 1;
               version = parseInt (parts ! 2);
               parts' = drop 3 parts
           in if version \<noteq> Some 1 then Inr None
              else
               (case parsePayload C (join ''/'' parts') of
                  Inl e \<Rightarrow> Inr None
                | Inr (JArr jsArray) \<Rightarrow>
                   (let jsArrayLength = length jsArray
                    in if \<not> (6 \<le> jsArrayLength \<and> jsArrayLength \<le> 9) then Inr None
                       else
                        (case fromJS C
                                \<lparr> js_dataSource = dataSource',
                                  js_visualization = visualization',
                                  js_timezone = jsArray ! 0,
                                  js_filter = jsArray ! 1,
                                  js_requiredFilter = jsArray ! 2,
                                  js_splits = jsArray ! 3,
                                  js_selectedMeasures = jsArray ! 4,
                                  js_pinnedDimensions = jsArray ! 5,
                                  js_colors = Some (orNull (index jsArray 7)),
                                  js_pinnedSort = index jsArray 6,
                                  js_compare = Some (orNull (index jsArray 8)),
                                  js_highlight = Some (orNull (index jsArray 9)) \<rparr>
                                dss viss of
                           Inl e \<Rightarrow> Inr None
                         | Inr essence' \<Rightarrow> Inr (Some essence')))
                | Inr _ \<Rightarrow> Inr None)))"

text \<open>\<^verbatim>\<open>fromDataSource(dataSource, dataSources, visualizations)\<close>.\<close>

definition fromDataSource ::
  "('s, 'c) collaborators \<Rightarrow> dataSource \<Rightarrow> dataSource list \<Rightarrow> ('s, 'c) manifest list
   \<Rightarrow> error + ('s, 'c) essence" where
  "fromDataSource C ds dss viss =
     (let timezone' = ds_defaultTimezone ds;
          requiredFilter' = ds_requiredFilter ds;
          filter0 = ds_defaultFilter ds;
          filter1 = (case clauses requiredFilter' of
                       [] \<Rightarrow> filter0
                     | c # cs \<Rightarrow> setClause C filter0 c);
          filter2 = (case ds_timeAttribute ds of
                       None \<Rightarrow> filter1
                     | Some timeAttribute \<Rightarrow>
                         (let now = getMaxTimeDate C ds;
                              timeRange' = \<lparr> tr_start = duration_move C (ds_defaultDuration ds)
                                                           now timezone' (- 1),
                                             tr_end = now \<rparr>
                          in setTimeRange C filter1 timeAttribute timeRange'));
          splits' = (case ds_defaultSplitDimension ds of
                       Some (JStr n) \<Rightarrow>
                         (let splits1 = (case getDimension ds n of
                                           Some defaultSplitDimension \<Rightarrow>
                                             splitsFromExpression C
                                               (dim_expression defaultSplitDimension)
                                         | None \<Rightarrow> splits_EMPTY C)
                          in case ds_timeAttribute ds of
                               Some timeAttribute \<Rightarrow>
                                 updateWithTimeRange C splits1 timeAttribute
                                   (getTimeRange C filter2 timeAttribute) timezone' False
                             | None \<Rightarrow> splits1)
                     | _ \<Rightarrow> splits_EMPTY C)
      in Essence C
           \<lparr> v_dataSources = dss,
             v_visualizations = viss,
             v_dataSource = Some ds,
             v_visualization = None,
             v_timezone = timezone',
             v_filter = filter2,
             v_requiredFilter = requiredFilter',
             v_splits = splits',
             v_selectedMeasures = OrderedSet (map m_name (take 4 (ds_measures ds))),
             v_pinnedDimensions = ds_defaultPinnedDimensions ds,
             v_colors = None,
             v_pinnedSort = ds_defaultSortMeasure ds,
             v_compare = None,
             v_highlight = None \<rparr>)"

text \<open>\<^verbatim>\<open>getTimeAttribute()\<close>.\<close>

definition getTimeAttribute :: "('s, 'c) essence \<Rightarrow> expression option" where
  "getTimeAttribute this = ds_timeAttribute (dataSource this)"

text \<open>
  \<^verbatim>\<open>getEffectiveFilter(highlightId = null, unfilterDimension = null)\<close>;
  \<open>None\<close> is \<^verbatim>\<open>null\<close>, which differs from every owner.
\<close>

definition getEffectiveFilter ::
  "('s, 'c) collaborators \<Rightarrow> ('s, 'c) essence \<Rightarrow> string option \<Rightarrow> dimension option
   \<Rightarrow> pivotFilter" where
  "getEffectiveFilter C this highlightId unfilterDimension =
     (let filter1 = (case highlight this of
                       Some h \<Rightarrow> if highlightId \<noteq> Some (owner h)
                                 then applyToFilter C h (filter' this) else filter' this
                     | None \<Rightarrow> filter' this)
      in case unfilterDimension of
           Some d \<Rightarrow> filter_remove C filter1 (dim_expression d)
         | None \<Rightarrow> filter1)"

text \<open>\<^verbatim>\<open>changeDataSource(dataSource)\<close>.\<close>

definition changeDataSource ::
  "('s, 'c) collaborators \<Rightarrow> ('s, 'c) essence \<Rightarrow> dataSource \<Rightarrow> error + ('s, 'c) essence" where
  "changeDataSource C this ds =
     (let dataSourceName = ds_name ds
      in case find (\<lambda>d. ds_name d = dataSourceName) (dataSources this) of
           None \<Rightarrow> Inl (UnknownDataSource dataSourceName)
         | Some existingDataSource \<Rightarrow>
             if existingDataSource = ds
             then fromDataSource C ds (dataSources this) (visualizations this)
             else if ds_name (dataSource this) \<noteq> ds_name ds then Inl NonSelectedDataSource
             else
              (let value = valueOf this;
                   oldDataSource = dataSource this;
                   defaultSortMeasureName = ds_defaultSortMeasure ds
               in Essence C
                    (value
                      \<lparr> v_dataSource := Some ds,
                        v_dataSources :=
                          map (\<lambda>d. if ds_name d = dataSourceName then ds else d)
                            (dataSources this),
                        v_filter :=
                          filter_constrainToDimensions C (v_filter value) (ds_dimensions ds)
                            (ds_timeAttribute ds) (ds_timeAttribute oldDataSource),
                        v_requiredFilter :=
                          filter_constrainToDimensions C (v_requiredFilter value)
                            (ds_dimensions ds) (ds_timeAttribute ds)
                            (ds_timeAttribute oldDataSource),
                        v_splits :=
                          splits_constrainToDimensions C (v_splits value) (ds_dimensions ds),
                        v_selectedMeasures := constrainMeasures (v_selectedMeasures value) ds,
                        v_pinnedDimensions := constrainDimensions (v_pinnedDimensions value) ds,
                        v_colors :=
                          (case v_colors value of
                             Some c \<Rightarrow> if getDimension ds (colors_dimension C c) = None
                                       then None else Some c
                           | None \<Rightarrow> None),
                        v_pinnedSort :=
                          (if getMeasure ds (v_pinnedSort value) = None
                           then defaultSortMeasureName else v_pinnedSort value),
                        v_compare :=
                          map_option (\<lambda>f. filter_constrainToDimensions C f (ds_dimensions ds)
                                             (ds_timeAttribute ds) None) (v_compare value),
                        v_highlight :=
                          map_option (\<lambda>h. highlight_constrainToDimensions C h
                                             (ds_dimensions ds) (ds_timeAttribute ds))
                            (v_highlight value) \<rparr>)))"

text \<open>
  \<^verbatim>\<open>changeFilter(filter, removeHighlight = false)\<close>. The filter is an
  object, so the guard \<^verbatim>\<open>if (value.filter)\<close> holds. The time ranges are
  \<^verbatim>\<open>null\<close> when the data source has no time attribute, and a time range
  never equals \<^verbatim>\<open>null\<close>.
\<close>

definition changeFilter ::
  "('s, 'c) collaborators \<Rightarrow> ('s, 'c) essence \<Rightarrow> pivotFilter \<Rightarrow> bool
   \<Rightarrow> error + ('s, 'c) essence" where
  "changeFilter C this newFilter removeHighlight =
     (let value = (valueOf this) \<lparr> v_filter := newFilter \<rparr>;
          value = (if removeHighlight then value \<lparr> v_highlight := None \<rparr> else value);
          value =
            (case getTimeAttribute this of
               None \<Rightarrow> value
             | Some timeAttribute \<Rightarrow>
                (let oldTimeRange = getTimeRange C (filter' this) timeAttribute;
                     newTimeRange = getTimeRange C newFilter timeAttribute
                 in case newTimeRange of
                      None \<Rightarrow> value
                    | Some tr \<Rightarrow>
                        if Some tr \<noteq> oldTimeRange
                        then value \<lparr> v_splits := updateWithTimeRange C (v_splits value)
                                                    timeAttribute (Some tr) (timezone this)
                                                    True \<rparr>
                        else value))
      in Essence C value)"

text \<open>\<^verbatim>\<open>changeSplits(splits, strategy)\<close>.\<close>

definition changeSplits ::
  "('s, 'c) collaborators \<Rightarrow> ('s, 'c) essence \<Rightarrow> 's \<Rightarrow> VisStrategy
   \<Rightarrow> error + ('s, 'c) essence" where
  "changeSplits C this newSplits strategy =
     (let splits1 = (case getTimeAttribute this of
                       Some timeAttribute \<Rightarrow>
                         updateWithTimeRange C newSplits timeAttribute
                           (getTimeRange C (filter' this) timeAttribute) (timezone this) False
                     | None \<Rightarrow> newSplits);
          strategy1 = (if isManual (visResolve this) then KeepAlways else strategy)
      in case (if strategy1 \<noteq> KeepAlways
               then (case getBestVisualization C (visualizations this) (dataSource this)
                             splits1 (colors this)
                             (if strategy1 = FairGame then None
                              else Some (visualization this)) of
                       None \<Rightarrow> Inl TypeError
                     | Some visAndResolve \<Rightarrow> Inr (vr_visualization visAndResolve))
               else Inr (visualization this)) of
           Inl e \<Rightarrow> Inl e
         | Inr visualization' \<Rightarrow>
            (let value = (valueOf this) \<lparr> v_splits := splits1,
                                          v_visualization := Some visualization' \<rparr>;
                 value = (case v_highlight value of
                            Some h \<Rightarrow> value \<lparr> v_filter := applyToFilter C h (v_filter value),
                                              v_highlight := None \<rparr>
                          | None \<Rightarrow> value)
             in Essence C value))"

text \<open>\<^verbatim>\<open>toggleMeasure(measure)\<close>.\<close>

definition toggleMeasure ::
  "('s, 'c) collaborators \<Rightarrow> ('s, 'c) essence \<Rightarrow> measure \<Rightarrow> error + ('s, 'c) essence" where
  "toggleMeasure C this m =
     (let value = valueOf this;
          selectedMeasures' = v_selectedMeasures value;
          measureName = m_name m
      in Essence C
           (value \<lparr> v_selectedMeasures :=
              (if measureName \<in> set selectedMeasures'
               then filter (\<lambda>n. n \<noteq> measureName) selectedMeasures'
               else OrderedSet
                      (filter (\<lambda>n. n \<in> set selectedMeasures' \<or> n = measureName)
                         (map m_name (ds_measures (dataSource this))))) \<rparr>))"

text \<open>
  A selection is in the order the data source declares when it lists measures of
  the data source, each once, in the order of \<^verbatim>\<open>dataSource.measures\<close>.
\<close>

definition inDataSourceOrder :: "dataSource \<Rightarrow> string list \<Rightarrow> bool" where
  "inDataSourceOrder ds sel =
     (sel = filter (\<lambda>n. n \<in> set sel) (OrderedSet (map m_name (ds_measures ds))))"

text \<open>\<^verbatim>\<open>acceptHighlight()\<close>.\<close>

definition acceptHighlight ::
  "('s, 'c) collaborators \<Rightarrow> ('s, 'c) essence \<Rightarrow> error + ('s, 'c) essence" where
  "acceptHighlight C this =
     (case highlight this of
        None \<Rightarrow> Inr this
      | Some h \<Rightarrow> changeFilter C this (applyToFilter C h (filter' this)) True)"

section \<open>An instance of the collaborators, for the examples\<close>

text \<open>
  The identity for the compression, and a reader and a printer of JSON texts for
  \<^verbatim>\<open>JSON.parse\<close> and \<^verbatim>\<open>JSON.stringify\<close> (strings without escapes, integers).
\<close>

definition digitChar :: "nat \<Rightarrow> char" where
  "digitChar d = ''0123456789'' ! d"

function showNat :: "nat \<Rightarrow> string" where
  "showNat n = (if n < 10 then [digitChar n] else showNat (n div 10) @ [digitChar (n mod 10)])"
  by pat_completeness auto
termination
  by (relation "measure id") auto

declare showNat.simps [simp del]

definition showInt :: "int \<Rightarrow> string" where
  "showInt i = (if i < 0 then CHR ''-'' # showNat (nat (- i)) else showNat (nat i))"

fun demoStringify :: "json \<Rightarrow> string"
  and demoStringifyElements :: "json list \<Rightarrow> string"
  and demoStringifyMembers :: "(string \<times> json) list \<Rightarrow> string"
  and demoStringifyMember :: "string \<times> json \<Rightarrow> string" where
  "demoStringify JNull = ''null''"
| "demoStringify (JBool b) = (if b then ''true'' else ''false'')"
| "demoStringify (JNum n) = showInt n"
| "demoStringify (JStr s) = CHR 0x22 # s @ [CHR 0x22]"
| "demoStringify (JArr xs) = ''['' @ demoStringifyElements xs @ '']''"
| "demoStringify (JObj kvs) = ''{'' @ demoStringifyMembers kvs @ ''}''"
| "demoStringifyElements [] = []"
| "demoStringifyElements [x] = demoStringify x"
| "demoStringifyElements (x # y # ys) = demoStringify x @ '','' @ demoStringifyElements (y # ys)"
| "demoStringifyMembers [] = []"
| "demoStringifyMembers [m] = demoStringifyMember m"
| "demoStringifyMembers (m # m' # ms) = demoStringifyMember m @ '','' @ demoStringifyMembers (m' # ms)"
| "demoStringifyMember (k, v) = CHR 0x22 # k @ [CHR 0x22] @ '':'' @ demoStringify v"

definition startsWith :: "string \<Rightarrow> string \<Rightarrow> bool" where
  "startsWith p s = (take (length p) s = p)"

fun parseString :: "string \<Rightarrow> string \<Rightarrow> (string \<times> string) option" where
  "parseString acc [] = None"
| "parseString acc (c # cs) =
     (if c = CHR 0x22 then Some (rev acc, cs) else parseString (c # acc) cs)"

fun parseValue :: "'f list \<Rightarrow> string \<Rightarrow> (json \<times> string) option"
  and parseElements :: "'f list \<Rightarrow> string \<Rightarrow> (json list \<times> string) option"
  and parseMembers :: "'f list \<Rightarrow> string \<Rightarrow> ((string \<times> json) list \<times> string) option" where
  "parseValue [] s = None"
| "parseValue (f # fuel) s =
     (if startsWith ''null'' s then Some (JNull, drop 4 s)
      else if startsWith ''true'' s then Some (JBool True, drop 4 s)
      else if startsWith ''false'' s then Some (JBool False, drop 5 s)
      else if startsWith ''[]'' s then Some (JArr [], drop 2 s)
      else if startsWith ''{}'' s then Some (JObj [], drop 2 s)
      else if startsWith ''['' s then
        (case parseElements fuel (drop 1 s) of
           None \<Rightarrow> None
         | Some xr \<Rightarrow> Some (JArr (fst xr), snd xr))
      else if startsWith ''{'' s then
        (case parseMembers fuel (drop 1 s) of
           None \<Rightarrow> None
         | Some mr \<Rightarrow> Some (JObj (fst mr), snd mr))
      else if startsWith [CHR 0x22] s then
        (case parseString [] (drop 1 s) of
           None \<Rightarrow> None
         | Some tr \<Rightarrow> Some (JStr (fst tr), snd tr))
      else if startsWith ''-'' s \<and> takeWhile isDigit (drop 1 s) \<noteq> [] then
        Some (JNum (- digitsValue (takeWhile isDigit (drop 1 s))), dropWhile isDigit (drop 1 s))
      else if takeWhile isDigit s \<noteq> [] then
        Some (JNum (digitsValue (takeWhile isDigit s)), dropWhile isDigit s)
      else None)"
| "parseElements [] s = None"
| "parseElements (f # fuel) s =
     (case parseValue fuel s of
        None \<Rightarrow> None
      | Some vr \<Rightarrow>
          if startsWith '','' (snd vr) then
            (case parseElements fuel (drop 1 (snd vr)) of
               None \<Rightarrow> None
             | Some xr \<Rightarrow> Some (fst vr # fst xr, snd xr))
          else if startsWith '']'' (snd vr) then Some ([fst vr], drop 1 (snd vr))
          else None)"
| "parseMembers [] s = None"
| "parseMembers (f # fuel) s =
     (if \<not> startsWith [CHR 0x22] s then None
      else case parseString [] (drop 1 s) of
        None \<Rightarrow> None
      | Some kr \<Rightarrow>
         if \<not> startsWith '':'' (snd kr) then None
         else case parseValue fuel (drop 1 (snd kr)) of
           None \<Rightarrow> None
         | Some vr \<Rightarrow>
             if startsWith '','' (snd vr) then
               (case parseMembers fuel (drop 1 (snd vr)) of
                  None \<Rightarrow> None
                | Some mr \<Rightarrow> Some ((fst kr, fst vr) # fst mr, snd mr))
             else if startsWith ''}'' (snd vr) then Some ([(fst kr, fst vr)], drop 1 (snd vr))
             else None)"

definition demoParse :: "string \<Rightarrow> error + json" where
  "demoParse s =
     (case parseValue (s @ s @ s) s of
        None \<Rightarrow> Inl SyntaxError
      | Some vr \<Rightarrow> if snd vr = [] then Inr (fst vr) else Inl SyntaxError)"

text \<open>The type and the members of the set held by a clause.\<close>

fun setTypeOf :: "dynamicValue \<Rightarrow> string" where
  "setTypeOf (SetValue s) = setType s"
| "setTypeOf (NativeSetValue xs) = []"
| "setTypeOf (OtherValue v) = []"

fun setElements :: "dynamicValue \<Rightarrow> json list" where
  "setElements (SetValue s) = elements s"
| "setElements (NativeSetValue xs) = xs"
| "setElements (OtherValue v) = []"

text \<open>Value objects: splits are pairs of a dimension name and a bucket width, colors a dimension name.\<close>

type_synonym demoSplits = "(string \<times> int) list"

type_synonym demoColors = string

definition isRef :: "dimension list \<Rightarrow> expression \<Rightarrow> bool" where
  "isRef dims ex = (case ex of RefExpression n \<Rightarrow> n \<in> set (map dim_name dims) | OtherExpression j \<Rightarrow> False)"

definition demoConstrainFilter :: "pivotFilter \<Rightarrow> dimension list \<Rightarrow> pivotFilter" where
  "demoConstrainFilter f dims = \<lparr> clauses = filter (\<lambda>c. isRef dims (fc_expression c)) (clauses f) \<rparr>"

definition demoSetClause :: "pivotFilter \<Rightarrow> filterClause \<Rightarrow> pivotFilter" where
  "demoSetClause f c =
     (if fc_expression c \<in> set (map fc_expression (clauses f))
      then \<lparr> clauses = map (\<lambda>d. if fc_expression d = fc_expression c then c else d) (clauses f) \<rparr>
      else \<lparr> clauses = clauses f @ [c] \<rparr>)"

definition timeClause :: "expression \<Rightarrow> timeRange \<Rightarrow> filterClause" where
  "timeClause ex tr =
     \<lparr> fc_expression = ex,
       fc_values = SetValue \<lparr> setType = ''TIME_RANGE'',
                              elements = [JArr [JNum (tr_start tr), JNum (tr_end tr)]] \<rparr>,
       fc_exclude = False,
       fc_required = False \<rparr>"

definition demoGetTimeRange :: "pivotFilter \<Rightarrow> expression \<Rightarrow> timeRange option" where
  "demoGetTimeRange f ex =
     (case find (\<lambda>c. fc_expression c = ex) (clauses f) of
        None \<Rightarrow> None
      | Some c \<Rightarrow>
         (case setElements (fc_values c) of
            [JArr [JNum a, JNum b]] \<Rightarrow> Some \<lparr> tr_start = a, tr_end = b \<rparr>
          | _ \<Rightarrow> None))"

definition expressionToJS :: "expression \<Rightarrow> json" where
  "expressionToJS ex = (case ex of RefExpression n \<Rightarrow> JStr n | OtherExpression j \<Rightarrow> JArr [j])"

definition clauseToJS :: "filterClause \<Rightarrow> json" where
  "clauseToJS c =
     JArr [expressionToJS (fc_expression c),
           JStr (setTypeOf (fc_values c)),
           JArr (setElements (fc_values c)),
           JBool (fc_exclude c),
           JBool (fc_required c)]"

definition clauseFromJS :: "json \<Rightarrow> error + filterClause" where
  "clauseFromJS j =
     (case j of
        JArr [JStr n, JStr t, JArr es, JBool ex, JBool rq] \<Rightarrow>
          FilterClause \<lparr> fcv_expression = RefExpression n,
                         fcv_values = SetValue \<lparr> setType = t, elements = es \<rparr>,
                         fcv_exclude = Some ex,
                         fcv_required = Some rq \<rparr>
      | JArr [JArr [e], JStr t, JArr es, JBool ex, JBool rq] \<Rightarrow>
          FilterClause \<lparr> fcv_expression = OtherExpression e,
                         fcv_values = SetValue \<lparr> setType = t, elements = es \<rparr>,
                         fcv_exclude = Some ex,
                         fcv_required = Some rq \<rparr>
      | _ \<Rightarrow> Inl (CollaboratorError ''clause''))"

fun mapE :: "('a \<Rightarrow> error + 'b) \<Rightarrow> 'a list \<Rightarrow> error + 'b list" where
  "mapE f [] = Inr []"
| "mapE f (x # xs) =
     (case f x of
        Inl e \<Rightarrow> Inl e
      | Inr y \<Rightarrow> (case mapE f xs of Inl e \<Rightarrow> Inl e | Inr ys \<Rightarrow> Inr (y # ys)))"

definition demoFilterFromJS :: "json \<Rightarrow> error + pivotFilter" where
  "demoFilterFromJS j =
     (case j of
        JArr cs \<Rightarrow> (case mapE clauseFromJS cs of Inl e \<Rightarrow> Inl e | Inr xs \<Rightarrow> Inr \<lparr> clauses = xs \<rparr>)
      | _ \<Rightarrow> Inl (CollaboratorError ''filter''))"

definition splitFromJS :: "json \<Rightarrow> error + string \<times> int" where
  "splitFromJS j =
     (case j of JArr [JStr n, JNum b] \<Rightarrow> Inr (n, b) | _ \<Rightarrow> Inl (CollaboratorError ''split''))"

definition stringMember :: "json \<Rightarrow> error + string" where
  "stringMember j = (case j of JStr n \<Rightarrow> Inr n | _ \<Rightarrow> Inl TypeError)"

definition demo :: "(demoSplits, demoColors) collaborators" where
  "demo =
     \<lparr> compressToBase64 = (\<lambda>s. s),
       decompressFromBase64 = (\<lambda>s. Inr (if s = [] then None else Some s)),
       stringify = demoStringify,
       parse = demoParse,
       orderedSetFromJS =
         (\<lambda>j. case j of
                JNull \<Rightarrow> Inr []
              | JArr xs \<Rightarrow> (case mapE stringMember xs of Inl e \<Rightarrow> Inl e | Inr ns \<Rightarrow> Inr (OrderedSet ns))
              | _ \<Rightarrow> Inl TypeError),
       timezone_toJS = (\<lambda>z. case z of Timezone n \<Rightarrow> JStr n),
       timezone_fromJS =
         (\<lambda>j. case j of JStr n \<Rightarrow> Inr (Timezone n) | _ \<Rightarrow> Inl (CollaboratorError ''timezone'')),
       filter_toJS = (\<lambda>f. JArr (map clauseToJS (clauses f))),
       filter_fromJS = demoFilterFromJS,
       splits_toJS = (\<lambda>sp. JArr (map (\<lambda>s. JArr [JStr (fst s), JNum (snd s)]) sp)),
       splits_fromJS =
         (\<lambda>j. case j of JArr xs \<Rightarrow> mapE splitFromJS xs | _ \<Rightarrow> Inl (CollaboratorError ''splits'')),
       colors_toJS = JStr,
       colors_fromJS =
         (\<lambda>j. case j of JStr n \<Rightarrow> Inr n | _ \<Rightarrow> Inl (CollaboratorError ''colors'')),
       highlight_toJS = (\<lambda>h. JArr [JStr (owner h), JArr (map clauseToJS (clauses (delta h)))]),
       highlight_fromJS =
         (\<lambda>j. case j of
                JArr [JStr ow, d] \<Rightarrow>
                  (case demoFilterFromJS d of
                     Inl e \<Rightarrow> Inl e
                   | Inr f \<Rightarrow> Inr \<lparr> owner = ow, delta = f \<rparr>)
              | _ \<Rightarrow> Inl (CollaboratorError ''highlight'')),
       filter_constrainToDimensions = (\<lambda>f dims ta old. demoConstrainFilter f dims),
       splits_constrainToDimensions =
         (\<lambda>sp dims. filter (\<lambda>s. fst s \<in> set (map dim_name dims)) sp),
       highlight_constrainToDimensions =
         (\<lambda>h dims ta. \<lparr> owner = owner h, delta = demoConstrainFilter (delta h) dims \<rparr>),
       setClause = demoSetClause,
       setTimeRange = (\<lambda>f ex tr. demoSetClause f (timeClause ex tr)),
       getTimeRange = demoGetTimeRange,
       filter_remove = (\<lambda>f ex. \<lparr> clauses = filter (\<lambda>c. fc_expression c \<noteq> ex) (clauses f) \<rparr>),
       applyToFilter = (\<lambda>h f. foldl demoSetClause f (clauses (delta h))),
       splits_EMPTY = [],
       splitsFromExpression =
         (\<lambda>ex. case ex of RefExpression n \<Rightarrow> [(n, 0)] | OtherExpression j \<Rightarrow> []),
       updateWithTimeRange =
         (\<lambda>sp ex tr z force.
            map (\<lambda>s. if RefExpression (fst s) = ex
                      then (fst s, case tr of None \<Rightarrow> snd s | Some r \<Rightarrow> tr_end r - tr_start r)
                      else s) sp),
       colors_dimension = (\<lambda>c. c),
       duration_move = (\<lambda>d t z n. t + n * 1000),
       getMaxTimeDate = (\<lambda>ds. 5000),
       resolve_compare = (\<lambda>r1 r2. r_score r2 - r_score r1) \<rparr>"

text \<open>Verdicts and three visualizations.\<close>

definition ready :: "int \<Rightarrow> (demoSplits, demoColors) resolve" where
  "ready n = \<lparr> r_state = ReadyState, r_score = n, r_adjustment = None \<rparr>"

definition manual :: "int \<Rightarrow> (demoSplits, demoColors) resolve" where
  "manual n = \<lparr> r_state = ManualState, r_score = n, r_adjustment = None \<rparr>"

definition automatic :: "int \<Rightarrow> demoSplits \<Rightarrow> (demoSplits, demoColors) resolve" where
  "automatic n sp =
     \<lparr> r_state = AutomaticState, r_score = n,
       r_adjustment = Some \<lparr> adj_splits = sp, adj_colors = None \<rparr> \<rparr>"

text \<open>Totals renders no split at all, and suggests to drop the splits otherwise.\<close>

definition totals :: "(demoSplits, demoColors) manifest" where
  "totals =
     \<lparr> vis_id = ''totals'',
       handleCircumstance = (\<lambda>ds sp cl current. if sp = [] then ready 10 else automatic 3 []) \<rparr>"

text \<open>The table renders any split, and asks the user for one when there is none.\<close>

definition table :: "(demoSplits, demoColors) manifest" where
  "table =
     \<lparr> vis_id = ''table'',
       handleCircumstance = (\<lambda>ds sp cl current. if sp = [] then manual 0 else ready 8) \<rparr>"

text \<open>The bar chart renders any split with a lower score, and is manual without one.\<close>

definition barChart :: "(demoSplits, demoColors) manifest" where
  "barChart =
     \<lparr> vis_id = ''bar-chart'',
       handleCircumstance = (\<lambda>ds sp cl current. if sp = [] then manual 0 else ready 5) \<rparr>"

text \<open>A visualization that is still not ready after its own adjustment.\<close>

definition broken :: "(demoSplits, demoColors) manifest" where
  "broken =
     \<lparr> vis_id = ''broken'',
       handleCircumstance = (\<lambda>ds sp cl current. automatic 1 []) \<rparr>"

definition demoVisualizations :: "(demoSplits, demoColors) manifest list" where
  "demoVisualizations = [totals, table, barChart]"

text \<open>A data source with a time attribute, and a second one.\<close>

definition wiki :: dataSource where
  "wiki =
     \<lparr> ds_name = ''wiki'',
       ds_dimensions = [\<lparr> dim_name = ''time'', dim_expression = RefExpression ''time'' \<rparr>,
                        \<lparr> dim_name = ''country'', dim_expression = RefExpression ''country'' \<rparr>,
                        \<lparr> dim_name = ''page'', dim_expression = RefExpression ''page'' \<rparr>],
       ds_measures = [\<lparr> m_name = ''count'' \<rparr>, \<lparr> m_name = ''added'' \<rparr>, \<lparr> m_name = ''deleted'' \<rparr>],
       ds_timeAttribute = Some (RefExpression ''time''),
       ds_defaultTimezone = Timezone ''Etc/UTC'',
       ds_defaultDuration = Duration ''P1D'',
       ds_defaultFilter = \<lparr> clauses = [] \<rparr>,
       ds_requiredFilter = \<lparr> clauses = [] \<rparr>,
       ds_defaultSortMeasure = ''count'',
       ds_defaultPinnedDimensions = [''country''],
       ds_defaultSplitDimension = None \<rparr>"

definition sales :: dataSource where
  "sales =
     \<lparr> ds_name = ''sales'',
       ds_dimensions = [\<lparr> dim_name = ''region'', dim_expression = RefExpression ''region'' \<rparr>],
       ds_measures = [\<lparr> m_name = ''revenue'' \<rparr>],
       ds_timeAttribute = None,
       ds_defaultTimezone = Timezone ''Etc/UTC'',
       ds_defaultDuration = Duration ''P1D'',
       ds_defaultFilter = \<lparr> clauses = [] \<rparr>,
       ds_requiredFilter = \<lparr> clauses = [] \<rparr>,
       ds_defaultSortMeasure = ''revenue'',
       ds_defaultPinnedDimensions = [],
       ds_defaultSplitDimension = None \<rparr>"

definition demoDataSources :: "dataSource list" where
  "demoDataSources = [wiki, sales]"

definition countryClause :: filterClause where
  "countryClause =
     \<lparr> fc_expression = RefExpression ''country'',
       fc_values = SetValue \<lparr> setType = ''STRING'', elements = [JStr ''US''] \<rparr>,
       fc_exclude = False,
       fc_required = False \<rparr>"

text \<open>A value for the constructor, on the table, split by country.\<close>

definition demoValue :: "(demoSplits, demoColors) EssenceValue" where
  "demoValue =
     \<lparr> v_dataSources = demoDataSources,
       v_visualizations = demoVisualizations,
       v_dataSource = Some wiki,
       v_visualization = Some table,
       v_timezone = Timezone ''Etc/UTC'',
       v_filter = \<lparr> clauses = [timeClause (RefExpression ''time'') \<lparr> tr_start = 4000, tr_end = 5000 \<rparr>] \<rparr>,
       v_requiredFilter = \<lparr> clauses = [] \<rparr>,
       v_splits = [(''country'', 0)],
       v_selectedMeasures = [''count'', ''added''],
       v_pinnedDimensions = [''country''],
       v_colors = None,
       v_pinnedSort = ''count'',
       v_compare = None,
       v_highlight = None \<rparr>"

text \<open>The state that the constructor builds from \<open>demoValue\<close>.\<close>

definition demoEssence :: "(demoSplits, demoColors) essence" where
  "demoEssence =
     \<lparr> dataSources = demoDataSources,
       visualizations = demoVisualizations,
       dataSource = wiki,
       visualization = table,
       timezone = Timezone ''Etc/UTC'',
       filter' = \<lparr> clauses = [timeClause (RefExpression ''time'') \<lparr> tr_start = 4000, tr_end = 5000 \<rparr>] \<rparr>,
       requiredFilter = \<lparr> clauses = [] \<rparr>,
       splits = [(''country'', 0)],
       selectedMeasures = [''count'', ''added''],
       pinnedDimensions = [''country''],
       colors = None,
       pinnedSort = ''count'',
       compare = None,
       highlight = None,
       visResolve = ready 8 \<rparr>"

text \<open>The bar chart without a split: a state in manual mode.\<close>

definition demoManual :: "(demoSplits, demoColors) essence" where
  "demoManual = demoEssence \<lparr> visualization := barChart, splits := [], visResolve := manual 0 \<rparr>"

text \<open>A state with a pending highlight on the country.\<close>

definition demoHighlight :: highlight where
  "demoHighlight = \<lparr> owner = ''table'', delta = \<lparr> clauses = [countryClause] \<rparr> \<rparr>"

definition demoHighlighted :: "(demoSplits, demoColors) essence" where
  "demoHighlighted = demoEssence \<lparr> highlight := Some demoHighlight \<rparr>"

text \<open>A state split by time and by country.\<close>

definition demoTimeSplit :: "(demoSplits, demoColors) essence" where
  "demoTimeSplit = demoEssence \<lparr> splits := [(''time'', 1000), (''country'', 0)] \<rparr>"

text \<open>A state whose filter and selection are not the defaults of the data source.\<close>

definition demoFiltered :: "(demoSplits, demoColors) essence" where
  "demoFiltered =
     demoEssence
       \<lparr> filter' := \<lparr> clauses = [timeClause (RefExpression ''time'') \<lparr> tr_start = 3000, tr_end = 5000 \<rparr>,
                                 countryClause] \<rparr>,
         selectedMeasures := [''added''] \<rparr>"

text \<open>A state whose selection is not in the order of the data source.\<close>

definition demoSwapped :: "(demoSplits, demoColors) essence" where
  "demoSwapped = demoEssence \<lparr> selectedMeasures := [''added'', ''count''] \<rparr>"

text \<open>The data source \<open>wiki\<close> refreshed: the same name, one more measure.\<close>

definition wikiRefreshed :: dataSource where
  "wikiRefreshed =
     wiki \<lparr> ds_measures := [\<lparr> m_name = ''count'' \<rparr>, \<lparr> m_name = ''added'' \<rparr>,
                             \<lparr> m_name = ''deleted'' \<rparr>, \<lparr> m_name = ''edits'' \<rparr>] \<rparr>"

text \<open>The payload of the hash of \<open>demoEssence\<close>: seven values, the last one the pinned sort.\<close>

definition demoPayload :: string where
  \<open>demoPayload = ''"Etc/UTC",[["time","TIME_RANGE",[[4000,5000]],false,false]],[],[["country",0]],["count","added"],["country"],null''\<close>

text \<open>The state of the defaults of \<open>sales\<close>, and the one of the defaults of \<open>wikiRefreshed\<close>.\<close>

definition demoSalesDefault :: "(demoSplits, demoColors) essence" where
  "demoSalesDefault =
     \<lparr> dataSources = demoDataSources,
       visualizations = demoVisualizations,
       dataSource = sales,
       visualization = totals,
       timezone = Timezone ''Etc/UTC'',
       filter' = \<lparr> clauses = [] \<rparr>,
       requiredFilter = \<lparr> clauses = [] \<rparr>,
       splits = [],
       selectedMeasures = [''revenue''],
       pinnedDimensions = [],
       colors = None,
       pinnedSort = ''revenue'',
       compare = None,
       highlight = None,
       visResolve = ready 10 \<rparr>"

definition demoWikiDefault :: "(demoSplits, demoColors) essence" where
  "demoWikiDefault =
     demoEssence
       \<lparr> dataSource := wikiRefreshed,
         visualization := totals,
         splits := [],
         selectedMeasures := [''count'', ''added'', ''deleted'', ''edits''],
         visResolve := ready 10 \<rparr>"

text \<open>A state with colors and a compare filter, and no highlight.\<close>

definition demoColored :: "(demoSplits, demoColors) essence" where
  "demoColored =
     demoEssence \<lparr> colors := Some ''page'', compare := Some \<lparr> clauses = [countryClause] \<rparr> \<rparr>"


text \<open>
  A time series renders one split by time with a bucket of 1000, and adjusts any
  other splits to that one.
\<close>

definition timeSeries :: "(demoSplits, demoColors) manifest" where
  "timeSeries =
     \<lparr> vis_id = ''time-series'',
       handleCircumstance =
         (\<lambda>ds sp cl current. if sp = [(''time'', 1000)] then ready 7
                              else automatic 3 [(''time'', 1000)]) \<rparr>"

text \<open>
  A visualization that renders the same one split only, and whose adjustment for
  anything else drops the splits, which it does not render either.
\<close>

definition hourly :: "(demoSplits, demoColors) manifest" where
  "hourly =
     \<lparr> vis_id = ''hourly'',
       handleCircumstance =
         (\<lambda>ds sp cl current. if sp = [(''time'', 1000)] then ready 6 else automatic 2 []) \<rparr>"

text \<open>A state on the time series, split by time.\<close>

definition demoSeries :: "(demoSplits, demoColors) essence" where
  "demoSeries =
     demoEssence \<lparr> visualizations := [totals, table, barChart, timeSeries],
                   visualization := timeSeries,
                   splits := [(''time'', 1000)],
                   visResolve := ready 7 \<rparr>"

text \<open>A filter with another time range, and a highlight that selects that time range.\<close>

definition widerFilter :: pivotFilter where
  "widerFilter =
     \<lparr> clauses = [timeClause (RefExpression ''time'') \<lparr> tr_start = 3000, tr_end = 5000 \<rparr>] \<rparr>"

definition timeHighlight :: highlight where
  "timeHighlight = \<lparr> owner = ''time-series'', delta = widerFilter \<rparr>"

text \<open>States with that highlight pending: on the table, and on the last visualization.\<close>

definition demoTimeHighlighted :: "(demoSplits, demoColors) essence" where
  "demoTimeHighlighted = demoTimeSplit \<lparr> highlight := Some timeHighlight \<rparr>"

definition demoHourly :: "(demoSplits, demoColors) essence" where
  "demoHourly =
     demoEssence \<lparr> visualizations := [totals, table, barChart, hourly],
                   visualization := hourly,
                   splits := [(''time'', 1000)],
                   highlight := Some timeHighlight,
                   visResolve := ready 6 \<rparr>"
section \<open>Properties of the filter clause\<close>



section \<open>The constructor\<close>

lemma ready_not_automatic: "isReady r \<Longrightarrow> \<not> isAutomatic r"
  by (simp add: isReady_def isAutomatic_def)

lemma Essence_InrD:
  assumes "Essence C p = Inr e"
  shows "v_dataSources p \<noteq> []"
    and "v_dataSource p = Some (dataSource e)"
    and "chooseVisualization C p (dataSource e) = Inr (visualization e)"
    and "dataSources e = v_dataSources p"
    and "visualizations e = v_visualizations p"
    and "timezone e = v_timezone p"
    and "filter' e = v_filter p"
    and "requiredFilter e = v_requiredFilter p"
    and "selectedMeasures e = v_selectedMeasures p"
    and "pinnedDimensions e = v_pinnedDimensions p"
    and "pinnedSort e = v_pinnedSort p"
    and "compare e = v_compare p"
    and "highlight e = v_highlight p"
    and "handleCircumstance (visualization e) (dataSource e) (splits e) (colors e) True
           = visResolve e"
    and "\<not> isAutomatic (visResolve e)"
  using assms
  by (auto simp: Essence_def Let_def ready_not_automatic
           split: if_splits option.splits sum.splits)

lemma Essence_Inr_adjustment:
  assumes "Essence C p = Inr e"
    and "r = handleCircumstance (visualization e) (dataSource e) (v_splits p) (v_colors p) True"
  shows "if isAutomatic r
         then \<exists>adj. r_adjustment r = Some adj \<and> splits e = adj_splits adj
                \<and> colors e = adj_colors adj \<and> isReady (visResolve e)
         else splits e = v_splits p \<and> colors e = v_colors p \<and> visResolve e = r"
  using assms
  by (auto simp: Essence_def Let_def ready_not_automatic
           split: if_splits option.splits sum.splits)

lemma constructedI:
  assumes "dataSources e \<noteq> []"
    and "handleCircumstance (visualization e) (dataSource e) (splits e) (colors e) True = visResolve e"
    and "\<not> isAutomatic (visResolve e)"
  shows "constructed C e"
  using assms by (simp add: constructed_def Essence_def valueOf_def chooseVisualization_def)

lemma Essence_valueOf:
  assumes "Essence C p = Inr e"
  shows "constructed C e"
  using Essence_InrD(1,4,14,15) [OF assms] by (intro constructedI) simp_all

lemma constructedD:
  assumes "constructed C e"
  shows "dataSources e \<noteq> []"
    and "handleCircumstance (visualization e) (dataSource e) (splits e) (colors e) True = visResolve e"
    and "\<not> isAutomatic (visResolve e)"
proof -
  from assms have E: "Essence C (valueOf e) = Inr e" by (simp add: constructed_def)
  show "dataSources e \<noteq> []"
    using Essence_InrD(1) [OF E] by (simp add: valueOf_def)
  show "handleCircumstance (visualization e) (dataSource e) (splits e) (colors e) True = visResolve e"
    by (rule Essence_InrD(14) [OF E])
  show "\<not> isAutomatic (visResolve e)"
    by (rule Essence_InrD(15) [OF E])
qed

text \<open>Rebuilding a state with the same data source, visualization, splits and colors.\<close>

lemma Essence_same_circumstance:
  assumes "constructed C e"
    and "v_dataSources p = dataSources e" and "v_visualizations p = visualizations e"
    and "v_dataSource p = Some (dataSource e)"
    and "v_visualization p = Some (visualization e)"
    and "v_splits p = splits e" and "v_colors p = colors e"
  shows "Essence C p =
           Inr (e \<lparr> timezone := v_timezone p, filter' := v_filter p,
                    requiredFilter := v_requiredFilter p,
                    selectedMeasures := v_selectedMeasures p,
                    pinnedDimensions := v_pinnedDimensions p,
                    pinnedSort := v_pinnedSort p, compare := v_compare p,
                    highlight := v_highlight p \<rparr>)"
  using constructedD [OF assms(1)] assms(2-)
  by (simp add: Essence_def chooseVisualization_def)

text \<open>A value the constructor gets with a visualization chosen and a verdict that is not automatic.\<close>

lemma Essence_not_automatic:
  assumes "v_dataSources p \<noteq> []" and "v_dataSource p = Some ds"
    and "v_visualization p = Some vis"
    and "\<not> isAutomatic (handleCircumstance vis ds (v_splits p) (v_colors p) True)"
  shows "\<exists>e. Essence C p = Inr e \<and> splits e = v_splits p \<and> colors e = v_colors p
           \<and> visualization e = vis \<and> filter' e = v_filter p \<and> highlight e = v_highlight p"
  using assms by (simp add: Essence_def chooseVisualization_def)

lemma Essence_Inl_cases:
  assumes "Essence C p = Inl err"
    and "v_dataSources p \<noteq> []" and "v_dataSource p = Some ds"
    and "v_visualization p = Some vis"
  shows "err = NotReadyAfterAdjustment \<or> err = TypeError"
  using assms
  by (auto simp: Essence_def chooseVisualization_def Let_def
           split: if_splits option.splits)

text \<open>
  C6. Every state that the constructor returns has a cached verdict that is not
  "needs automatic adjustment", and it is the verdict of the visualization on the
  splits and colors of the state. The constructor adjusts at most once: when the
  first verdict is not automatic the splits and colors are those passed in and the
  first verdict is cached; when it is automatic the splits and colors are those of
  its adjustment and the second verdict, which is ready, is cached. When the second
  verdict is not ready the constructor throws.
\<close>

theorem Essence_verdict_never_automatic:
  "(\<forall>e. Essence C p = Inr e \<longrightarrow>
       \<not> isAutomatic (visResolve e)
       \<and> visResolve e = handleCircumstance (visualization e) (dataSource e) (splits e) (colors e) True
       \<and> (let r = handleCircumstance (visualization e) (dataSource e) (v_splits p) (v_colors p) True
          in if isAutomatic r
             then \<exists>adj. r_adjustment r = Some adj \<and> splits e = adj_splits adj
                    \<and> colors e = adj_colors adj \<and> isReady (visResolve e)
             else splits e = v_splits p \<and> colors e = v_colors p \<and> visResolve e = r))
   \<and> (\<forall>ds vis adj.
         v_dataSources p \<noteq> [] \<and> v_dataSource p = Some ds
         \<and> chooseVisualization C p ds = Inr vis
         \<and> isAutomatic (handleCircumstance vis ds (v_splits p) (v_colors p) True)
         \<and> r_adjustment (handleCircumstance vis ds (v_splits p) (v_colors p) True) = Some adj
         \<and> \<not> isReady (handleCircumstance vis ds (adj_splits adj) (adj_colors adj) True)
         \<longrightarrow> Essence C p = Inl NotReadyAfterAdjustment)"
proof (intro conjI allI impI)
  fix e assume E: "Essence C p = Inr e"
  show "\<not> isAutomatic (visResolve e)" by (rule Essence_InrD(15) [OF E])
  show "visResolve e = handleCircumstance (visualization e) (dataSource e) (splits e) (colors e) True"
    by (rule Essence_InrD(14) [OF E, symmetric])
  show "let r = handleCircumstance (visualization e) (dataSource e) (v_splits p) (v_colors p) True
        in if isAutomatic r
           then \<exists>adj. r_adjustment r = Some adj \<and> splits e = adj_splits adj
                  \<and> colors e = adj_colors adj \<and> isReady (visResolve e)
           else splits e = v_splits p \<and> colors e = v_colors p \<and> visResolve e = r"
    unfolding Let_def by (rule Essence_Inr_adjustment [OF E refl])
next
  fix ds vis adj
  assume "v_dataSources p \<noteq> [] \<and> v_dataSource p = Some ds
         \<and> chooseVisualization C p ds = Inr vis
         \<and> isAutomatic (handleCircumstance vis ds (v_splits p) (v_colors p) True)
         \<and> r_adjustment (handleCircumstance vis ds (v_splits p) (v_colors p) True) = Some adj
         \<and> \<not> isReady (handleCircumstance vis ds (adj_splits adj) (adj_colors adj) True)"
  then show "Essence C p = Inl NotReadyAfterAdjustment"
    by (simp add: Essence_def)
qed

text \<open>
  C9. When the cached verdict of a state is manual, \<open>changeSplits\<close> does the same
  for each of the three strategies as for \<open>KeepAlways\<close>: a state it returns has the
  visualization of the current state, whatever the splits and however the other
  visualizations rank. It returns a state whenever the current visualization's verdict
  on the new splits is not automatic, and the only errors are those of the
  constructor's adjustment pass.
\<close>

theorem changeSplits_manual_keeps_visualization:
  assumes "constructed C e" and "isManual (visResolve e)"
  shows "changeSplits C e s strategy = changeSplits C e s KeepAlways
       \<and> (\<forall>e'. changeSplits C e s strategy = Inr e' \<longrightarrow> visualization e' = visualization e)
       \<and> (\<forall>err. changeSplits C e s strategy = Inl err \<longrightarrow>
             err = NotReadyAfterAdjustment \<or> err = TypeError)
       \<and> (let s1 = (case getTimeAttribute e of
                      Some ta \<Rightarrow> updateWithTimeRange C s ta (getTimeRange C (filter' e) ta)
                                   (timezone e) False
                    | None \<Rightarrow> s)
          in \<not> isAutomatic (handleCircumstance (visualization e) (dataSource e) s1 (colors e) True)
             \<longrightarrow> (\<exists>e'. changeSplits C e s strategy = Inr e' \<and> splits e' = s1
                       \<and> visualization e' = visualization e))"
proof -
  define s1 where "s1 = (case getTimeAttribute e of
                      Some ta \<Rightarrow> updateWithTimeRange C s ta (getTimeRange C (filter' e) ta)
                                   (timezone e) False
                    | None \<Rightarrow> s)"
  define value1 where "value1 = (valueOf e) \<lparr> v_splits := s1, v_visualization := Some (visualization e) \<rparr>"
  define value2 where "value2 = (case v_highlight value1 of
                            Some h \<Rightarrow> value1 \<lparr> v_filter := applyToFilter C h (v_filter value1),
                                              v_highlight := None \<rparr>
                          | None \<Rightarrow> value1)"
  have cs: "changeSplits C e s st = Essence C value2" for st
    using assms(2)
    by (cases "highlight e")
       (simp_all add: changeSplits_def s1_def value1_def value2_def Let_def valueOf_def)
  have v2: "v_dataSources value2 \<noteq> []" "v_dataSource value2 = Some (dataSource e)"
    "v_visualization value2 = Some (visualization e)" "v_splits value2 = s1"
    "v_colors value2 = colors e"
    using constructedD(1) [OF assms(1)]
    by (simp_all add: value2_def value1_def valueOf_def split: option.splits)
  have keep: "visualization e' = visualization e" if "Essence C value2 = Inr e'" for e'
    using Essence_InrD(3) [OF that] Essence_InrD(2) [OF that] v2
    by (simp add: chooseVisualization_def)
  have errs: "err = NotReadyAfterAdjustment \<or> err = TypeError" if "Essence C value2 = Inl err" for err
    using Essence_Inl_cases [OF that v2(1,2,3)] .
  have ret: "\<exists>e'. Essence C value2 = Inr e' \<and> splits e' = s1 \<and> visualization e' = visualization e"
    if "\<not> isAutomatic (handleCircumstance (visualization e) (dataSource e) s1 (colors e) True)"
    using Essence_not_automatic [of value2 "dataSource e" "visualization e" C] v2 that
    by auto
  show ?thesis
    unfolding cs Let_def s1_def [symmetric]
    using keep errs ret by blast
qed

text \<open>The constructor on a value that names its visualization.\<close>

lemma Essence_with_visualization:
  assumes "v_dataSources p \<noteq> []" and "v_dataSource p = Some ds"
    and "v_visualization p = Some vis"
  shows "Essence C p =
     (let r = handleCircumstance vis ds (v_splits p) (v_colors p) True;
          this = \<lparr> dataSources = v_dataSources p,
                   visualizations = v_visualizations p,
                   dataSource = ds,
                   visualization = vis,
                   timezone = v_timezone p,
                   filter' = v_filter p,
                   requiredFilter = v_requiredFilter p,
                   splits = v_splits p,
                   selectedMeasures = v_selectedMeasures p,
                   pinnedDimensions = v_pinnedDimensions p,
                   colors = v_colors p,
                   pinnedSort = v_pinnedSort p,
                   compare = v_compare p,
                   highlight = v_highlight p,
                   visResolve = r \<rparr>
      in if \<not> isAutomatic r then Inr this
         else case r_adjustment r of
                None \<Rightarrow> Inl TypeError
              | Some adj \<Rightarrow>
                 (let r2 = handleCircumstance vis ds (adj_splits adj) (adj_colors adj) True
                  in if isReady r2
                     then Inr (this \<lparr> splits := adj_splits adj, colors := adj_colors adj,
                                      visResolve := r2 \<rparr>)
                     else Inl NotReadyAfterAdjustment))"
  using assms
  by (simp add: Essence_def chooseVisualization_def Let_def split: option.splits)

text \<open>The value that \<open>changeFilter\<close> hands to the constructor.\<close>

lemma changeFilter_unfold:
  "changeFilter C e f rh =
     Essence C
       \<lparr> v_dataSources = dataSources e,
         v_visualizations = visualizations e,
         v_dataSource = Some (dataSource e),
         v_visualization = Some (visualization e),
         v_timezone = timezone e,
         v_filter = f,
         v_requiredFilter = requiredFilter e,
         v_splits =
           (case getTimeAttribute e of
              None \<Rightarrow> splits e
            | Some ta \<Rightarrow>
               (case getTimeRange C f ta of
                  None \<Rightarrow> splits e
                | Some tr \<Rightarrow>
                    if Some tr \<noteq> getTimeRange C (filter' e) ta
                    then updateWithTimeRange C (splits e) ta (Some tr) (timezone e) True
                    else splits e)),
         v_selectedMeasures = selectedMeasures e,
         v_pinnedDimensions = pinnedDimensions e,
         v_colors = colors e,
         v_pinnedSort = pinnedSort e,
         v_compare = compare e,
         v_highlight = (if rh then None else highlight e) \<rparr>"
  by (simp add: changeFilter_def valueOf_def Let_def split: option.splits)

lemma changeFilter_same_splits:
  assumes "constructed C e"
    and "case getTimeAttribute e of
           None \<Rightarrow> True
         | Some ta \<Rightarrow> getTimeRange C f ta = None
                      \<or> getTimeRange C f ta = getTimeRange C (filter' e) ta"
  shows "changeFilter C e f rh =
           Inr (e \<lparr> filter' := f, highlight := (if rh then None else highlight e) \<rparr>)"
proof -
  have "changeFilter C e f rh =
          Inr (e \<lparr> timezone := timezone e, filter' := f,
                   requiredFilter := requiredFilter e,
                   selectedMeasures := selectedMeasures e,
                   pinnedDimensions := pinnedDimensions e,
                   pinnedSort := pinnedSort e, compare := compare e,
                   highlight := (if rh then None else highlight e) \<rparr>)"
    unfolding changeFilter_unfold
    using assms(2)
    by (subst Essence_same_circumstance [OF assms(1)])
       (auto split: option.splits)
  then show ?thesis by simp
qed

text \<open>The state that \<open>changeFilter\<close> returns, or the error it throws.\<close>

lemma changeFilter_result:
  assumes "constructed C e"
    and "s' = (case getTimeAttribute e of
                 None \<Rightarrow> splits e
               | Some ta \<Rightarrow>
                  (case getTimeRange C f ta of
                     None \<Rightarrow> splits e
                   | Some tr \<Rightarrow>
                       if Some tr \<noteq> getTimeRange C (filter' e) ta
                       then updateWithTimeRange C (splits e) ta (Some tr) (timezone e) True
                       else splits e))"
    and "r = handleCircumstance (visualization e) (dataSource e) s' (colors e) True"
    and "e1 = e \<lparr> filter' := f, highlight := (if rh then None else highlight e) \<rparr>"
  shows "changeFilter C e f rh =
     (if \<not> isAutomatic r then Inr (e1 \<lparr> splits := s', visResolve := r \<rparr>)
      else case r_adjustment r of
             None \<Rightarrow> Inl TypeError
           | Some adj \<Rightarrow>
              (let r2 = handleCircumstance (visualization e) (dataSource e)
                          (adj_splits adj) (adj_colors adj) True
               in if isReady r2
                  then Inr (e1 \<lparr> splits := adj_splits adj, colors := adj_colors adj,
                                 visResolve := r2 \<rparr>)
                  else Inl NotReadyAfterAdjustment))"
  unfolding changeFilter_unfold
  apply (subst Essence_with_visualization [of _ "dataSource e" "visualization e"])
     apply (simp_all add: constructedD(1) [OF assms(1)])
  apply (simp add: assms(2-4) Let_def split: option.splits)
  done


text \<open>
  C8, as amended. For a state with a time attribute: when the new filter has a time
  range on that attribute that differs from the current one, \<open>changeFilter\<close>
  re-derives the splits with \<open>updateWithTimeRange\<close> for the new range and hands
  them to the constructor. The new state has the re-derived splits when the
  visualization's verdict on them is not automatic; when it is automatic, the new
  state has the splits and colors of the verdict's adjustment instead, provided the
  verdict on those is ready, and \<open>changeFilter\<close> throws otherwise. When the new
  filter has no time range on the attribute or the same one, the result is the
  current state with the new filter, its splits untouched. The flag clears the
  highlight in each case.
\<close>

theorem changeFilter_rederives_then_resolves:
  assumes "constructed C e" and "getTimeAttribute e = Some ta"
  shows
    "(\<forall>tr. getTimeRange C f ta = Some tr \<and> Some tr \<noteq> getTimeRange C (filter' e) ta \<longrightarrow>
        (let s' = updateWithTimeRange C (splits e) ta (Some tr) (timezone e) True;
             r = handleCircumstance (visualization e) (dataSource e) s' (colors e) True;
             e1 = e \<lparr> filter' := f, highlight := (if rh then None else highlight e) \<rparr>
         in changeFilter C e f rh =
              (if \<not> isAutomatic r then Inr (e1 \<lparr> splits := s', visResolve := r \<rparr>)
               else case r_adjustment r of
                      None \<Rightarrow> Inl TypeError
                    | Some adj \<Rightarrow>
                       (let r2 = handleCircumstance (visualization e) (dataSource e)
                                   (adj_splits adj) (adj_colors adj) True
                        in if isReady r2
                           then Inr (e1 \<lparr> splits := adj_splits adj, colors := adj_colors adj,
                                          visResolve := r2 \<rparr>)
                           else Inl NotReadyAfterAdjustment))))
     \<and> (getTimeRange C f ta = None \<or> getTimeRange C f ta = getTimeRange C (filter' e) ta \<longrightarrow>
          changeFilter C e f rh =
            Inr (e \<lparr> filter' := f, highlight := (if rh then None else highlight e) \<rparr>))"
proof (intro conjI allI impI)
  fix tr
  assume h: "getTimeRange C f ta = Some tr \<and> Some tr \<noteq> getTimeRange C (filter' e) ta"
  have s: "updateWithTimeRange C (splits e) ta (Some tr) (timezone e) True =
             (case getTimeAttribute e of
                 None \<Rightarrow> splits e
               | Some ta \<Rightarrow>
                  (case getTimeRange C f ta of
                     None \<Rightarrow> splits e
                   | Some tr \<Rightarrow>
                       if Some tr \<noteq> getTimeRange C (filter' e) ta
                       then updateWithTimeRange C (splits e) ta (Some tr) (timezone e) True
                       else splits e))"
    using assms(2) h by simp
  show "let s' = updateWithTimeRange C (splits e) ta (Some tr) (timezone e) True;
             r = handleCircumstance (visualization e) (dataSource e) s' (colors e) True;
             e1 = e \<lparr> filter' := f, highlight := (if rh then None else highlight e) \<rparr>
         in changeFilter C e f rh =
              (if \<not> isAutomatic r then Inr (e1 \<lparr> splits := s', visResolve := r \<rparr>)
               else case r_adjustment r of
                      None \<Rightarrow> Inl TypeError
                    | Some adj \<Rightarrow>
                       (let r2 = handleCircumstance (visualization e) (dataSource e)
                                   (adj_splits adj) (adj_colors adj) True
                        in if isReady r2
                           then Inr (e1 \<lparr> splits := adj_splits adj, colors := adj_colors adj,
                                          visResolve := r2 \<rparr>)
                           else Inl NotReadyAfterAdjustment))"
    unfolding Let_def
    by (rule changeFilter_result [OF assms(1) s refl refl, unfolded Let_def])
next
  assume "getTimeRange C f ta = None \<or> getTimeRange C f ta = getTimeRange C (filter' e) ta"
  then show "changeFilter C e f rh =
            Inr (e \<lparr> filter' := f, highlight := (if rh then None else highlight e) \<rparr>)"
    using assms(2) by (intro changeFilter_same_splits [OF assms(1)]) simp
qed

text \<open>
  C7, as amended. Without a pending highlight \<open>acceptHighlight\<close> returns the state
  itself. With a pending highlight it folds the delta into the filter, which gives the
  filter that \<open>getEffectiveFilter()\<close> reports; every state it returns has that
  filter and no highlight, and it returns the current state with just these two
  changes whenever the folded filter leaves the splits as they are (no time attribute,
  no time range or the same one). When the folded filter has another time range the
  splits are re-derived for it: the result has them when the visualization's verdict on
  them is not automatic, it has the splits and colors of the verdict's adjustment when
  the verdict is automatic and the one on the adjustment is ready, and
  \<open>acceptHighlight\<close> throws otherwise.
\<close>

theorem acceptHighlight_folds_then_resolves:
  assumes "constructed C e"
  shows "(highlight e = None \<longrightarrow> acceptHighlight C e = Inr e)
     \<and> (\<forall>h. highlight e = Some h \<longrightarrow>
          (let f = getEffectiveFilter C e None None;
               s' = (case getTimeAttribute e of
                       None \<Rightarrow> splits e
                     | Some ta \<Rightarrow>
                        (case getTimeRange C f ta of
                           None \<Rightarrow> splits e
                         | Some tr \<Rightarrow>
                             if Some tr \<noteq> getTimeRange C (filter' e) ta
                             then updateWithTimeRange C (splits e) ta (Some tr) (timezone e) True
                             else splits e));
               r = handleCircumstance (visualization e) (dataSource e) s' (colors e) True;
               e1 = e \<lparr> filter' := f, highlight := None \<rparr>
           in f = applyToFilter C h (filter' e)
              \<and> acceptHighlight C e =
                  (if \<not> isAutomatic r then Inr (e1 \<lparr> splits := s', visResolve := r \<rparr>)
                   else case r_adjustment r of
                          None \<Rightarrow> Inl TypeError
                        | Some adj \<Rightarrow>
                           (let r2 = handleCircumstance (visualization e) (dataSource e)
                                       (adj_splits adj) (adj_colors adj) True
                            in if isReady r2
                               then Inr (e1 \<lparr> splits := adj_splits adj,
                                              colors := adj_colors adj, visResolve := r2 \<rparr>)
                               else Inl NotReadyAfterAdjustment))
              \<and> (s' = splits e \<longrightarrow> acceptHighlight C e = Inr e1)
              \<and> (\<forall>e'. acceptHighlight C e = Inr e' \<longrightarrow>
                     filter' e' = f \<and> highlight e' = None)))"
proof (intro conjI allI impI)
  assume "highlight e = None"
  then show "acceptHighlight C e = Inr e" by (simp add: acceptHighlight_def)
next
  fix h assume h: "highlight e = Some h"
  define f where "f = applyToFilter C h (filter' e)"
  define s' where "s' = (case getTimeAttribute e of
                       None \<Rightarrow> splits e
                     | Some ta \<Rightarrow>
                        (case getTimeRange C f ta of
                           None \<Rightarrow> splits e
                         | Some tr \<Rightarrow>
                             if Some tr \<noteq> getTimeRange C (filter' e) ta
                             then updateWithTimeRange C (splits e) ta (Some tr) (timezone e) True
                             else splits e))"
  define r where "r = handleCircumstance (visualization e) (dataSource e) s' (colors e) True"
  define e1 where "e1 = e \<lparr> filter' := f, highlight := None \<rparr>"
  have eff: "getEffectiveFilter C e None None = f"
    using h by (simp add: getEffectiveFilter_def f_def)
  have ah: "acceptHighlight C e = changeFilter C e f True"
    using h by (simp add: acceptHighlight_def f_def)
  have res: "acceptHighlight C e =
                  (if \<not> isAutomatic r then Inr (e1 \<lparr> splits := s', visResolve := r \<rparr>)
                   else case r_adjustment r of
                          None \<Rightarrow> Inl TypeError
                        | Some adj \<Rightarrow>
                           (let r2 = handleCircumstance (visualization e) (dataSource e)
                                       (adj_splits adj) (adj_colors adj) True
                            in if isReady r2
                               then Inr (e1 \<lparr> splits := adj_splits adj,
                                              colors := adj_colors adj, visResolve := r2 \<rparr>)
                               else Inl NotReadyAfterAdjustment))"
    unfolding ah Let_def
    by (rule changeFilter_result [OF assms s'_def r_def, unfolded Let_def])
       (simp add: e1_def)
  have same: "acceptHighlight C e = Inr e1" if "s' = splits e"
  proof -
    from that have "r = visResolve e"
      using constructedD(2) [OF assms] by (simp add: r_def)
    with that constructedD(3) [OF assms] show ?thesis
      unfolding res by (simp add: e1_def)
  qed
  have ret: "filter' e' = f \<and> highlight e' = None" if "acceptHighlight C e = Inr e'" for e'
    using that unfolding res
    by (auto simp: e1_def Let_def split: if_splits option.splits)
  show "let f = getEffectiveFilter C e None None;
               s' = (case getTimeAttribute e of
                       None \<Rightarrow> splits e
                     | Some ta \<Rightarrow>
                        (case getTimeRange C f ta of
                           None \<Rightarrow> splits e
                         | Some tr \<Rightarrow>
                             if Some tr \<noteq> getTimeRange C (filter' e) ta
                             then updateWithTimeRange C (splits e) ta (Some tr) (timezone e) True
                             else splits e));
               r = handleCircumstance (visualization e) (dataSource e) s' (colors e) True;
               e1 = e \<lparr> filter' := f, highlight := None \<rparr>
           in f = applyToFilter C h (filter' e)
              \<and> acceptHighlight C e =
                  (if \<not> isAutomatic r then Inr (e1 \<lparr> splits := s', visResolve := r \<rparr>)
                   else case r_adjustment r of
                          None \<Rightarrow> Inl TypeError
                        | Some adj \<Rightarrow>
                           (let r2 = handleCircumstance (visualization e) (dataSource e)
                                       (adj_splits adj) (adj_colors adj) True
                            in if isReady r2
                               then Inr (e1 \<lparr> splits := adj_splits adj,
                                              colors := adj_colors adj, visResolve := r2 \<rparr>)
                               else Inl NotReadyAfterAdjustment))
              \<and> (s' = splits e \<longrightarrow> acceptHighlight C e = Inr e1)
              \<and> (\<forall>e'. acceptHighlight C e = Inr e' \<longrightarrow>
                     filter' e' = f \<and> highlight e' = None)"
    unfolding Let_def eff s'_def [symmetric] r_def [symmetric] e1_def [symmetric]
    using res [unfolded Let_def] same ret by (simp add: f_def)
qed

section \<open>Strings\<close>

lemma split_not_Nil: "split sep s \<noteq> []"
  by (induction s) (auto split: list.splits)

lemma join_split: "join [sep] (split sep s) = s"
proof (induction s)
  case Nil
  show ?case by simp
next
  case (Cons c cs)
  show ?case
  proof (cases "c = sep")
    case True
    obtain p ps where ps: "split sep cs = p # ps"
      using split_not_Nil [of sep cs] by (cases "split sep cs") auto
    with True Cons show ?thesis by simp
  next
    case False
    obtain p ps where ps: "split sep cs = p # ps"
      using split_not_Nil [of sep cs] by (cases "split sep cs") auto
    with False Cons show ?thesis by (cases ps) auto
  qed
qed

lemma split_prefix: "sep \<notin> set a \<Longrightarrow> split sep (a @ sep # rest) = a # split sep rest"
  by (induction a) auto

lemma parseInt_1: "parseInt ''1'' = Some 1"
  by (simp add: parseInt_def isWhiteSpace_def isDigit_def digitsValue_def)

lemma hashParts_toHash:
  assumes "CHR ''/'' \<notin> set n" and "CHR ''/'' \<notin> set v"
  shows "hashParts (CHR ''#'' # join ''/'' [n, v, ''1'', payload])
           = n # v # ''1'' # split (CHR ''/'') payload"
  using assms by (simp add: hashParts_def split_prefix split_prefix [of _ "[_]", simplified])

section \<open>Decoding\<close>

lemma fromHash_never_throws: "fromHash C hash dss viss \<noteq> Inl err"
  by (simp add: fromHash_def Let_def split: sum.splits json.splits)

text \<open>
  C4. \<open>fromHash\<close> returns \<^verbatim>\<open>null\<close> for a hash with fewer than 4 segments, or
  whose version segment does not parse as the integer 1, or whose payload makes the
  decompression or \<^verbatim>\<open>JSON.parse\<close> throw, or whose parsed array has a length outside
  6 to 9; and no exception leaves \<open>fromHash\<close>.
\<close>

theorem fromHash_rejects_malformed:
  "(length (hashParts hash) < 4
      \<or> parseInt (hashParts hash ! 2) \<noteq> Some 1
      \<or> (\<exists>err. parsePayload C (join ''/'' (drop 3 (hashParts hash))) = Inl err)
      \<or> (\<exists>xs. parsePayload C (join ''/'' (drop 3 (hashParts hash))) = Inr (JArr xs)
               \<and> \<not> (6 \<le> length xs \<and> length xs \<le> 9))
    \<longrightarrow> fromHash C hash dss viss = Inr None)
   \<and> (\<forall>err. fromHash C hash dss viss \<noteq> Inl err)"
  by (auto simp: fromHash_def Let_def split: sum.splits json.splits)

lemma set_insertBy: "set (insertBy cmp x xs) = insert x (set xs)"
  by (induction xs) auto

lemma set_sortBy: "set (sortBy cmp xs) = set xs"
  by (induction xs) (auto simp: set_insertBy)

lemma index_Some_mem: "index xs i = Some x \<Longrightarrow> x \<in> set xs"
  by (auto simp: index_def split: if_splits)

lemma getBestVisualization_mem:
  assumes "getBestVisualization C viss ds sp cl cur = Some vr"
  shows "vr_visualization vr \<in> set viss"
proof -
  from assms have "vr \<in> set (map (\<lambda>v. \<lparr> vr_visualization = v,
                        vr_resolve = handleCircumstance v ds sp cl (Some v = cur) \<rparr>) viss)"
    unfolding getBestVisualization_def Let_def
    by (auto dest!: index_Some_mem simp: set_sortBy)
  then show ?thesis by auto
qed

lemma bindE_Inr: "bindE m f = Inr y \<longleftrightarrow> (\<exists>x. m = Inr x \<and> f x = Inr y)"
  by (cases m) (simp_all add: bindE_def)

text \<open>What \<open>fromJS\<close> hands to the constructor when it gets that far.\<close>

lemma fromJS_Inr:
  assumes "fromJS C js dss viss = Inr e"
  shows "\<exists>p ds. Essence C p = Inr e
           \<and> find (\<lambda>d. ds_name d = js_dataSource js) dss = Some ds
           \<and> v_dataSource p = Some ds
           \<and> v_dataSources p = dss \<and> v_visualizations p = viss
           \<and> v_visualization p = find (\<lambda>v. vis_id v = js_visualization js) viss"
proof (cases "find (\<lambda>d. ds_name d = js_dataSource js) dss")
  case None
  with assms show ?thesis
    by (simp add: fromJS_def Let_def bindE_def split: sum.splits)
next
  case (Some ds)
  with assms have "\<exists>p. Essence C p = Inr e
           \<and> (v_dataSource p = Some ds
           \<and> v_dataSources p = dss \<and> v_visualizations p = viss
           \<and> v_visualization p = find (\<lambda>v. vis_id v = js_visualization js) viss)"
    apply (simp add: fromJS_def Let_def bindE_Inr)
    apply (elim exE conjE)
    apply (rule exI, rule conjI, assumption)
    apply simp
    done
  with Some show ?thesis by blast
qed

lemma fromJS_unknown_dataSource:
  assumes "find (\<lambda>d. ds_name d = js_dataSource (js :: EssenceJS)) dss = None"
  shows "\<exists>err. fromJS C js dss viss = Inl err"
proof (cases "fromJS C js dss viss")
  case (Inl err)
  then show ?thesis by blast
next
  case (Inr e)
  from fromJS_Inr [OF Inr] assms show ?thesis by auto
qed

lemma fromJS_unknown_visualization:
  assumes "fromJS C js dss viss = Inr e"
    and "find (\<lambda>v. vis_id v = js_visualization js) viss = None"
  shows "visualization e \<in> set viss"
proof -
  from fromJS_Inr [OF assms(1)] assms(2) obtain p ds where
    E: "Essence C p = Inr e" and p: "v_visualizations p = viss" "v_visualization p = None"
    by auto
  from Essence_InrD(3) [OF E] p show ?thesis
    by (auto simp: chooseVisualization_def split: option.splits
             dest: getBestVisualization_mem)
qed

text \<open>The record that \<open>fromHash\<close> builds from a decoded array.\<close>

lemma fromHash_Some:
  assumes "fromHash C hash dss viss = Inr (Some e)"
  shows "\<exists>js. fromJS C js dss viss = Inr e
           \<and> js_dataSource js = hashParts hash ! 0
           \<and> js_visualization js = hashParts hash ! 1"
  using assms
  by (auto simp: fromHash_def Let_def split: sum.splits json.splits if_splits)

lemma sortBy_not_Nil: "xs \<noteq> [] \<Longrightarrow> sortBy cmp xs \<noteq> []"
  using set_sortBy [of cmp xs] by (cases "sortBy cmp xs") auto

lemma getBestVisualization_Some:
  assumes "viss \<noteq> []"
  shows "\<exists>vr. getBestVisualization C viss ds sp cl cur = Some vr"
  using sortBy_not_Nil [of "map (\<lambda>v. \<lparr> vr_visualization = v,
                        vr_resolve = handleCircumstance v ds sp cl (Some v = cur) \<rparr>) viss"
           "\<lambda>vr1 vr2. resolve_compare C (vr_resolve vr1) (vr_resolve vr2)"] assms
  by (simp add: getBestVisualization_def Let_def index_def)

lemma getBestVisualization_Nil: "getBestVisualization C [] ds sp cl cur = None"
  by (simp add: getBestVisualization_def index_def)

text \<open>With a comparison that is transitive and total, the first of the sorted list ranks before all.\<close>

lemma sortBy_first:
  assumes tr: "\<forall>a b c. cmp a b \<le> 0 \<and> cmp b c \<le> 0 \<longrightarrow> cmp a c \<le> (0 :: int)"
    and tot: "\<forall>a b. cmp a b \<le> 0 \<or> cmp b a \<le> 0"
  shows "sortBy cmp xs = h # t \<Longrightarrow> \<forall>y \<in> set xs. cmp h y \<le> 0"
proof (induction xs arbitrary: h t)
  case Nil
  then show ?case by simp
next
  case (Cons x xs)
  have refl: "cmp a a \<le> 0" for a using tot by blast
  show ?case
  proof (cases "sortBy cmp xs")
    case Nil
    then have "xs = []" using set_sortBy [of cmp xs] by simp
    with Cons.prems show ?thesis by (simp add: refl)
  next
    case (Cons h' t')
    from Cons.IH [OF Cons] have ih: "\<forall>y \<in> set xs. cmp h' y \<le> 0" .
    show ?thesis
    proof (cases "cmp x h' \<le> 0")
      case True
      with Cons.prems Cons have "h = x" by simp
      moreover have "\<forall>y \<in> set xs. cmp x y \<le> 0" using True ih tr by blast
      ultimately show ?thesis by (simp add: refl)
    next
      case False
      with Cons.prems Cons have "h = h'" by simp
      moreover from False tot have "cmp h' x \<le> 0" by blast
      ultimately show ?thesis using ih by simp
    qed
  qed
qed

lemma getBestVisualization_first:
  assumes "\<forall>a b c. resolve_compare C a b \<le> 0 \<and> resolve_compare C b c \<le> 0
             \<longrightarrow> resolve_compare C a c \<le> 0"
    and "\<forall>a b. resolve_compare C a b \<le> 0 \<or> resolve_compare C b a \<le> 0"
    and "getBestVisualization C viss ds sp cl cur = Some vr"
  shows "\<forall>v \<in> set viss.
           resolve_compare C (vr_resolve vr) (handleCircumstance v ds sp cl (Some v = cur)) \<le> 0"
proof -
  let ?cmp = "\<lambda>vr1 vr2. resolve_compare C (vr_resolve vr1) (vr_resolve vr2)"
  let ?xs = "map (\<lambda>v. \<lparr> vr_visualization = v,
                        vr_resolve = handleCircumstance v ds sp cl (Some v = cur) \<rparr>) viss"
  from assms(3) obtain t where s: "sortBy ?cmp ?xs = vr # t"
    by (cases "sortBy ?cmp ?xs")
       (simp_all add: getBestVisualization_def Let_def index_def)
  have "\<forall>y \<in> set ?xs. ?cmp vr y \<le> 0"
    by (rule sortBy_first [OF _ _ s]) (use assms(1,2) in blast)+
  then show ?thesis by simp
qed

text \<open>The constructor on a value without a visualization.\<close>

lemma Essence_without_visualization:
  assumes "v_visualization p = None" and "v_dataSources p \<noteq> []" and "v_dataSource p = Some ds"
  shows "Essence C p =
     (case getBestVisualization C (v_visualizations p) ds (v_splits p) (v_colors p) None of
        None \<Rightarrow> Inl TypeError
      | Some vr \<Rightarrow> Essence C (p \<lparr> v_visualization := Some (vr_visualization vr) \<rparr>))"
  using assms
  by (simp add: Essence_def chooseVisualization_def split: option.splits)

lemma find_Some_not_Nil: "find P xs = Some x \<Longrightarrow> xs \<noteq> []"
  by (cases xs) simp_all

text \<open>What \<open>fromJS\<close> hands to the constructor when every part decodes.\<close>

lemma fromJS_decoded:
  assumes "find (\<lambda>d. ds_name d = js_dataSource js) dss = Some ds"
    and "timezone_fromJS C (js_timezone js) = Inr tz"
    and "filter_fromJS C (js_filter js) = Inr f0"
    and "filter_fromJS C (js_requiredFilter js) = Inr rf0"
    and "splits_fromJS C (js_splits js) = Inr sp0"
    and "orderedSetFromJS C (js_selectedMeasures js) = Inr sm0"
    and "orderedSetFromJS C (js_pinnedDimensions js) = Inr pd0"
    and "optionalFromJS (colors_fromJS C) (js_colors js) = Inr cl"
    and "optionalFromJS (filter_fromJS C) (js_compare js) = Inr cmp"
    and "optionalFromJS (highlight_fromJS C) (js_highlight js) = Inr hl"
  shows "fromJS C js dss viss =
     Essence C
       \<lparr> v_dataSources = dss,
         v_visualizations = viss,
         v_dataSource = Some ds,
         v_visualization = find (\<lambda>v. vis_id v = js_visualization js) viss,
         v_timezone = tz,
         v_filter = filter_constrainToDimensions C f0 (ds_dimensions ds) (ds_timeAttribute ds) None,
         v_requiredFilter =
           filter_constrainToDimensions C rf0 (ds_dimensions ds) (ds_timeAttribute ds) None,
         v_splits = splits_constrainToDimensions C sp0 (ds_dimensions ds),
         v_selectedMeasures = constrainMeasures sm0 ds,
         v_pinnedDimensions = constrainDimensions pd0 ds,
         v_colors = cl,
         v_pinnedSort =
           (case (case js_pinnedSort js of
                    None \<Rightarrow> JStr (ds_defaultSortMeasure ds)
                  | Some j \<Rightarrow> if truthy j then j else JStr (ds_defaultSortMeasure ds)) of
              JStr n \<Rightarrow> if getMeasure ds n \<noteq> None then n else ds_defaultSortMeasure ds
            | _ \<Rightarrow> ds_defaultSortMeasure ds),
         v_compare = map_option (\<lambda>f. filter_constrainToDimensions C f (ds_dimensions ds)
                                        (ds_timeAttribute ds) None) cmp,
         v_highlight = map_option (\<lambda>h. highlight_constrainToDimensions C h
                                          (ds_dimensions ds) (ds_timeAttribute ds)) hl \<rparr>"
  using assms by (simp add: fromJS_def Let_def bindE_def)

lemma fromJS_Inr_decoded:
  assumes "fromJS C js dss viss = Inr e"
  shows "\<exists>ds tz f0 rf0 sp0 sm0 pd0 cl cmp hl.
           find (\<lambda>d. ds_name d = js_dataSource js) dss = Some ds
         \<and> timezone_fromJS C (js_timezone js) = Inr tz
         \<and> filter_fromJS C (js_filter js) = Inr f0
         \<and> filter_fromJS C (js_requiredFilter js) = Inr rf0
         \<and> splits_fromJS C (js_splits js) = Inr sp0
         \<and> orderedSetFromJS C (js_selectedMeasures js) = Inr sm0
         \<and> orderedSetFromJS C (js_pinnedDimensions js) = Inr pd0
         \<and> optionalFromJS (colors_fromJS C) (js_colors js) = Inr cl
         \<and> optionalFromJS (filter_fromJS C) (js_compare js) = Inr cmp
         \<and> optionalFromJS (highlight_fromJS C) (js_highlight js) = Inr hl"
proof (cases "find (\<lambda>d. ds_name d = js_dataSource js) dss")
  case None
  with assms show ?thesis
    by (simp add: fromJS_def Let_def bindE_def split: sum.splits)
next
  case (Some ds)
  with assms show ?thesis
    apply (simp add: fromJS_def Let_def bindE_Inr)
    apply (elim exE conjE)
    apply simp
    done
qed


lemma fromJS_unknown_visualization_decoded:
  assumes "find (\<lambda>v. vis_id v = js_visualization js) viss = None
        \<and> find (\<lambda>d. ds_name d = js_dataSource js) dss = Some ds
        \<and> timezone_fromJS C (js_timezone js) = Inr tz
        \<and> filter_fromJS C (js_filter js) = Inr f0
        \<and> filter_fromJS C (js_requiredFilter js) = Inr rf0
        \<and> splits_fromJS C (js_splits js) = Inr sp0
        \<and> orderedSetFromJS C (js_selectedMeasures js) = Inr sm0
        \<and> orderedSetFromJS C (js_pinnedDimensions js) = Inr pd0
        \<and> optionalFromJS (colors_fromJS C) (js_colors js) = Inr cl
        \<and> optionalFromJS (filter_fromJS C) (js_compare js) = Inr cmp
        \<and> optionalFromJS (highlight_fromJS C) (js_highlight js) = Inr hl"
  shows "(let p = \<lparr> v_dataSources = dss,
                   v_visualizations = viss,
                   v_dataSource = Some ds,
                   v_visualization = None,
                   v_timezone = tz,
                   v_filter = filter_constrainToDimensions C f0 (ds_dimensions ds)
                                (ds_timeAttribute ds) None,
                   v_requiredFilter = filter_constrainToDimensions C rf0 (ds_dimensions ds)
                                        (ds_timeAttribute ds) None,
                   v_splits = splits_constrainToDimensions C sp0 (ds_dimensions ds),
                   v_selectedMeasures = constrainMeasures sm0 ds,
                   v_pinnedDimensions = constrainDimensions pd0 ds,
                   v_colors = cl,
                   v_pinnedSort =
                     (case (case js_pinnedSort js of
                              None \<Rightarrow> JStr (ds_defaultSortMeasure ds)
                            | Some j \<Rightarrow> if truthy j then j
                                        else JStr (ds_defaultSortMeasure ds)) of
                        JStr n \<Rightarrow> if getMeasure ds n \<noteq> None then n
                                  else ds_defaultSortMeasure ds
                      | _ \<Rightarrow> ds_defaultSortMeasure ds),
                   v_compare = map_option (\<lambda>f. filter_constrainToDimensions C f
                                                  (ds_dimensions ds) (ds_timeAttribute ds) None)
                                 cmp,
                   v_highlight = map_option (\<lambda>h. highlight_constrainToDimensions C h
                                                    (ds_dimensions ds) (ds_timeAttribute ds))
                                   hl \<rparr>
            in fromJS C js dss viss = Essence C p
               \<and> (viss = [] \<longrightarrow> fromJS C js dss viss = Inl TypeError)
               \<and> (viss \<noteq> [] \<longrightarrow>
                    (\<exists>vr. getBestVisualization C viss ds (v_splits p) (v_colors p) None = Some vr
                        \<and> vr_visualization vr \<in> set viss
                        \<and> ((\<forall>a b c. resolve_compare C a b \<le> 0 \<and> resolve_compare C b c \<le> 0
                                     \<longrightarrow> resolve_compare C a c \<le> 0)
                             \<and> (\<forall>a b. resolve_compare C a b \<le> 0 \<or> resolve_compare C b a \<le> 0)
                             \<longrightarrow> (\<forall>v \<in> set viss.
                                    resolve_compare C (vr_resolve vr)
                                      (handleCircumstance v ds (v_splits p) (v_colors p) False)
                                    \<le> 0))
                        \<and> fromJS C js dss viss =
                            Essence C (p \<lparr> v_visualization := Some (vr_visualization vr) \<rparr>))))"
proof -
  define p where "p = \<lparr> v_dataSources = dss,
                   v_visualizations = viss,
                   v_dataSource = Some ds,
                   v_visualization = None,
                   v_timezone = tz,
                   v_filter = filter_constrainToDimensions C f0 (ds_dimensions ds)
                                (ds_timeAttribute ds) None,
                   v_requiredFilter = filter_constrainToDimensions C rf0 (ds_dimensions ds)
                                        (ds_timeAttribute ds) None,
                   v_splits = splits_constrainToDimensions C sp0 (ds_dimensions ds),
                   v_selectedMeasures = constrainMeasures sm0 ds,
                   v_pinnedDimensions = constrainDimensions pd0 ds,
                   v_colors = cl,
                   v_pinnedSort =
                     (case (case js_pinnedSort js of
                              None \<Rightarrow> JStr (ds_defaultSortMeasure ds)
                            | Some j \<Rightarrow> if truthy j then j
                                        else JStr (ds_defaultSortMeasure ds)) of
                        JStr n \<Rightarrow> if getMeasure ds n \<noteq> None then n
                                  else ds_defaultSortMeasure ds
                      | _ \<Rightarrow> ds_defaultSortMeasure ds),
                   v_compare = map_option (\<lambda>f. filter_constrainToDimensions C f
                                                  (ds_dimensions ds) (ds_timeAttribute ds) None)
                                 cmp,
                   v_highlight = map_option (\<lambda>h. highlight_constrainToDimensions C h
                                                    (ds_dimensions ds) (ds_timeAttribute ds))
                                   hl \<rparr>"
  have fj: "fromJS C js dss viss = Essence C p"
    using assms unfolding p_def
    by (subst fromJS_decoded [of js dss ds C tz f0 rf0 sp0 sm0 pd0 cl cmp hl]) simp_all
  have pv: "v_visualization p = None" "v_dataSources p \<noteq> []" "v_dataSource p = Some ds"
    "v_visualizations p = viss"
    using assms find_Some_not_Nil [of "\<lambda>d. ds_name d = js_dataSource js" dss ds]
    by (simp_all add: p_def)
  note ew = Essence_without_visualization [OF pv(1,2,3), of C, unfolded pv(4)]
  have nil: "fromJS C js dss viss = Inl TypeError" if "viss = []"
    unfolding fj ew using that by (simp add: getBestVisualization_Nil)
  have best: "\<exists>vr. getBestVisualization C viss ds (v_splits p) (v_colors p) None = Some vr
                        \<and> vr_visualization vr \<in> set viss
                        \<and> ((\<forall>a b c. resolve_compare C a b \<le> 0 \<and> resolve_compare C b c \<le> 0
                                     \<longrightarrow> resolve_compare C a c \<le> 0)
                             \<and> (\<forall>a b. resolve_compare C a b \<le> 0 \<or> resolve_compare C b a \<le> 0)
                             \<longrightarrow> (\<forall>v \<in> set viss.
                                    resolve_compare C (vr_resolve vr)
                                      (handleCircumstance v ds (v_splits p) (v_colors p) False)
                                    \<le> 0))
                        \<and> fromJS C js dss viss =
                            Essence C (p \<lparr> v_visualization := Some (vr_visualization vr) \<rparr>)"
    if "viss \<noteq> []"
  proof -
    from getBestVisualization_Some [OF that, of C ds "v_splits p" "v_colors p" None]
    obtain vr where vr: "getBestVisualization C viss ds (v_splits p) (v_colors p) None = Some vr"
      by blast
    have "fromJS C js dss viss = Essence C (p \<lparr> v_visualization := Some (vr_visualization vr) \<rparr>)"
      unfolding fj by (subst ew) (simp add: vr)
    moreover have "(\<forall>a b c. resolve_compare C a b \<le> 0 \<and> resolve_compare C b c \<le> 0
                                     \<longrightarrow> resolve_compare C a c \<le> 0)
                             \<and> (\<forall>a b. resolve_compare C a b \<le> 0 \<or> resolve_compare C b a \<le> 0)
                             \<longrightarrow> (\<forall>v \<in> set viss.
                                    resolve_compare C (vr_resolve vr)
                                      (handleCircumstance v ds (v_splits p) (v_colors p) False)
                                    \<le> 0)"
    proof (intro impI)
      assume A: "(\<forall>a b c. resolve_compare C a b \<le> 0 \<and> resolve_compare C b c \<le> 0
                                     \<longrightarrow> resolve_compare C a c \<le> 0)
                             \<and> (\<forall>a b. resolve_compare C a b \<le> 0 \<or> resolve_compare C b a \<le> 0)"
      from getBestVisualization_first [OF A [THEN conjunct1] A [THEN conjunct2] vr]
      show "\<forall>v \<in> set viss.
                                    resolve_compare C (vr_resolve vr)
                                      (handleCircumstance v ds (v_splits p) (v_colors p) False)
                                    \<le> 0"
        by simp
    qed
    ultimately show ?thesis
      by (intro exI [of _ vr] conjI) (rule vr, rule getBestVisualization_mem [OF vr])
  qed
  show ?thesis
    unfolding Let_def p_def [symmetric]
    by (intro conjI impI) (rule fj, erule nil, erule best)
qed

lemma fromJS_unknown_visualization_best:
  assumes "fromJS C js dss viss = Inr e"
    and "find (\<lambda>v. vis_id v = js_visualization js) viss = None"
  shows "(\<exists>sp0 cl vr.
              splits_fromJS C (js_splits js) = Inr sp0
            \<and> optionalFromJS (colors_fromJS C) (js_colors js) = Inr cl
            \<and> getBestVisualization C viss (dataSource e)
                 (splits_constrainToDimensions C sp0 (ds_dimensions (dataSource e))) cl None
                = Some vr
            \<and> visualization e = vr_visualization vr)"
proof -
  from fromJS_Inr_decoded [OF assms(1)] obtain ds tz f0 rf0 sp0 sm0 pd0 cl cmp hl where
    d: "find (\<lambda>d. ds_name d = js_dataSource js) dss = Some ds"
       "timezone_fromJS C (js_timezone js) = Inr tz"
       "filter_fromJS C (js_filter js) = Inr f0"
       "filter_fromJS C (js_requiredFilter js) = Inr rf0"
       "splits_fromJS C (js_splits js) = Inr sp0"
       "orderedSetFromJS C (js_selectedMeasures js) = Inr sm0"
       "orderedSetFromJS C (js_pinnedDimensions js) = Inr pd0"
       "optionalFromJS (colors_fromJS C) (js_colors js) = Inr cl"
       "optionalFromJS (filter_fromJS C) (js_compare js) = Inr cmp"
       "optionalFromJS (highlight_fromJS C) (js_highlight js) = Inr hl"
    by blast
  define p where "p = \<lparr> v_dataSources = dss,
                   v_visualizations = viss,
                   v_dataSource = Some ds,
                   v_visualization = None,
                   v_timezone = tz,
                   v_filter = filter_constrainToDimensions C f0 (ds_dimensions ds)
                                (ds_timeAttribute ds) None,
                   v_requiredFilter = filter_constrainToDimensions C rf0 (ds_dimensions ds)
                                        (ds_timeAttribute ds) None,
                   v_splits = splits_constrainToDimensions C sp0 (ds_dimensions ds),
                   v_selectedMeasures = constrainMeasures sm0 ds,
                   v_pinnedDimensions = constrainDimensions pd0 ds,
                   v_colors = cl,
                   v_pinnedSort =
                     (case (case js_pinnedSort js of
                              None \<Rightarrow> JStr (ds_defaultSortMeasure ds)
                            | Some j \<Rightarrow> if truthy j then j
                                        else JStr (ds_defaultSortMeasure ds)) of
                        JStr n \<Rightarrow> if getMeasure ds n \<noteq> None then n
                                  else ds_defaultSortMeasure ds
                      | _ \<Rightarrow> ds_defaultSortMeasure ds),
                   v_compare = map_option (\<lambda>f. filter_constrainToDimensions C f
                                                  (ds_dimensions ds) (ds_timeAttribute ds) None)
                                 cmp,
                   v_highlight = map_option (\<lambda>h. highlight_constrainToDimensions C h
                                                    (ds_dimensions ds) (ds_timeAttribute ds))
                                   hl \<rparr>"
  have "fromJS C js dss viss = Essence C p"
    unfolding p_def
    by (subst fromJS_decoded [OF d]) (simp add: assms(2))
  with assms(1) have E: "Essence C p = Inr e" by simp
  have ds: "dataSource e = ds"
    using Essence_InrD(2) [OF E] by (simp add: p_def)
  have "chooseVisualization C p ds = Inr (visualization e)"
    using Essence_InrD(3) [OF E] by (simp add: ds)
  then obtain vr where
    "getBestVisualization C viss ds (splits_constrainToDimensions C sp0 (ds_dimensions ds)) cl None
       = Some vr" "visualization e = vr_visualization vr"
    by (auto simp: chooseVisualization_def p_def split: option.splits)
  with d(5,8) ds show ?thesis by blast
qed

text \<open>
  C2, as amended. No exception leaves \<open>fromHash\<close>: once the array is parsed and
  has 6 to 9 elements, \<open>fromHash\<close> returns the state that \<open>fromJS\<close> returns and
  \<^verbatim>\<open>null\<close> for whatever \<open>fromJS\<close> throws. A data source name that the catalog
  does not have makes \<open>fromJS\<close> throw, and \<open>fromHash\<close> returns \<^verbatim>\<open>null\<close> for
  it as for the other decode failures. A visualization identifier that the catalog
  does not have is no error: when the data source is known and every part decodes,
  \<open>fromJS\<close> passes no visualization to the constructor, which does what it does
  on the visualization that \<open>getBestVisualization\<close> picks for the decoded splits
  and colors (with an empty catalog it throws); a state that comes back has that
  visualization. The pick ranks before every visualization of the catalog when
  \<^verbatim>\<open>Resolve.compare\<close> is transitive and total.
\<close>

theorem fromHash_catches_construction_errors:
  "(\<forall>err. fromHash C hash dss viss \<noteq> Inl err)
   \<and> (\<forall>xs. 4 \<le> length (hashParts hash) \<and> parseInt (hashParts hash ! 2) = Some 1
          \<and> parsePayload C (join ''/'' (drop 3 (hashParts hash))) = Inr (JArr xs)
          \<and> 6 \<le> length xs \<and> length xs \<le> 9 \<longrightarrow>
          fromHash C hash dss viss =
            (case fromJS C
                    \<lparr> js_dataSource = hashParts hash ! 0,
                          js_visualization = hashParts hash ! 1,
                          js_timezone = xs ! 0,
                          js_filter = xs ! 1,
                          js_requiredFilter = xs ! 2,
                          js_splits = xs ! 3,
                          js_selectedMeasures = xs ! 4,
                          js_pinnedDimensions = xs ! 5,
                          js_colors = Some (orNull (index xs 7)),
                          js_pinnedSort = index xs 6,
                          js_compare = Some (orNull (index xs 8)),
                          js_highlight = Some (orNull (index xs 9)) \<rparr>
                    dss viss of
               Inl err \<Rightarrow> Inr None
             | Inr e \<Rightarrow> Inr (Some e)))
   \<and> (\<forall>js :: EssenceJS. find (\<lambda>d. ds_name d = js_dataSource js) dss = None
          \<longrightarrow> (\<exists>err. fromJS C js dss viss = Inl err))
   \<and> (find (\<lambda>d. ds_name d = hashParts hash ! 0) dss = None
        \<longrightarrow> fromHash C hash dss viss = Inr None)
   \<and> (\<forall>js ds tz f0 rf0 sp0 sm0 pd0 cl cmp hl.
          find (\<lambda>v. vis_id v = js_visualization js) viss = None
        \<and> find (\<lambda>d. ds_name d = js_dataSource js) dss = Some ds
        \<and> timezone_fromJS C (js_timezone js) = Inr tz
        \<and> filter_fromJS C (js_filter js) = Inr f0
        \<and> filter_fromJS C (js_requiredFilter js) = Inr rf0
        \<and> splits_fromJS C (js_splits js) = Inr sp0
        \<and> orderedSetFromJS C (js_selectedMeasures js) = Inr sm0
        \<and> orderedSetFromJS C (js_pinnedDimensions js) = Inr pd0
        \<and> optionalFromJS (colors_fromJS C) (js_colors js) = Inr cl
        \<and> optionalFromJS (filter_fromJS C) (js_compare js) = Inr cmp
        \<and> optionalFromJS (highlight_fromJS C) (js_highlight js) = Inr hl
        \<longrightarrow>
          (let p = \<lparr> v_dataSources = dss,
                   v_visualizations = viss,
                   v_dataSource = Some ds,
                   v_visualization = None,
                   v_timezone = tz,
                   v_filter = filter_constrainToDimensions C f0 (ds_dimensions ds)
                                (ds_timeAttribute ds) None,
                   v_requiredFilter = filter_constrainToDimensions C rf0 (ds_dimensions ds)
                                        (ds_timeAttribute ds) None,
                   v_splits = splits_constrainToDimensions C sp0 (ds_dimensions ds),
                   v_selectedMeasures = constrainMeasures sm0 ds,
                   v_pinnedDimensions = constrainDimensions pd0 ds,
                   v_colors = cl,
                   v_pinnedSort =
                     (case (case js_pinnedSort js of
                              None \<Rightarrow> JStr (ds_defaultSortMeasure ds)
                            | Some j \<Rightarrow> if truthy j then j
                                        else JStr (ds_defaultSortMeasure ds)) of
                        JStr n \<Rightarrow> if getMeasure ds n \<noteq> None then n
                                  else ds_defaultSortMeasure ds
                      | _ \<Rightarrow> ds_defaultSortMeasure ds),
                   v_compare = map_option (\<lambda>f. filter_constrainToDimensions C f
                                                  (ds_dimensions ds) (ds_timeAttribute ds) None)
                                 cmp,
                   v_highlight = map_option (\<lambda>h. highlight_constrainToDimensions C h
                                                    (ds_dimensions ds) (ds_timeAttribute ds))
                                   hl \<rparr>
            in fromJS C js dss viss = Essence C p
               \<and> (viss = [] \<longrightarrow> fromJS C js dss viss = Inl TypeError)
               \<and> (viss \<noteq> [] \<longrightarrow>
                    (\<exists>vr. getBestVisualization C viss ds (v_splits p) (v_colors p) None = Some vr
                        \<and> vr_visualization vr \<in> set viss
                        \<and> ((\<forall>a b c. resolve_compare C a b \<le> 0 \<and> resolve_compare C b c \<le> 0
                                     \<longrightarrow> resolve_compare C a c \<le> 0)
                             \<and> (\<forall>a b. resolve_compare C a b \<le> 0 \<or> resolve_compare C b a \<le> 0)
                             \<longrightarrow> (\<forall>v \<in> set viss.
                                    resolve_compare C (vr_resolve vr)
                                      (handleCircumstance v ds (v_splits p) (v_colors p) False)
                                    \<le> 0))
                        \<and> fromJS C js dss viss =
                            Essence C (p \<lparr> v_visualization := Some (vr_visualization vr) \<rparr>)))))
   \<and> (\<forall>js e. find (\<lambda>v. vis_id v = js_visualization js) viss = None
            \<and> fromJS C js dss viss = Inr e
          \<longrightarrow> (\<exists>sp0 cl vr.
              splits_fromJS C (js_splits js) = Inr sp0
            \<and> optionalFromJS (colors_fromJS C) (js_colors js) = Inr cl
            \<and> getBestVisualization C viss (dataSource e)
                 (splits_constrainToDimensions C sp0 (ds_dimensions (dataSource e))) cl None
                = Some vr
            \<and> visualization e = vr_visualization vr))
   \<and> (\<forall>e. find (\<lambda>v. vis_id v = hashParts hash ! 1) viss = None
           \<and> fromHash C hash dss viss = Inr (Some e)
          \<longrightarrow> visualization e \<in> set viss)"
proof (intro conjI allI impI)
  fix err show "fromHash C hash dss viss \<noteq> Inl err" by (rule fromHash_never_throws)
next
  fix xs
  assume "4 \<le> length (hashParts hash) \<and> parseInt (hashParts hash ! 2) = Some 1
          \<and> parsePayload C (join ''/'' (drop 3 (hashParts hash))) = Inr (JArr xs)
          \<and> 6 \<le> length xs \<and> length xs \<le> 9"
  then show "fromHash C hash dss viss =
            (case fromJS C
                    \<lparr> js_dataSource = hashParts hash ! 0,
                          js_visualization = hashParts hash ! 1,
                          js_timezone = xs ! 0,
                          js_filter = xs ! 1,
                          js_requiredFilter = xs ! 2,
                          js_splits = xs ! 3,
                          js_selectedMeasures = xs ! 4,
                          js_pinnedDimensions = xs ! 5,
                          js_colors = Some (orNull (index xs 7)),
                          js_pinnedSort = index xs 6,
                          js_compare = Some (orNull (index xs 8)),
                          js_highlight = Some (orNull (index xs 9)) \<rparr>
                    dss viss of
               Inl err \<Rightarrow> Inr None
             | Inr e \<Rightarrow> Inr (Some e))"
    by (simp add: fromHash_def Let_def)
next
  fix js :: EssenceJS assume "find (\<lambda>d. ds_name d = js_dataSource js) dss = None"
  then show "\<exists>err. fromJS C js dss viss = Inl err" by (rule fromJS_unknown_dataSource)
next
  assume unknown: "find (\<lambda>d. ds_name d = hashParts hash ! 0) dss = None"
  show "fromHash C hash dss viss = Inr None"
  proof (cases "fromHash C hash dss viss")
    case (Inl err)
    then show ?thesis by (simp add: fromHash_never_throws)
  next
    case (Inr r)
    show ?thesis
    proof (cases r)
      case None
      with Inr show ?thesis by simp
    next
      case (Some e)
      with Inr fromHash_Some [of C hash dss viss e] obtain js where
        "fromJS C js dss viss = Inr e" "js_dataSource js = hashParts hash ! 0"
        by auto
      with fromJS_unknown_dataSource [of js dss C viss] unknown show ?thesis by auto
    qed
  qed
next
  fix js :: EssenceJS and ds tz f0 rf0 sp0 sm0 pd0 cl cmp hl
  assume "find (\<lambda>v. vis_id v = js_visualization js) viss = None
        \<and> find (\<lambda>d. ds_name d = js_dataSource js) dss = Some ds
        \<and> timezone_fromJS C (js_timezone js) = Inr tz
        \<and> filter_fromJS C (js_filter js) = Inr f0
        \<and> filter_fromJS C (js_requiredFilter js) = Inr rf0
        \<and> splits_fromJS C (js_splits js) = Inr sp0
        \<and> orderedSetFromJS C (js_selectedMeasures js) = Inr sm0
        \<and> orderedSetFromJS C (js_pinnedDimensions js) = Inr pd0
        \<and> optionalFromJS (colors_fromJS C) (js_colors js) = Inr cl
        \<and> optionalFromJS (filter_fromJS C) (js_compare js) = Inr cmp
        \<and> optionalFromJS (highlight_fromJS C) (js_highlight js) = Inr hl"
  then show "(let p = \<lparr> v_dataSources = dss,
                   v_visualizations = viss,
                   v_dataSource = Some ds,
                   v_visualization = None,
                   v_timezone = tz,
                   v_filter = filter_constrainToDimensions C f0 (ds_dimensions ds)
                                (ds_timeAttribute ds) None,
                   v_requiredFilter = filter_constrainToDimensions C rf0 (ds_dimensions ds)
                                        (ds_timeAttribute ds) None,
                   v_splits = splits_constrainToDimensions C sp0 (ds_dimensions ds),
                   v_selectedMeasures = constrainMeasures sm0 ds,
                   v_pinnedDimensions = constrainDimensions pd0 ds,
                   v_colors = cl,
                   v_pinnedSort =
                     (case (case js_pinnedSort js of
                              None \<Rightarrow> JStr (ds_defaultSortMeasure ds)
                            | Some j \<Rightarrow> if truthy j then j
                                        else JStr (ds_defaultSortMeasure ds)) of
                        JStr n \<Rightarrow> if getMeasure ds n \<noteq> None then n
                                  else ds_defaultSortMeasure ds
                      | _ \<Rightarrow> ds_defaultSortMeasure ds),
                   v_compare = map_option (\<lambda>f. filter_constrainToDimensions C f
                                                  (ds_dimensions ds) (ds_timeAttribute ds) None)
                                 cmp,
                   v_highlight = map_option (\<lambda>h. highlight_constrainToDimensions C h
                                                    (ds_dimensions ds) (ds_timeAttribute ds))
                                   hl \<rparr>
            in fromJS C js dss viss = Essence C p
               \<and> (viss = [] \<longrightarrow> fromJS C js dss viss = Inl TypeError)
               \<and> (viss \<noteq> [] \<longrightarrow>
                    (\<exists>vr. getBestVisualization C viss ds (v_splits p) (v_colors p) None = Some vr
                        \<and> vr_visualization vr \<in> set viss
                        \<and> ((\<forall>a b c. resolve_compare C a b \<le> 0 \<and> resolve_compare C b c \<le> 0
                                     \<longrightarrow> resolve_compare C a c \<le> 0)
                             \<and> (\<forall>a b. resolve_compare C a b \<le> 0 \<or> resolve_compare C b a \<le> 0)
                             \<longrightarrow> (\<forall>v \<in> set viss.
                                    resolve_compare C (vr_resolve vr)
                                      (handleCircumstance v ds (v_splits p) (v_colors p) False)
                                    \<le> 0))
                        \<and> fromJS C js dss viss =
                            Essence C (p \<lparr> v_visualization := Some (vr_visualization vr) \<rparr>))))"
    by (rule fromJS_unknown_visualization_decoded)
next
  fix js :: EssenceJS and e
  assume "find (\<lambda>v. vis_id v = js_visualization js) viss = None
            \<and> fromJS C js dss viss = Inr e"
  then show "(\<exists>sp0 cl vr.
              splits_fromJS C (js_splits js) = Inr sp0
            \<and> optionalFromJS (colors_fromJS C) (js_colors js) = Inr cl
            \<and> getBestVisualization C viss (dataSource e)
                 (splits_constrainToDimensions C sp0 (ds_dimensions (dataSource e))) cl None
                = Some vr
            \<and> visualization e = vr_visualization vr)"
    using fromJS_unknown_visualization_best [of C js dss viss e] by blast
next
  fix e
  assume h: "find (\<lambda>v. vis_id v = hashParts hash ! 1) viss = None
           \<and> fromHash C hash dss viss = Inr (Some e)"
  then obtain js where "fromJS C js dss viss = Inr e" "js_visualization js = hashParts hash ! 1"
    using fromHash_Some [of C hash dss viss e] by auto
  with h show "visualization e \<in> set viss"
    using fromJS_unknown_visualization [of C js dss viss e] by simp
qed

section \<open>Encoding\<close>

lemma length_setIfTruthy_le:
  "length xs \<le> i \<Longrightarrow> length (setIfTruthy xs i v) \<le> Suc i"
  by (auto simp: setIfTruthy_def setIndex_def split: option.splits)

lemma length_setIfTruthy_set:
  "length xs \<le> i \<Longrightarrow> truthy j \<Longrightarrow> length (setIfTruthy xs i (Some j)) = Suc i"
  by (auto simp: setIfTruthy_def setIndex_def)

lemma length_compressedArray_highlight:
  assumes "js_highlight js = Some j" and "truthy j"
  shows "length (compressedArray js) = 10"
proof -
  let ?c0 = "[Some (js_timezone js), Some (js_filter js), Some (js_requiredFilter js),
              Some (js_splits js), Some (js_selectedMeasures js),
              Some (js_pinnedDimensions js), js_pinnedSort js]"
  have "length (setIfTruthy ?c0 7 (js_colors js)) \<le> 8"
    using length_setIfTruthy_le [of ?c0 7] by simp
  then have "length (setIfTruthy (setIfTruthy ?c0 7 (js_colors js)) 8 (js_compare js)) \<le> 9"
    using length_setIfTruthy_le [of "setIfTruthy ?c0 7 (js_colors js)" 8] by simp
  then have "length (setIfTruthy (setIfTruthy (setIfTruthy ?c0 7 (js_colors js)) 8
                (js_compare js)) 9 (Some j)) = 10"
    using length_setIfTruthy_set [OF _ assms(2), of _ 9] by simp
  then show ?thesis using assms(1) by (simp add: compressedArray_def Let_def)
qed

text \<open>
  C1, at the states with a highlight. When a highlight is set, \<open>toHash\<close> encodes
  an array of 10 elements (the highlight at index 9), and \<open>fromHash\<close> of that hash
  returns \<^verbatim>\<open>null\<close>, because it accepts arrays of 6 to 9 elements only. The
  hypotheses say that the names hold no \<^verbatim>\<open>/\<close> and that the collaborators decode
  the payload to the array that was encoded.
\<close>

theorem toHash_fromHash_loses_highlight:
  assumes "highlight e = Some h" and "truthy (highlight_toJS C h)"
    and "CHR ''/'' \<notin> set (ds_name (dataSource e))"
    and "CHR ''/'' \<notin> set (vis_id (visualization e))"
    and "parsePayload C
           (compressToBase64 C
              (join '','' (map (\<lambda>c. stringify C (orNull c)) (compressedArray (toJS C e)))))
         = Inr (JArr (map orNull (compressedArray (toJS C e))))"
  shows "length (compressedArray (toJS C e)) = 10
       \<and> fromHash C (toHash C e) dss viss = Inr None"
proof -
  have len: "length (compressedArray (toJS C e)) = 10"
    by (rule length_compressedArray_highlight [of _ "highlight_toJS C h"])
       (simp_all add: toJS_def assms(1,2))
  let ?payload = "compressToBase64 C
              (join '','' (map (\<lambda>c. stringify C (orNull c)) (compressedArray (toJS C e))))"
  have th: "toHash C e = CHR ''#'' # join ''/'' [ds_name (dataSource e),
              vis_id (visualization e), ''1'', ?payload]"
    by (simp add: toHash_def Let_def toJS_def)
  have parts: "hashParts (toHash C e) = ds_name (dataSource e) # vis_id (visualization e)
                 # ''1'' # split (CHR ''/'') ?payload"
    unfolding th by (rule hashParts_toHash [OF assms(3,4)])
  have "fromHash C (toHash C e) dss viss = Inr None"
    unfolding fromHash_def parts Let_def
    using split_not_Nil [of "CHR ''/''" ?payload] assms(5) len
    by (simp add: parseInt_1 join_split [of "CHR ''/''", simplified])
  with len show ?thesis by simp
qed

lemma orNull_truthy: "truthy j \<Longrightarrow> orNull (Some j) = j"
  by simp

text \<open>
  Without a highlight the round trip holds: the hash of a state decodes to the state,
  with or without colors and compare, when the state is in the catalogs, its names are
  valid for its data source, and the collaborators read back what they wrote.
\<close>

lemma fromHash_toHash_without_highlight:
  fixes C :: "('s, 'c) collaborators" and e :: "('s, 'c) essence"
  defines "ds \<equiv> dataSource e"
  assumes built: "constructed C e"
    and no_highlight: "highlight e = None"
    and catalog: "find (\<lambda>d. ds_name d = ds_name ds) dss = Some ds"
      "find (\<lambda>v. vis_id v = vis_id (visualization e)) viss = Some (visualization e)"
      "dataSources e = dss" "visualizations e = viss"
    and names: "CHR ''/'' \<notin> set (ds_name ds)" "CHR ''/'' \<notin> set (vis_id (visualization e))"
    and codec: "parsePayload C
           (compressToBase64 C
              (join '','' (map (\<lambda>c. stringify C (orNull c)) (compressedArray (toJS C e)))))
         = Inr (JArr (map orNull (compressedArray (toJS C e))))"
    and tz: "truthy (timezone_toJS C (timezone e))"
      "timezone_fromJS C (timezone_toJS C (timezone e)) = Inr (timezone e)"
    and fl: "truthy (filter_toJS C (filter' e))"
      "filter_fromJS C (filter_toJS C (filter' e)) = Inr (filter' e)"
      "filter_constrainToDimensions C (filter' e) (ds_dimensions ds) (ds_timeAttribute ds) None
         = filter' e"
    and rf: "truthy (filter_toJS C (requiredFilter e))"
      "filter_fromJS C (filter_toJS C (requiredFilter e)) = Inr (requiredFilter e)"
      "filter_constrainToDimensions C (requiredFilter e) (ds_dimensions ds)
         (ds_timeAttribute ds) None = requiredFilter e"
    and sp: "truthy (splits_toJS C (splits e))"
      "splits_fromJS C (splits_toJS C (splits e)) = Inr (splits e)"
      "splits_constrainToDimensions C (splits e) (ds_dimensions ds) = splits e"
    and sm: "orderedSetFromJS C (JArr (map JStr (selectedMeasures e))) = Inr (selectedMeasures e)"
      "constrainMeasures (selectedMeasures e) ds = selectedMeasures e"
    and pd: "orderedSetFromJS C (JArr (map JStr (pinnedDimensions e))) = Inr (pinnedDimensions e)"
      "constrainDimensions (pinnedDimensions e) ds = pinnedDimensions e"
    and ps: "pinnedSort e = ds_defaultSortMeasure ds
             \<or> (pinnedSort e \<noteq> [] \<and> getMeasure ds (pinnedSort e) \<noteq> None)"
    and cl: "\<And>c. colors e = Some c \<Longrightarrow>
               truthy (colors_toJS C c) \<and> colors_fromJS C (colors_toJS C c) = Inr c"
    and cm: "\<And>f. compare e = Some f \<Longrightarrow>
               truthy (filter_toJS C f) \<and> filter_fromJS C (filter_toJS C f) = Inr f
               \<and> filter_constrainToDimensions C f (ds_dimensions ds) (ds_timeAttribute ds) None = f"
  shows "fromHash C (toHash C e) dss viss = Inr (Some e)"
proof -
  let ?js = "toJS C e"
  let ?arr = "map orNull (compressedArray ?js)"
  let ?payload = "compressToBase64 C
              (join '','' (map (\<lambda>c. stringify C (orNull c)) (compressedArray ?js)))"
  have th: "toHash C e = CHR ''#'' # join ''/'' [ds_name ds, vis_id (visualization e),
              ''1'', ?payload]"
    by (simp add: toHash_def Let_def toJS_def ds_def)
  have parts: "hashParts (toHash C e) = ds_name ds # vis_id (visualization e)
                 # ''1'' # split (CHR ''/'') ?payload"
    unfolding th by (rule hashParts_toHash [OF names])
  let ?base = "[timezone_toJS C (timezone e), filter_toJS C (filter' e),
                filter_toJS C (requiredFilter e), splits_toJS C (splits e),
                JArr (map JStr (selectedMeasures e)), JArr (map JStr (pinnedDimensions e)),
                orNull (js_pinnedSort ?js)]"
  have arr: "?arr = ?base @
          (case (colors e, compare e) of
             (None, None) \<Rightarrow> []
           | (Some c, None) \<Rightarrow> [colors_toJS C c]
           | (None, Some f) \<Rightarrow> [JNull, filter_toJS C f]
           | (Some c, Some f) \<Rightarrow> [colors_toJS C c, filter_toJS C f])"
    using tz(1) fl(1) rf(1) sp(1) cl cm no_highlight
    by (auto simp: compressedArray_def toJS_def Let_def setIfTruthy_def setIndex_def
             split: option.splits)
  have len: "6 \<le> length ?arr \<and> length ?arr \<le> 9"
    unfolding arr by (simp split: option.splits)
  have i0: "?arr ! 0 = timezone_toJS C (timezone e)" "?arr ! Suc 0 = filter_toJS C (filter' e)"
    "?arr ! 2 = filter_toJS C (requiredFilter e)" "?arr ! 3 = splits_toJS C (splits e)"
    "?arr ! 4 = JArr (map JStr (selectedMeasures e))"
    "?arr ! 5 = JArr (map JStr (pinnedDimensions e))"
    unfolding arr by simp_all
  have i6: "index ?arr 6 = Some (orNull (js_pinnedSort ?js))"
    unfolding arr by (simp add: index_def)
  have i7: "orNull (index ?arr 7) = (case colors e of None \<Rightarrow> JNull | Some c \<Rightarrow> colors_toJS C c)"
    unfolding arr using cl by (auto simp: index_def split: option.splits)
  have i8: "orNull (index ?arr 8) = (case compare e of None \<Rightarrow> JNull | Some f \<Rightarrow> filter_toJS C f)"
    unfolding arr using cm by (auto simp: index_def nth_append split: option.splits)
  have i9: "orNull (index ?arr 9) = JNull"
    unfolding arr by (simp add: index_def split: option.splits)
  have sort: "(case (case index ?arr 6 of
                       None \<Rightarrow> JStr (ds_defaultSortMeasure ds)
                     | Some j \<Rightarrow> if truthy j then j else JStr (ds_defaultSortMeasure ds)) of
                 JStr n \<Rightarrow> if getMeasure ds n \<noteq> None then n else ds_defaultSortMeasure ds
               | _ \<Rightarrow> ds_defaultSortMeasure ds) = pinnedSort e"
    unfolding i6 using ps by (auto simp: toJS_def ds_def)
  have cfj: "optionalFromJS (colors_fromJS C) (Some (orNull (index ?arr 7))) = Inr (colors e)"
    unfolding i7 using cl by (auto simp: optionalFromJS_def bindE_def split: option.splits)
  have mfj: "optionalFromJS (filter_fromJS C) (Some (orNull (index ?arr 8))) = Inr (compare e)"
    unfolding i8 using cm by (auto simp: optionalFromJS_def bindE_def split: option.splits)
  have hfj: "optionalFromJS (highlight_fromJS C) (Some (orNull (index ?arr 9))) = Inr None"
    unfolding i9 by (simp add: optionalFromJS_def)
  have cmc: "map_option (\<lambda>f. filter_constrainToDimensions C f (ds_dimensions ds)
                                (ds_timeAttribute ds) None) (compare e) = compare e"
    using cm by (cases "compare e") simp_all
  have rebuilt: "Essence C
         \<lparr> v_dataSources = dss, v_visualizations = viss, v_dataSource = Some ds,
           v_visualization = Some (visualization e), v_timezone = timezone e,
           v_filter = filter' e, v_requiredFilter = requiredFilter e, v_splits = splits e,
           v_selectedMeasures = selectedMeasures e, v_pinnedDimensions = pinnedDimensions e,
           v_colors = colors e, v_pinnedSort = pinnedSort e, v_compare = compare e,
           v_highlight = None \<rparr> = Inr e"
    using built no_highlight catalog(3,4)
    by (simp add: constructed_def valueOf_def ds_def)
  have fj: "fromJS C
              \<lparr> js_dataSource = ds_name ds,
                js_visualization = vis_id (visualization e),
                js_timezone = ?arr ! 0,
                js_filter = ?arr ! 1,
                js_requiredFilter = ?arr ! 2,
                js_splits = ?arr ! 3,
                js_selectedMeasures = ?arr ! 4,
                js_pinnedDimensions = ?arr ! 5,
                js_colors = Some (orNull (index ?arr 7)),
                js_pinnedSort = index ?arr 6,
                js_compare = Some (orNull (index ?arr 8)),
                js_highlight = Some (orNull (index ?arr 9)) \<rparr> dss viss = Inr e"
    unfolding fromJS_def Let_def
    by (simp add: i0 catalog(1,2) tz(2) fl(2,3) rf(2,3) sp(2,3) sm pd cfj mfj hfj sort cmc
          bindE_def rebuilt)
  show ?thesis
    unfolding fromHash_def parts Let_def
    using split_not_Nil [of "CHR ''/''" ?payload] codec len fj
    by (simp add: parseInt_1 join_split [of "CHR ''/''", simplified])
qed

section \<open>Ordered sets\<close>

lemma remdups_append_mem: "x \<in> set B \<Longrightarrow> remdups (A @ x # B) = remdups (A @ B)"
  by (induction A) auto

lemma OrderedSet_fold:
  "foldl (\<lambda>acc x. if x \<in> set acc then acc else acc @ [x]) acc xs
     = rev (remdups (rev xs @ rev acc))" if "distinct acc"
  using that
proof (induction xs arbitrary: acc)
  case Nil
  then show ?case by (simp add: distinct_remdups_id)
next
  case (Cons x xs)
  show ?case
  proof (cases "x \<in> set acc")
    case True
    then have "remdups (rev xs @ x # rev acc) = remdups (rev xs @ rev acc)"
      by (intro remdups_append_mem) simp
    with True Cons show ?thesis by simp
  next
    case False
    with Cons.prems have "distinct (acc @ [x])" by simp
    from Cons.IH [OF this] False show ?thesis by simp
  qed
qed

lemma OrderedSet_eq: "OrderedSet xs = rev (remdups (rev xs))"
  using OrderedSet_fold [of "[]" xs] by (simp add: OrderedSet_def)

lemma set_OrderedSet: "set (OrderedSet xs) = set xs"
  by (simp add: OrderedSet_eq)

lemma distinct_OrderedSet: "distinct (OrderedSet xs)"
  by (simp add: OrderedSet_eq)

lemma OrderedSet_filter: "OrderedSet (filter P xs) = filter P (OrderedSet xs)"
  by (simp add: OrderedSet_eq rev_filter remdups_filter)

section \<open>Toggling a measure\<close>

lemma toggleMeasure_constructed:
  assumes "constructed C e"
  shows "toggleMeasure C e m =
           Inr (e \<lparr> selectedMeasures :=
                  (if m_name m \<in> set (selectedMeasures e)
                   then filter (\<lambda>n. n \<noteq> m_name m) (selectedMeasures e)
                   else filter (\<lambda>n. n \<in> set (selectedMeasures e) \<or> n = m_name m)
                          (OrderedSet (map m_name (ds_measures (dataSource e))))) \<rparr>)"
proof -
  let ?p = "(valueOf e) \<lparr> v_selectedMeasures :=
              (if m_name m \<in> set (selectedMeasures e)
               then filter (\<lambda>n. n \<noteq> m_name m) (selectedMeasures e)
               else OrderedSet
                      (filter (\<lambda>n. n \<in> set (selectedMeasures e) \<or> n = m_name m)
                         (map m_name (ds_measures (dataSource e))))) \<rparr>"
  have "toggleMeasure C e m = Essence C ?p"
    by (simp add: toggleMeasure_def Let_def valueOf_def)
  also have "\<dots> = Inr (e \<lparr> timezone := v_timezone ?p, filter' := v_filter ?p,
                    requiredFilter := v_requiredFilter ?p,
                    selectedMeasures := v_selectedMeasures ?p,
                    pinnedDimensions := v_pinnedDimensions ?p,
                    pinnedSort := v_pinnedSort ?p, compare := v_compare ?p,
                    highlight := v_highlight ?p \<rparr>)"
    by (rule Essence_same_circumstance [OF assms]) (simp_all add: valueOf_def)
  finally show ?thesis by (simp add: valueOf_def OrderedSet_filter)
qed

lemma constructed_selectedMeasures_update:
  "constructed C e \<Longrightarrow> constructed C (e \<lparr> selectedMeasures := sel \<rparr>)"
  by (rule constructedI) (use constructedD in \<open>simp_all\<close>)

lemma inDataSourceOrder_filter:
  "inDataSourceOrder ds (filter P (OrderedSet (map m_name (ds_measures ds))))"
  unfolding inDataSourceOrder_def
  by (rule filter_cong [OF refl]) simp

text \<open>
  C5, as amended. For a measure of the data source that is not selected, toggling it
  on and then off returns the prior selection restricted to the measures of the data
  source and put in their declared order; this is the prior selection when that one
  was in the declared order already. After toggling on two measures and removing the
  first, the selection is in the order the data source declares.
\<close>

theorem toggleMeasure_dataSource_order:
  assumes "constructed C e"
  shows
    "(\<forall>a. m_name a \<notin> set (selectedMeasures e)
          \<and> m_name a \<in> set (map m_name (ds_measures (dataSource e))) \<longrightarrow>
        (\<exists>e1 e2. toggleMeasure C e a = Inr e1 \<and> toggleMeasure C e1 a = Inr e2
           \<and> m_name a \<in> set (selectedMeasures e1)
           \<and> selectedMeasures e2
               = filter (\<lambda>n. n \<in> set (selectedMeasures e))
                   (OrderedSet (map m_name (ds_measures (dataSource e))))
           \<and> (inDataSourceOrder (dataSource e) (selectedMeasures e)
                \<longrightarrow> selectedMeasures e2 = selectedMeasures e)))
     \<and> (\<forall>a b. m_name a \<notin> set (selectedMeasures e) \<and> m_name b \<notin> set (selectedMeasures e)
            \<and> m_name a \<noteq> m_name b
            \<and> m_name a \<in> set (map m_name (ds_measures (dataSource e)))
            \<and> m_name b \<in> set (map m_name (ds_measures (dataSource e))) \<longrightarrow>
        (\<exists>e1 e2 e3. toggleMeasure C e a = Inr e1 \<and> toggleMeasure C e1 b = Inr e2
           \<and> toggleMeasure C e2 a = Inr e3
           \<and> selectedMeasures e3
               = filter (\<lambda>n. n \<in> set (selectedMeasures e) \<or> n = m_name b)
                   (OrderedSet (map m_name (ds_measures (dataSource e))))
           \<and> inDataSourceOrder (dataSource e) (selectedMeasures e3)))"
proof (intro conjI allI impI)
  let ?sel = "selectedMeasures e"
  let ?names = "OrderedSet (map m_name (ds_measures (dataSource e)))"
  fix a :: measure
  assume h: "m_name a \<notin> set ?sel \<and> m_name a \<in> set (map m_name (ds_measures (dataSource e)))"
  define e1 where "e1 = e \<lparr> selectedMeasures :=
                      filter (\<lambda>n. n \<in> set ?sel \<or> n = m_name a) ?names \<rparr>"
  have t1: "toggleMeasure C e a = Inr e1"
    using h by (simp add: toggleMeasure_constructed [OF assms] e1_def)
  have c1: "constructed C e1"
    unfolding e1_def by (rule constructed_selectedMeasures_update [OF assms])
  have in1: "m_name a \<in> set (selectedMeasures e1)"
    using h by (simp add: e1_def set_OrderedSet)
  define e2 where "e2 = e1 \<lparr> selectedMeasures :=
                      filter (\<lambda>n. n \<noteq> m_name a) (selectedMeasures e1) \<rparr>"
  have t2: "toggleMeasure C e1 a = Inr e2"
    using in1 by (simp add: toggleMeasure_constructed [OF c1] e2_def)
  have s2: "selectedMeasures e2 = filter (\<lambda>n. n \<in> set ?sel) ?names"
    using h by (auto simp: e2_def e1_def intro: filter_cong)
  have "selectedMeasures e2 = ?sel" if "inDataSourceOrder (dataSource e) ?sel"
    using that s2 by (simp add: inDataSourceOrder_def)
  with t1 t2 in1 s2
  show "\<exists>e1 e2. toggleMeasure C e a = Inr e1 \<and> toggleMeasure C e1 a = Inr e2
           \<and> m_name a \<in> set (selectedMeasures e1)
           \<and> selectedMeasures e2 = filter (\<lambda>n. n \<in> set ?sel) ?names
           \<and> (inDataSourceOrder (dataSource e) ?sel \<longrightarrow> selectedMeasures e2 = ?sel)"
    by blast
next
  let ?sel = "selectedMeasures e"
  let ?names = "OrderedSet (map m_name (ds_measures (dataSource e)))"
  fix a b :: measure
  assume h: "m_name a \<notin> set ?sel \<and> m_name b \<notin> set ?sel \<and> m_name a \<noteq> m_name b
            \<and> m_name a \<in> set (map m_name (ds_measures (dataSource e)))
            \<and> m_name b \<in> set (map m_name (ds_measures (dataSource e)))"
  define e1 where "e1 = e \<lparr> selectedMeasures :=
                      filter (\<lambda>n. n \<in> set ?sel \<or> n = m_name a) ?names \<rparr>"
  have t1: "toggleMeasure C e a = Inr e1"
    using h by (simp add: toggleMeasure_constructed [OF assms] e1_def)
  have c1: "constructed C e1"
    unfolding e1_def by (rule constructed_selectedMeasures_update [OF assms])
  have d1: "dataSource e1 = dataSource e" by (simp add: e1_def)
  have nb: "m_name b \<notin> set (selectedMeasures e1)"
    using h by (auto simp: e1_def)
  define e2 where "e2 = e1 \<lparr> selectedMeasures :=
                      filter (\<lambda>n. n \<in> set (selectedMeasures e1) \<or> n = m_name b) ?names \<rparr>"
  have t2: "toggleMeasure C e1 b = Inr e2"
    using nb by (simp add: toggleMeasure_constructed [OF c1] e2_def d1)
  have c2: "constructed C e2"
    unfolding e2_def by (rule constructed_selectedMeasures_update [OF c1])
  have ia: "m_name a \<in> set (selectedMeasures e2)"
    using h by (simp add: e2_def e1_def set_OrderedSet)
  define e3 where "e3 = e2 \<lparr> selectedMeasures :=
                      filter (\<lambda>n. n \<noteq> m_name a) (selectedMeasures e2) \<rparr>"
  have t3: "toggleMeasure C e2 a = Inr e3"
    using ia by (simp add: toggleMeasure_constructed [OF c2] e3_def)
  have s3: "selectedMeasures e3 = filter (\<lambda>n. n \<in> set ?sel \<or> n = m_name b) ?names"
    using h by (auto simp: e3_def e2_def e1_def intro: filter_cong)
  have "inDataSourceOrder (dataSource e) (selectedMeasures e3)"
    unfolding s3 by (rule inDataSourceOrder_filter)
  with t1 t2 t3 s3
  show "\<exists>e1 e2 e3. toggleMeasure C e a = Inr e1 \<and> toggleMeasure C e1 b = Inr e2
           \<and> toggleMeasure C e2 a = Inr e3
           \<and> selectedMeasures e3 = filter (\<lambda>n. n \<in> set ?sel \<or> n = m_name b) ?names
           \<and> inDataSourceOrder (dataSource e) (selectedMeasures e3)"
    by blast
qed

section \<open>Changing the data source\<close>

lemma fromDataSource_defaults:
  assumes "fromDataSource C ds dss viss = Inr e'"
  shows "dataSource e' = ds \<and> dataSources e' = dss \<and> visualizations e' = viss
       \<and> timezone e' = ds_defaultTimezone ds
       \<and> requiredFilter e' = ds_requiredFilter ds
       \<and> selectedMeasures e' = OrderedSet (map m_name (take 4 (ds_measures ds)))
       \<and> pinnedDimensions e' = ds_defaultPinnedDimensions ds
       \<and> pinnedSort e' = ds_defaultSortMeasure ds
       \<and> compare e' = None \<and> highlight e' = None"
proof -
  note E = assms [unfolded fromDataSource_def Let_def]
  show ?thesis
    using Essence_InrD(2) [OF E] Essence_InrD(4) [OF E] Essence_InrD(5) [OF E]
      Essence_InrD(6) [OF E] Essence_InrD(8) [OF E] Essence_InrD(9) [OF E]
      Essence_InrD(10) [OF E] Essence_InrD(11) [OF E] Essence_InrD(12) [OF E]
      Essence_InrD(13) [OF E]
    by simp
qed

text \<open>
  C3, as amended. A data source whose name the catalog lacks is a fatal error. A data
  source equal to the catalog's entry of its name gives the state of
  \<open>fromDataSource\<close>: the defaults of that data source, nothing of the prior state.
  A data source that differs from the catalog's entry of its name is a fatal error
  when it is not the selected one, and otherwise every field is re-validated against
  it: filters, splits, selected measures, pinned dimensions, colors, pinned sort,
  compare and highlight.
\<close>

theorem changeDataSource_paths:
  "(find (\<lambda>d. ds_name d = ds_name ds) (dataSources e) = None \<longrightarrow>
      changeDataSource C e ds = Inl (UnknownDataSource (ds_name ds)))
   \<and> (find (\<lambda>d. ds_name d = ds_name ds) (dataSources e) = Some ds \<longrightarrow>
        changeDataSource C e ds = fromDataSource C ds (dataSources e) (visualizations e)
        \<and> (\<forall>e'. changeDataSource C e ds = Inr e' \<longrightarrow>
              dataSource e' = ds
              \<and> timezone e' = ds_defaultTimezone ds
              \<and> requiredFilter e' = ds_requiredFilter ds
              \<and> selectedMeasures e' = OrderedSet (map m_name (take 4 (ds_measures ds)))
              \<and> pinnedDimensions e' = ds_defaultPinnedDimensions ds
              \<and> pinnedSort e' = ds_defaultSortMeasure ds
              \<and> compare e' = None \<and> highlight e' = None))
   \<and> (\<forall>existing. find (\<lambda>d. ds_name d = ds_name ds) (dataSources e) = Some existing
          \<and> existing \<noteq> ds \<and> ds_name (dataSource e) \<noteq> ds_name ds \<longrightarrow>
        changeDataSource C e ds = Inl NonSelectedDataSource)
   \<and> (\<forall>existing e'. find (\<lambda>d. ds_name d = ds_name ds) (dataSources e) = Some existing
          \<and> existing \<noteq> ds \<and> ds_name (dataSource e) = ds_name ds
          \<and> changeDataSource C e ds = Inr e' \<longrightarrow>
        dataSource e' = ds
        \<and> dataSources e' = map (\<lambda>d. if ds_name d = ds_name ds then ds else d) (dataSources e)
        \<and> visualization e' = visualization e
        \<and> timezone e' = timezone e
        \<and> filter' e' = filter_constrainToDimensions C (filter' e) (ds_dimensions ds)
                          (ds_timeAttribute ds) (ds_timeAttribute (dataSource e))
        \<and> requiredFilter e' = filter_constrainToDimensions C (requiredFilter e)
                                 (ds_dimensions ds) (ds_timeAttribute ds)
                                 (ds_timeAttribute (dataSource e))
        \<and> selectedMeasures e' = constrainMeasures (selectedMeasures e) ds
        \<and> pinnedDimensions e' = constrainDimensions (pinnedDimensions e) ds
        \<and> pinnedSort e' = (if getMeasure ds (pinnedSort e) = None
                            then ds_defaultSortMeasure ds else pinnedSort e)
        \<and> compare e' = map_option (\<lambda>f. filter_constrainToDimensions C f (ds_dimensions ds)
                                          (ds_timeAttribute ds) None) (compare e)
        \<and> highlight e' = map_option (\<lambda>h. highlight_constrainToDimensions C h
                                            (ds_dimensions ds) (ds_timeAttribute ds))
                            (highlight e)
        \<and> (let sp = splits_constrainToDimensions C (splits e) (ds_dimensions ds);
                cl = (case colors e of
                        Some c \<Rightarrow> if getDimension ds (colors_dimension C c) = None
                                  then None else Some c
                      | None \<Rightarrow> None);
                r = handleCircumstance (visualization e) ds sp cl True
            in if isAutomatic r
               then \<exists>adj. r_adjustment r = Some adj \<and> splits e' = adj_splits adj
                      \<and> colors e' = adj_colors adj
               else splits e' = sp \<and> colors e' = cl))"
proof (intro conjI)
  show "find (\<lambda>d. ds_name d = ds_name ds) (dataSources e) = None \<longrightarrow>
      changeDataSource C e ds = Inl (UnknownDataSource (ds_name ds))"
    by (simp add: changeDataSource_def)
next
  show "find (\<lambda>d. ds_name d = ds_name ds) (dataSources e) = Some ds \<longrightarrow>
        changeDataSource C e ds = fromDataSource C ds (dataSources e) (visualizations e)
        \<and> (\<forall>e'. changeDataSource C e ds = Inr e' \<longrightarrow>
              dataSource e' = ds
              \<and> timezone e' = ds_defaultTimezone ds
              \<and> requiredFilter e' = ds_requiredFilter ds
              \<and> selectedMeasures e' = OrderedSet (map m_name (take 4 (ds_measures ds)))
              \<and> pinnedDimensions e' = ds_defaultPinnedDimensions ds
              \<and> pinnedSort e' = ds_defaultSortMeasure ds
              \<and> compare e' = None \<and> highlight e' = None)"
  proof
    assume f: "find (\<lambda>d. ds_name d = ds_name ds) (dataSources e) = Some ds"
    then have eq: "changeDataSource C e ds
                     = fromDataSource C ds (dataSources e) (visualizations e)"
      by (simp add: changeDataSource_def)
    have "dataSource e' = ds
              \<and> timezone e' = ds_defaultTimezone ds
              \<and> requiredFilter e' = ds_requiredFilter ds
              \<and> selectedMeasures e' = OrderedSet (map m_name (take 4 (ds_measures ds)))
              \<and> pinnedDimensions e' = ds_defaultPinnedDimensions ds
              \<and> pinnedSort e' = ds_defaultSortMeasure ds
              \<and> compare e' = None \<and> highlight e' = None"
      if a: "changeDataSource C e ds = Inr e'" for e'
    proof -
      from a have "fromDataSource C ds (dataSources e) (visualizations e) = Inr e'"
        unfolding eq .
      from fromDataSource_defaults [OF this] show ?thesis by blast
    qed
    with eq show "changeDataSource C e ds = fromDataSource C ds (dataSources e) (visualizations e)
        \<and> (\<forall>e'. changeDataSource C e ds = Inr e' \<longrightarrow>
              dataSource e' = ds
              \<and> timezone e' = ds_defaultTimezone ds
              \<and> requiredFilter e' = ds_requiredFilter ds
              \<and> selectedMeasures e' = OrderedSet (map m_name (take 4 (ds_measures ds)))
              \<and> pinnedDimensions e' = ds_defaultPinnedDimensions ds
              \<and> pinnedSort e' = ds_defaultSortMeasure ds
              \<and> compare e' = None \<and> highlight e' = None)"
      by blast
  qed
next
  show "\<forall>existing. find (\<lambda>d. ds_name d = ds_name ds) (dataSources e) = Some existing
          \<and> existing \<noteq> ds \<and> ds_name (dataSource e) \<noteq> ds_name ds \<longrightarrow>
        changeDataSource C e ds = Inl NonSelectedDataSource"
    by (simp add: changeDataSource_def)
next
  let ?sp = "splits_constrainToDimensions C (splits e) (ds_dimensions ds)"
  let ?cl = "case colors e of
               Some c \<Rightarrow> if getDimension ds (colors_dimension C c) = None
                         then None else Some c
             | None \<Rightarrow> None"
  let ?p = "\<lparr> v_dataSources = map (\<lambda>d. if ds_name d = ds_name ds then ds else d) (dataSources e),
         v_visualizations = visualizations e,
         v_dataSource = Some ds,
         v_visualization = Some (visualization e),
         v_timezone = timezone e,
         v_filter = filter_constrainToDimensions C (filter' e) (ds_dimensions ds)
                          (ds_timeAttribute ds) (ds_timeAttribute (dataSource e)),
         v_requiredFilter = filter_constrainToDimensions C (requiredFilter e)
                                 (ds_dimensions ds) (ds_timeAttribute ds)
                                 (ds_timeAttribute (dataSource e)),
         v_splits = ?sp,
         v_selectedMeasures = constrainMeasures (selectedMeasures e) ds,
         v_pinnedDimensions = constrainDimensions (pinnedDimensions e) ds,
         v_colors = ?cl,
         v_pinnedSort = (if getMeasure ds (pinnedSort e) = None
                            then ds_defaultSortMeasure ds else pinnedSort e),
         v_compare = map_option (\<lambda>f. filter_constrainToDimensions C f (ds_dimensions ds)
                                          (ds_timeAttribute ds) None) (compare e),
         v_highlight = map_option (\<lambda>h. highlight_constrainToDimensions C h
                                            (ds_dimensions ds) (ds_timeAttribute ds))
                            (highlight e) \<rparr>"
  show "\<forall>existing e'. find (\<lambda>d. ds_name d = ds_name ds) (dataSources e) = Some existing
          \<and> existing \<noteq> ds \<and> ds_name (dataSource e) = ds_name ds
          \<and> changeDataSource C e ds = Inr e' \<longrightarrow>
        dataSource e' = ds
        \<and> dataSources e' = map (\<lambda>d. if ds_name d = ds_name ds then ds else d) (dataSources e)
        \<and> visualization e' = visualization e
        \<and> timezone e' = timezone e
        \<and> filter' e' = filter_constrainToDimensions C (filter' e) (ds_dimensions ds)
                          (ds_timeAttribute ds) (ds_timeAttribute (dataSource e))
        \<and> requiredFilter e' = filter_constrainToDimensions C (requiredFilter e)
                                 (ds_dimensions ds) (ds_timeAttribute ds)
                                 (ds_timeAttribute (dataSource e))
        \<and> selectedMeasures e' = constrainMeasures (selectedMeasures e) ds
        \<and> pinnedDimensions e' = constrainDimensions (pinnedDimensions e) ds
        \<and> pinnedSort e' = (if getMeasure ds (pinnedSort e) = None
                            then ds_defaultSortMeasure ds else pinnedSort e)
        \<and> compare e' = map_option (\<lambda>f. filter_constrainToDimensions C f (ds_dimensions ds)
                                          (ds_timeAttribute ds) None) (compare e)
        \<and> highlight e' = map_option (\<lambda>h. highlight_constrainToDimensions C h
                                            (ds_dimensions ds) (ds_timeAttribute ds))
                            (highlight e)
        \<and> (let sp = splits_constrainToDimensions C (splits e) (ds_dimensions ds);
                cl = (case colors e of
                        Some c \<Rightarrow> if getDimension ds (colors_dimension C c) = None
                                  then None else Some c
                      | None \<Rightarrow> None);
                r = handleCircumstance (visualization e) ds sp cl True
            in if isAutomatic r
               then \<exists>adj. r_adjustment r = Some adj \<and> splits e' = adj_splits adj
                      \<and> colors e' = adj_colors adj
               else splits e' = sp \<and> colors e' = cl)"
  proof (intro allI impI)
    fix existing e'
    assume h: "find (\<lambda>d. ds_name d = ds_name ds) (dataSources e) = Some existing
          \<and> existing \<noteq> ds \<and> ds_name (dataSource e) = ds_name ds
          \<and> changeDataSource C e ds = Inr e'"
    from h have h1: "find (\<lambda>d. ds_name d = ds_name ds) (dataSources e) = Some existing"
      and h2: "existing \<noteq> ds" and h3: "ds_name (dataSource e) = ds_name ds"
      and h4: "changeDataSource C e ds = Inr e'"
      by blast+
    have "changeDataSource C e ds = Essence C ?p"
      using h2 h3 by (simp add: changeDataSource_def h1 Let_def valueOf_def)
    with h4 have E: "Essence C ?p = Inr e'" by simp
    have vis: "visualization e' = visualization e" "dataSource e' = ds"
      using Essence_InrD(2,3) [OF E] by (simp_all add: chooseVisualization_def)
    have adj: "if isAutomatic (handleCircumstance (visualization e) ds ?sp ?cl True)
          then \<exists>adj. r_adjustment (handleCircumstance (visualization e) ds ?sp ?cl True) = Some adj
                 \<and> splits e' = adj_splits adj
                 \<and> colors e' = adj_colors adj \<and> isReady (visResolve e')
          else splits e' = v_splits ?p \<and> colors e' = v_colors ?p
                 \<and> visResolve e' = handleCircumstance (visualization e) ds ?sp ?cl True"
      by (rule Essence_Inr_adjustment [OF E]) (simp add: vis)
    have last: "let sp = ?sp; cl = ?cl;
            r = handleCircumstance (visualization e) ds sp cl True
        in if isAutomatic r
           then \<exists>adj. r_adjustment r = Some adj \<and> splits e' = adj_splits adj
                  \<and> colors e' = adj_colors adj
           else splits e' = sp \<and> colors e' = cl"
      unfolding Let_def using adj by (auto split: if_splits)
    have f2: "dataSources e' = map (\<lambda>d. if ds_name d = ds_name ds then ds else d) (dataSources e)"
      using Essence_InrD(4) [OF E] by simp
    have f4: "timezone e' = timezone e" using Essence_InrD(6) [OF E] by simp
    have f5: "filter' e' = filter_constrainToDimensions C (filter' e) (ds_dimensions ds)
                          (ds_timeAttribute ds) (ds_timeAttribute (dataSource e))"
      using Essence_InrD(7) [OF E] by simp
    have f6: "requiredFilter e' = filter_constrainToDimensions C (requiredFilter e)
                                 (ds_dimensions ds) (ds_timeAttribute ds)
                                 (ds_timeAttribute (dataSource e))"
      using Essence_InrD(8) [OF E] by simp
    have f7: "selectedMeasures e' = constrainMeasures (selectedMeasures e) ds"
      using Essence_InrD(9) [OF E] by simp
    have f8: "pinnedDimensions e' = constrainDimensions (pinnedDimensions e) ds"
      using Essence_InrD(10) [OF E] by simp
    have f9: "pinnedSort e' = (if getMeasure ds (pinnedSort e) = None
                            then ds_defaultSortMeasure ds else pinnedSort e)"
      using Essence_InrD(11) [OF E] by simp
    have f10: "compare e' = map_option (\<lambda>f. filter_constrainToDimensions C f (ds_dimensions ds)
                                          (ds_timeAttribute ds) None) (compare e)"
      using Essence_InrD(12) [OF E] by simp
    have f11: "highlight e' = map_option (\<lambda>h. highlight_constrainToDimensions C h
                                            (ds_dimensions ds) (ds_timeAttribute ds))
                            (highlight e)"
      using Essence_InrD(13) [OF E] by simp
    show "dataSource e' = ds
        \<and> dataSources e' = map (\<lambda>d. if ds_name d = ds_name ds then ds else d) (dataSources e)
        \<and> visualization e' = visualization e
        \<and> timezone e' = timezone e
        \<and> filter' e' = filter_constrainToDimensions C (filter' e) (ds_dimensions ds)
                          (ds_timeAttribute ds) (ds_timeAttribute (dataSource e))
        \<and> requiredFilter e' = filter_constrainToDimensions C (requiredFilter e)
                                 (ds_dimensions ds) (ds_timeAttribute ds)
                                 (ds_timeAttribute (dataSource e))
        \<and> selectedMeasures e' = constrainMeasures (selectedMeasures e) ds
        \<and> pinnedDimensions e' = constrainDimensions (pinnedDimensions e) ds
        \<and> pinnedSort e' = (if getMeasure ds (pinnedSort e) = None
                            then ds_defaultSortMeasure ds else pinnedSort e)
        \<and> compare e' = map_option (\<lambda>f. filter_constrainToDimensions C f (ds_dimensions ds)
                                          (ds_timeAttribute ds) None) (compare e)
        \<and> highlight e' = map_option (\<lambda>h. highlight_constrainToDimensions C h
                                            (ds_dimensions ds) (ds_timeAttribute ds))
                            (highlight e)
        \<and> (let sp = splits_constrainToDimensions C (splits e) (ds_dimensions ds);
                cl = (case colors e of
                        Some c \<Rightarrow> if getDimension ds (colors_dimension C c) = None
                                  then None else Some c
                      | None \<Rightarrow> None);
                r = handleCircumstance (visualization e) ds sp cl True
            in if isAutomatic r
               then \<exists>adj. r_adjustment r = Some adj \<and> splits e' = adj_splits adj
                      \<and> colors e' = adj_colors adj
               else splits e' = sp \<and> colors e' = cl)"
      by (intro conjI) (fact vis f2 f4 f5 f6 f7 f8 f9 f10 f11 last)+
  qed
qed

section \<open>The theorems at the examples\<close>

lemmas demo_values =
  demo_def demoValue_def demoEssence_def demoManual_def demoHighlight_def demoHighlighted_def
  demoTimeSplit_def demoFiltered_def demoSwapped_def wikiRefreshed_def
  wiki_def sales_def demoDataSources_def demoVisualizations_def
  totals_def table_def barChart_def broken_def ready_def manual_def automatic_def
  countryClause_def timeClause_def demoConstrainFilter_def demoSetClause_def
  demoGetTimeRange_def isRef_def
  timeSeries_def hourly_def demoSeries_def widerFilter_def timeHighlight_def
  demoTimeHighlighted_def demoHourly_def

lemmas verdict_defs = isReady_def isAutomatic_def isManual_def

lemma demoEssence_built: "Essence demo demoValue = Inr demoEssence"
  by (simp add: Essence_def chooseVisualization_def verdict_defs demo_values)

lemma constructed_demoEssence: "constructed demo demoEssence"
  by (rule Essence_valueOf [OF demoEssence_built])

lemma constructed_demoManual: "constructed demo demoManual"
  by (rule constructedI) (simp_all add: verdict_defs demo_values)

lemma constructed_demoHighlighted: "constructed demo demoHighlighted"
  by (rule constructedI) (simp_all add: verdict_defs demo_values)

lemma constructed_demoTimeSplit: "constructed demo demoTimeSplit"
  by (rule constructedI) (simp_all add: verdict_defs demo_values)

lemma constructed_demoFiltered: "constructed demo demoFiltered"
  by (rule constructedI) (simp_all add: verdict_defs demo_values)

lemma constructed_demoSwapped: "constructed demo demoSwapped"
  by (rule constructedI) (simp_all add: verdict_defs demo_values)

lemma constructed_demoSeries: "constructed demo demoSeries"
  by (rule constructedI) (simp_all add: verdict_defs demo_values)

lemma constructed_demoTimeHighlighted: "constructed demo demoTimeHighlighted"
  by (rule constructedI) (simp_all add: verdict_defs demo_values)

lemma constructed_demoHourly: "constructed demo demoHourly"
  by (rule constructedI) (simp_all add: verdict_defs demo_values)

theorem Essence_verdict_never_automatic_witness:
  "(\<exists>e. Essence demo (demoValue \<lparr> v_visualization := Some totals \<rparr>) = Inr e
        \<and> \<not> isAutomatic (visResolve e) \<and> isReady (visResolve e) \<and> splits e = [])
   \<and> Essence demo (demoValue \<lparr> v_visualization := Some broken \<rparr>) = Inl NotReadyAfterAdjustment"
proof -
  let ?p = "demoValue \<lparr> v_visualization := Some totals \<rparr>"
  let ?q = "demoValue \<lparr> v_visualization := Some broken \<rparr>"
  obtain e where E: "Essence demo ?p = Inr e"
    by (simp add: Essence_def chooseVisualization_def verdict_defs demo_values)
  have ve: "visualization e = totals" "dataSource e = wiki"
    using Essence_InrD(2,3) [OF E] by (simp_all add: chooseVisualization_def demoValue_def)
  have auto1: "isAutomatic (handleCircumstance (visualization e) (dataSource e)
                  (v_splits ?p) (v_colors ?p) True)"
    by (simp add: ve verdict_defs demo_values)
  from Essence_verdict_never_automatic [of demo ?p] E
  have inv: "\<not> isAutomatic (visResolve e)"
    and adj: "let r = handleCircumstance (visualization e) (dataSource e) (v_splits ?p) (v_colors ?p) True
          in if isAutomatic r
             then \<exists>adj. r_adjustment r = Some adj \<and> splits e = adj_splits adj
                    \<and> colors e = adj_colors adj \<and> isReady (visResolve e)
             else splits e = v_splits ?p \<and> colors e = v_colors ?p \<and> visResolve e = r"
    by blast+
  from adj auto1 have "isReady (visResolve e) \<and> splits e = []"
    by (auto simp: Let_def ve demo_values)
  with E inv have first: "\<exists>e. Essence demo ?p = Inr e
        \<and> \<not> isAutomatic (visResolve e) \<and> isReady (visResolve e) \<and> splits e = []"
    by blast
  have "v_dataSources ?q \<noteq> [] \<and> v_dataSource ?q = Some wiki
         \<and> chooseVisualization demo ?q wiki = Inr broken
         \<and> isAutomatic (handleCircumstance broken wiki (v_splits ?q) (v_colors ?q) True)
         \<and> r_adjustment (handleCircumstance broken wiki (v_splits ?q) (v_colors ?q) True)
             = Some \<lparr> adj_splits = [], adj_colors = None \<rparr>
         \<and> \<not> isReady (handleCircumstance broken wiki
                        (adj_splits \<lparr> adj_splits = ([] :: demoSplits), adj_colors = (None :: demoColors option) \<rparr>)
                        (adj_colors \<lparr> adj_splits = ([] :: demoSplits), adj_colors = (None :: demoColors option) \<rparr>) True)"
    by (simp add: chooseVisualization_def verdict_defs demo_values)
  with Essence_verdict_never_automatic [of demo ?q]
  have "Essence demo ?q = Inl NotReadyAfterAdjustment" by blast
  with first show ?thesis by blast
qed

theorem changeSplits_manual_keeps_visualization_witness:
  "constructed demo demoManual \<and> isManual (visResolve demoManual)
   \<and> map_option vr_visualization
        (getBestVisualization demo demoVisualizations wiki [(''country'', 0)] None None)
       = Some table
   \<and> (\<exists>e'. changeSplits demo demoManual [(''country'', 0)] FairGame = Inr e'
          \<and> splits e' = [(''country'', 0)] \<and> visualization e' = barChart)"
proof -
  have m: "isManual (visResolve demoManual)"
    by (simp add: verdict_defs demo_values)
  have best: "map_option vr_visualization
        (getBestVisualization demo demoVisualizations wiki [(''country'', 0)] None None)
       = Some table"
    by (simp add: getBestVisualization_def index_def demo_values)
  have s1: "(case getTimeAttribute demoManual of
               Some ta \<Rightarrow> updateWithTimeRange demo [(''country'', 0)] ta
                            (getTimeRange demo (filter' demoManual) ta)
                            (timezone demoManual) False
             | None \<Rightarrow> [(''country'', 0)]) = [(''country'', 0)]"
    by (simp add: getTimeAttribute_def demo_values)
  have na: "\<not> isAutomatic (handleCircumstance (visualization demoManual) (dataSource demoManual)
                 [(''country'', 0)] (colors demoManual) True)"
    by (simp add: verdict_defs demo_values)
  from changeSplits_manual_keeps_visualization
         [OF constructed_demoManual m, of "[(''country'', 0)]" FairGame]
  have "\<exists>e'. changeSplits demo demoManual [(''country'', 0)] FairGame = Inr e'
          \<and> splits e' = [(''country'', 0)] \<and> visualization e' = visualization demoManual"
    unfolding s1 Let_def using na by blast
  moreover have "visualization demoManual = barChart" by (simp add: demoManual_def)
  ultimately show ?thesis using constructed_demoManual m best by simp
qed

theorem acceptHighlight_folds_then_resolves_witness:
  "constructed demo demoTimeHighlighted
   \<and> highlight demoTimeHighlighted = Some timeHighlight
   \<and> getEffectiveFilter demo demoTimeHighlighted None None = widerFilter
   \<and> acceptHighlight demo demoTimeHighlighted
       = Inr (demoTimeHighlighted \<lparr> filter' := widerFilter, highlight := None,
                                     splits := [(''time'', 2000), (''country'', 0)] \<rparr>)
   \<and> getEffectiveFilter demo demoHighlighted None None
       = \<lparr> clauses = [timeClause (RefExpression ''time'') \<lparr> tr_start = 4000, tr_end = 5000 \<rparr>,
                      countryClause] \<rparr>
   \<and> acceptHighlight demo demoHighlighted
       = Inr (demoHighlighted
                \<lparr> filter' := getEffectiveFilter demo demoHighlighted None None,
                  highlight := None \<rparr>)
   \<and> acceptHighlight demo demoEssence = Inr demoEssence"
proof -
  have h1: "highlight demoTimeHighlighted = Some timeHighlight"
    by (simp add: demoTimeHighlighted_def)
  have eff1: "getEffectiveFilter demo demoTimeHighlighted None None = widerFilter"
    by (simp add: getEffectiveFilter_def demo_values)
  note acceptHighlight_folds_then_resolves
         [OF constructed_demoTimeHighlighted, THEN conjunct2, THEN spec, THEN mp, OF h1,
          unfolded Let_def eff1, THEN conjunct2, THEN conjunct1]
  then have a1: "acceptHighlight demo demoTimeHighlighted
       = Inr (demoTimeHighlighted \<lparr> filter' := widerFilter, highlight := None,
                                     splits := [(''time'', 2000), (''country'', 0)] \<rparr>)"
    by (simp add: getTimeAttribute_def verdict_defs demo_values)
  have h2: "highlight demoHighlighted = Some demoHighlight"
    by (simp add: demoHighlighted_def)
  have eff2: "getEffectiveFilter demo demoHighlighted None None
       = \<lparr> clauses = [timeClause (RefExpression ''time'') \<lparr> tr_start = 4000, tr_end = 5000 \<rparr>,
                      countryClause] \<rparr>"
    by (simp add: getEffectiveFilter_def demo_values)
  note acceptHighlight_folds_then_resolves
         [OF constructed_demoHighlighted, THEN conjunct2, THEN spec, THEN mp, OF h2,
          unfolded Let_def, THEN conjunct2, THEN conjunct2, THEN conjunct1]
  then have a2: "acceptHighlight demo demoHighlighted
       = Inr (demoHighlighted
                \<lparr> filter' := getEffectiveFilter demo demoHighlighted None None,
                  highlight := None \<rparr>)"
    unfolding eff2 by (simp add: getTimeAttribute_def demo_values)
  have "highlight demoEssence = None" by (simp add: demoEssence_def)
  with acceptHighlight_folds_then_resolves [OF constructed_demoEssence]
  have a3: "acceptHighlight demo demoEssence = Inr demoEssence" by blast
  from constructed_demoTimeHighlighted h1 eff1 a1 eff2 a2 a3 show ?thesis by blast
qed

lemmas filter_defs = changeFilter_def acceptHighlight_def getEffectiveFilter_def
  getTimeAttribute_def valueOf_def Essence_def chooseVisualization_def

text \<open>
  A state with a pending highlight on which \<open>acceptHighlight\<close> returns no state:
  the highlight selects another time range, and the visualization is not ready on
  its own adjustment of the re-derived splits.
\<close>

theorem acceptHighlight_throws_counterexample:
  "constructed demo demoHourly
   \<and> highlight demoHourly = Some timeHighlight
   \<and> getEffectiveFilter demo demoHourly None None = widerFilter
   \<and> acceptHighlight demo demoHourly = Inl NotReadyAfterAdjustment"
proof -
  have "acceptHighlight demo demoHourly = Inl NotReadyAfterAdjustment"
    by (simp add: filter_defs verdict_defs demo_values Let_def)
  moreover have "highlight demoHourly = Some timeHighlight"
    by (simp add: demoHourly_def)
  moreover have "getEffectiveFilter demo demoHourly None None = widerFilter"
    by (simp add: getEffectiveFilter_def demo_values)
  ultimately show ?thesis using constructed_demoHourly by simp
qed

theorem changeFilter_rederives_then_resolves_witness:
  "constructed demo demoTimeSplit
   \<and> getTimeAttribute demoTimeSplit = Some (RefExpression ''time'')
   \<and> changeFilter demo demoTimeSplit widerFilter False
       = Inr (demoTimeSplit \<lparr> filter' := widerFilter,
                               splits := [(''time'', 2000), (''country'', 0)] \<rparr>)
   \<and> changeFilter demo demoSeries widerFilter False
       = Inr (demoSeries \<lparr> filter' := widerFilter \<rparr>)
   \<and> changeFilter demo demoHourly widerFilter True = Inl NotReadyAfterAdjustment
   \<and> changeFilter demo demoTimeSplit
        \<lparr> clauses = [timeClause (RefExpression ''time'') \<lparr> tr_start = 4000, tr_end = 5000 \<rparr>,
                       countryClause] \<rparr> False
       = Inr (demoTimeSplit
                \<lparr> filter' := \<lparr> clauses = [timeClause (RefExpression ''time'')
                                             \<lparr> tr_start = 4000, tr_end = 5000 \<rparr>,
                                           countryClause] \<rparr> \<rparr>)"
proof -
  let ?ta = "RefExpression ''time''"
  let ?tr = "\<lparr> tr_start = 3000, tr_end = 5000 \<rparr>"
  let ?f2 = "\<lparr> clauses = [timeClause ?ta \<lparr> tr_start = 4000, tr_end = 5000 \<rparr>, countryClause] \<rparr>"
  have ta: "getTimeAttribute demoTimeSplit = Some ?ta" "getTimeAttribute demoSeries = Some ?ta"
    "getTimeAttribute demoHourly = Some ?ta"
    by (simp_all add: getTimeAttribute_def demo_values)
  have new: "getTimeRange demo widerFilter ?ta = Some ?tr
           \<and> Some ?tr \<noteq> getTimeRange demo (filter' demoTimeSplit) ?ta"
    "getTimeRange demo widerFilter ?ta = Some ?tr
           \<and> Some ?tr \<noteq> getTimeRange demo (filter' demoSeries) ?ta"
    "getTimeRange demo widerFilter ?ta = Some ?tr
           \<and> Some ?tr \<noteq> getTimeRange demo (filter' demoHourly) ?ta"
    by (simp_all add: demo_values)
  note changeFilter_rederives_then_resolves
         [OF constructed_demoTimeSplit ta(1), of widerFilter False, THEN conjunct1, THEN spec,
          THEN mp, OF new(1), unfolded Let_def]
  then have first: "changeFilter demo demoTimeSplit widerFilter False
       = Inr (demoTimeSplit \<lparr> filter' := widerFilter,
                               splits := [(''time'', 2000), (''country'', 0)] \<rparr>)"
    by (simp add: verdict_defs demo_values)
  note changeFilter_rederives_then_resolves
         [OF constructed_demoSeries ta(2), of widerFilter False, THEN conjunct1, THEN spec,
          THEN mp, OF new(2), unfolded Let_def]
  then have second: "changeFilter demo demoSeries widerFilter False
       = Inr (demoSeries \<lparr> filter' := widerFilter \<rparr>)"
    by (simp add: verdict_defs demo_values)
  note changeFilter_rederives_then_resolves
         [OF constructed_demoHourly ta(3), of widerFilter True, THEN conjunct1, THEN spec,
          THEN mp, OF new(3), unfolded Let_def]
  then have third: "changeFilter demo demoHourly widerFilter True = Inl NotReadyAfterAdjustment"
    by (simp add: verdict_defs demo_values)
  have same: "getTimeRange demo ?f2 ?ta = None
            \<or> getTimeRange demo ?f2 ?ta = getTimeRange demo (filter' demoTimeSplit) ?ta"
    by (simp add: demo_values)
  from changeFilter_rederives_then_resolves [OF constructed_demoTimeSplit ta(1), of ?f2 False] same
  have "changeFilter demo demoTimeSplit ?f2 False
          = Inr (demoTimeSplit \<lparr> filter' := ?f2,
                   highlight := (if False then None else highlight demoTimeSplit) \<rparr>)"
    by blast
  then have fourth: "changeFilter demo demoTimeSplit ?f2 False
          = Inr (demoTimeSplit \<lparr> filter' := ?f2 \<rparr>)"
    by simp
  from constructed_demoTimeSplit ta(1) first second third fourth show ?thesis by blast
qed

text \<open>
  A state split by time on which \<open>changeFilter\<close> with another time range returns a
  state that has the splits of before, not the ones re-derived for the new range.
\<close>

theorem changeFilter_keeps_adjusted_splits_counterexample:
  "constructed demo demoSeries
   \<and> getTimeAttribute demoSeries = Some (RefExpression ''time'')
   \<and> getTimeRange demo (filter' demoSeries) (RefExpression ''time'')
       = Some \<lparr> tr_start = 4000, tr_end = 5000 \<rparr>
   \<and> getTimeRange demo widerFilter (RefExpression ''time'')
       = Some \<lparr> tr_start = 3000, tr_end = 5000 \<rparr>
   \<and> splits demoSeries = [(''time'', 1000)]
   \<and> updateWithTimeRange demo (splits demoSeries) (RefExpression ''time'')
        (Some \<lparr> tr_start = 3000, tr_end = 5000 \<rparr>) (timezone demoSeries) True
       = [(''time'', 2000)]
   \<and> changeFilter demo demoSeries widerFilter False
       = Inr (demoSeries \<lparr> filter' := widerFilter \<rparr>)
   \<and> splits (demoSeries \<lparr> filter' := widerFilter \<rparr>) = [(''time'', 1000)]"
proof -
  have "changeFilter demo demoSeries widerFilter False
       = Inr (demoSeries \<lparr> filter' := widerFilter \<rparr>)"
    by (simp add: filter_defs verdict_defs demo_values Let_def)
  moreover have "getTimeAttribute demoSeries = Some (RefExpression ''time'')"
    by (simp add: getTimeAttribute_def demo_values)
  moreover have "getTimeRange demo (filter' demoSeries) (RefExpression ''time'')
       = Some \<lparr> tr_start = 4000, tr_end = 5000 \<rparr>"
    "getTimeRange demo widerFilter (RefExpression ''time'')
       = Some \<lparr> tr_start = 3000, tr_end = 5000 \<rparr>"
    "splits demoSeries = [(''time'', 1000)]"
    "updateWithTimeRange demo (splits demoSeries) (RefExpression ''time'')
        (Some \<lparr> tr_start = 3000, tr_end = 5000 \<rparr>) (timezone demoSeries) True
       = [(''time'', 2000)]"
    "splits (demoSeries \<lparr> filter' := widerFilter \<rparr>) = [(''time'', 1000)]"
    by (simp_all add: demo_values)
  ultimately show ?thesis using constructed_demoSeries by simp
qed

theorem fromHash_rejects_malformed_witness:
  "fromHash demo ''#wiki/table/1'' demoDataSources demoVisualizations = Inr None
   \<and> fromHash demo ''#wiki/table/2/null,null,null,null,null,null,null''
        demoDataSources demoVisualizations = Inr None
   \<and> fromHash demo ''#wiki/table/1/null,null,'' demoDataSources demoVisualizations = Inr None
   \<and> fromHash demo ''#wiki/table/1/null,null,null'' demoDataSources demoVisualizations
       = Inr None"
proof -
  have 1: "length (hashParts ''#wiki/table/1'') < 4"
    by (simp add: hashParts_def)
  have 2: "parseInt (hashParts ''#wiki/table/2/null,null,null,null,null,null,null'' ! 2) \<noteq> Some 1"
    by (simp add: hashParts_def parseInt_def isWhiteSpace_def isDigit_def digitsValue_def)
  have 3: "parsePayload demo (join ''/'' (drop 3 (hashParts ''#wiki/table/1/null,null,'')))
             = Inl SyntaxError"
    by (simp add: hashParts_def parsePayload_def bindE_def demo_def demoParse_def
          startsWith_def isDigit_def)
  have 4: "parsePayload demo (join ''/'' (drop 3 (hashParts ''#wiki/table/1/null,null,null'')))
             = Inr (JArr [JNull, JNull, JNull])
           \<and> \<not> (6 \<le> length [JNull, JNull, JNull] \<and> length [JNull, JNull, JNull] \<le> 9)"
    by (simp add: hashParts_def parsePayload_def bindE_def demo_def demoParse_def
          startsWith_def isDigit_def)
  from fromHash_rejects_malformed [of "''#wiki/table/1''" demo demoDataSources demoVisualizations] 1
  have a: "fromHash demo ''#wiki/table/1'' demoDataSources demoVisualizations = Inr None"
    by blast
  from fromHash_rejects_malformed
         [of "''#wiki/table/2/null,null,null,null,null,null,null''" demo
             demoDataSources demoVisualizations] 2
  have b: "fromHash demo ''#wiki/table/2/null,null,null,null,null,null,null''
        demoDataSources demoVisualizations = Inr None"
    by blast
  from fromHash_rejects_malformed
         [of "''#wiki/table/1/null,null,''" demo demoDataSources demoVisualizations] 3
  have c: "fromHash demo ''#wiki/table/1/null,null,'' demoDataSources demoVisualizations = Inr None"
    by blast
  from fromHash_rejects_malformed
         [of "''#wiki/table/1/null,null,null''" demo demoDataSources demoVisualizations] 4
  have d: "fromHash demo ''#wiki/table/1/null,null,null'' demoDataSources demoVisualizations
       = Inr None"
    by blast
  from a b c d show ?thesis by blast
qed

lemma replicate_numeral: "replicate (numeral k) x = x # replicate (pred_numeral k) x"
  by (simp add: numeral_eq_Suc)

lemmas codec_defs = replicate_numeral
  toJS_def toHash_def compressedArray_def setIfTruthy_def setIndex_def index_def
  parsePayload_def bindE_def optionalFromJS_def hashParts_def
  parseInt_def isWhiteSpace_def isDigit_def digitsValue_def
  demoParse_def startsWith_def showInt_def showNat.simps digitChar_def
  expressionToJS_def clauseToJS_def clauseFromJS_def demoFilterFromJS_def
  splitFromJS_def stringMember_def demoPayload_def

lemma toHash_demoEssence: "toHash demo demoEssence = ''#wiki/table/1/'' @ demoPayload"
  by (simp add: codec_defs demo_values Let_def)

lemma toHash_demoHighlighted:
  \<open>toHash demo demoHighlighted
     = ''#wiki/table/1/'' @ demoPayload
       @ '',null,null,["table",[["country","STRING",["US"],false,false]]]''\<close>
  by (simp add: codec_defs demo_values Let_def)

lemma fromHash_demoEssence:
  "fromHash demo (''#wiki/table/1/'' @ demoPayload) demoDataSources demoVisualizations
     = Inr (Some demoEssence)"
  by (simp add: fromHash_def fromJS_def Essence_def chooseVisualization_def
        getBestVisualization_def constrainMeasures_def constrainDimensions_def
        getMeasure_def getDimension_def OrderedSet_def verdict_defs
        codec_defs demo_values Let_def)

lemmas decode_defs =
  fromHash_def fromJS_def Essence_def chooseVisualization_def
  getBestVisualization_def constrainMeasures_def constrainDimensions_def
  getMeasure_def getDimension_def OrderedSet_def

theorem toHash_fromHash_loses_highlight_witness:
  "constructed demo demoHighlighted
   \<and> highlight demoHighlighted = Some demoHighlight
   \<and> length (compressedArray (toJS demo demoHighlighted)) = 10
   \<and> fromHash demo (toHash demo demoHighlighted) demoDataSources demoVisualizations = Inr None
   \<and> fromHash demo (toHash demo demoEssence) demoDataSources demoVisualizations
       = Inr (Some demoEssence)"
proof -
  have h: "highlight demoHighlighted = Some demoHighlight"
    by (simp add: demoHighlighted_def)
  have t: "truthy (highlight_toJS demo demoHighlight)"
    by (simp add: demo_values)
  have n1: "CHR ''/'' \<notin> set (ds_name (dataSource demoHighlighted))"
    by (simp add: demo_values)
  have n2: "CHR ''/'' \<notin> set (vis_id (visualization demoHighlighted))"
    by (simp add: demo_values)
  have p: "parsePayload demo
           (compressToBase64 demo
              (join '','' (map (\<lambda>c. stringify demo (orNull c))
                             (compressedArray (toJS demo demoHighlighted)))))
         = Inr (JArr (map orNull (compressedArray (toJS demo demoHighlighted))))"
    by (simp add: codec_defs demo_values Let_def)
  from toHash_fromHash_loses_highlight [OF h t n1 n2 p, of demoDataSources demoVisualizations]
  have "length (compressedArray (toJS demo demoHighlighted)) = 10
       \<and> fromHash demo (toHash demo demoHighlighted) demoDataSources demoVisualizations
           = Inr None" .
  with constructed_demoHighlighted h fromHash_demoEssence show ?thesis
    by (simp add: toHash_demoEssence)
qed

theorem fromHash_unknown_dataSource_counterexample:
  "''nope'' \<notin> set (map ds_name demoDataSources)
   \<and> parsePayload demo demoPayload
       = Inr (JArr (map orNull (compressedArray (toJS demo demoEssence))))
   \<and> fromHash demo (''#wiki/table/1/'' @ demoPayload) demoDataSources demoVisualizations
       = Inr (Some demoEssence)
   \<and> fromHash demo (''#nope/table/1/'' @ demoPayload) demoDataSources demoVisualizations
       = Inr None"
proof -
  have "''nope'' \<notin> set (map ds_name demoDataSources)"
    by (simp add: demo_values)
  moreover have "parsePayload demo demoPayload
       = Inr (JArr (map orNull (compressedArray (toJS demo demoEssence))))"
    by (simp add: codec_defs demo_values Let_def)
  moreover have "fromHash demo (''#nope/table/1/'' @ demoPayload) demoDataSources
                   demoVisualizations = Inr None"
    by (simp add: decode_defs verdict_defs codec_defs demo_values Let_def)
  ultimately show ?thesis using fromHash_demoEssence by simp
qed

lemma demo_compare:
  "(\<forall>a b c. resolve_compare demo a b \<le> 0 \<and> resolve_compare demo b c \<le> 0
             \<longrightarrow> resolve_compare demo a c \<le> 0)
   \<and> (\<forall>a b. resolve_compare demo a b \<le> 0 \<or> resolve_compare demo b a \<le> 0)"
  by (auto simp: demo_def)

theorem fromHash_catches_construction_errors_witness:
  "fromHash demo (''#nope/table/1/'' @ demoPayload) demoDataSources demoVisualizations
     = Inr None
   \<and> find (\<lambda>v. vis_id v = ''nope'') demoVisualizations = None
   \<and> getBestVisualization demo demoVisualizations wiki [(''country'', 0)] None None
       = Some \<lparr> vr_visualization = table, vr_resolve = ready 8 \<rparr>
   \<and> resolve_compare demo (ready 8)
        (handleCircumstance totals wiki [(''country'', 0)] None False) \<le> 0
   \<and> fromHash demo (''#wiki/nope/1/'' @ demoPayload) demoDataSources demoVisualizations
       = Inr (Some demoEssence)
   \<and> visualization demoEssence = table"
proof -
  let ?h = "''#wiki/nope/1/'' @ demoPayload"
  let ?xs = "map orNull (compressedArray (toJS demo demoEssence))"
  let ?js = "\<lparr> js_dataSource = hashParts ?h ! 0,
               js_visualization = hashParts ?h ! 1,
               js_timezone = ?xs ! 0,
               js_filter = ?xs ! 1,
               js_requiredFilter = ?xs ! 2,
               js_splits = ?xs ! 3,
               js_selectedMeasures = ?xs ! 4,
               js_pinnedDimensions = ?xs ! 5,
               js_colors = Some (orNull (index ?xs 7)),
               js_pinnedSort = index ?xs 6,
               js_compare = Some (orNull (index ?xs 8)),
               js_highlight = Some (orNull (index ?xs 9)) \<rparr>"
  have d: "find (\<lambda>d. ds_name d = hashParts (''#nope/table/1/'' @ demoPayload) ! 0)
             demoDataSources = None"
    by (simp add: hashParts_def demo_values)
  from fromHash_catches_construction_errors
         [of demo "''#nope/table/1/'' @ demoPayload" demoDataSources demoVisualizations] d
  have a: "fromHash demo (''#nope/table/1/'' @ demoPayload) demoDataSources demoVisualizations
             = Inr None"
    by blast
  have hp: "4 \<le> length (hashParts ?h) \<and> parseInt (hashParts ?h ! 2) = Some 1
          \<and> parsePayload demo (join ''/'' (drop 3 (hashParts ?h))) = Inr (JArr ?xs)
          \<and> 6 \<le> length ?xs \<and> length ?xs \<le> 9"
    by (simp add: codec_defs demo_values Let_def)
  note fromHash_catches_construction_errors
         [of demo ?h demoDataSources demoVisualizations, THEN conjunct2, THEN conjunct1,
          THEN spec, THEN mp, OF hp]
  then have fh: "fromHash demo ?h demoDataSources demoVisualizations =
                   (case fromJS demo ?js demoDataSources demoVisualizations of
                      Inl err \<Rightarrow> Inr None
                    | Inr e \<Rightarrow> Inr (Some e))" .
  let ?p = "\<lparr> v_dataSources = demoDataSources,
                    v_visualizations = demoVisualizations,
                    v_dataSource = Some wiki,
                    v_visualization = None,
                    v_timezone = Timezone ''Etc/UTC'',
                    v_filter = filter_constrainToDimensions demo
                                 \<lparr> clauses = [timeClause (RefExpression ''time'')
                                                 \<lparr> tr_start = 4000, tr_end = 5000 \<rparr>] \<rparr>
                                 (ds_dimensions wiki) (ds_timeAttribute wiki) None,
                    v_requiredFilter = filter_constrainToDimensions demo \<lparr> clauses = [] \<rparr>
                                         (ds_dimensions wiki) (ds_timeAttribute wiki) None,
                    v_splits = splits_constrainToDimensions demo [(''country'', 0)]
                                 (ds_dimensions wiki),
                    v_selectedMeasures = constrainMeasures [''count'', ''added''] wiki,
                    v_pinnedDimensions = constrainDimensions [''country''] wiki,
                    v_colors = None,
                    v_pinnedSort =
                      (case (case js_pinnedSort ?js of
                               None \<Rightarrow> JStr (ds_defaultSortMeasure wiki)
                             | Some j \<Rightarrow> if truthy j then j
                                         else JStr (ds_defaultSortMeasure wiki)) of
                         JStr n \<Rightarrow> if getMeasure wiki n \<noteq> None then n
                                   else ds_defaultSortMeasure wiki
                       | _ \<Rightarrow> ds_defaultSortMeasure wiki),
                    v_compare = map_option (\<lambda>f. filter_constrainToDimensions demo f
                                                   (ds_dimensions wiki) (ds_timeAttribute wiki)
                                                   None) None,
                    v_highlight = map_option (\<lambda>h. highlight_constrainToDimensions demo h
                                                     (ds_dimensions wiki) (ds_timeAttribute wiki))
                                    None \<rparr>"
  have dec: "find (\<lambda>v. vis_id v = js_visualization ?js) demoVisualizations = None
        \<and> find (\<lambda>d. ds_name d = js_dataSource ?js) demoDataSources = Some wiki
        \<and> timezone_fromJS demo (js_timezone ?js) = Inr (Timezone ''Etc/UTC'')
        \<and> filter_fromJS demo (js_filter ?js)
            = Inr \<lparr> clauses = [timeClause (RefExpression ''time'')
                                 \<lparr> tr_start = 4000, tr_end = 5000 \<rparr>] \<rparr>
        \<and> filter_fromJS demo (js_requiredFilter ?js) = Inr \<lparr> clauses = [] \<rparr>
        \<and> splits_fromJS demo (js_splits ?js) = Inr [(''country'', 0)]
        \<and> orderedSetFromJS demo (js_selectedMeasures ?js) = Inr [''count'', ''added'']
        \<and> orderedSetFromJS demo (js_pinnedDimensions ?js) = Inr [''country'']
        \<and> optionalFromJS (colors_fromJS demo) (js_colors ?js) = Inr None
        \<and> optionalFromJS (filter_fromJS demo) (js_compare ?js) = Inr None
        \<and> optionalFromJS (highlight_fromJS demo) (js_highlight ?js) = Inr None"
    by (simp add: codec_defs demo_values OrderedSet_def mapE.simps Let_def)
  have ne: "demoVisualizations \<noteq> []" by (simp add: demoVisualizations_def)
  note fromHash_catches_construction_errors
         [of demo ?h demoDataSources demoVisualizations,
          THEN conjunct2, THEN conjunct2, THEN conjunct2, THEN conjunct2, THEN conjunct1,
          THEN spec, THEN spec, THEN spec, THEN spec, THEN spec, THEN spec, THEN spec,
          THEN spec, THEN spec, THEN spec, THEN spec, THEN mp, OF dec,
          unfolded Let_def, THEN conjunct2, THEN conjunct2, THEN mp, OF ne]
  then obtain vr where
    vr: "getBestVisualization demo demoVisualizations wiki (v_splits ?p) (v_colors ?p) None
          = Some vr"
    and rank: "(\<forall>a b c. resolve_compare demo a b \<le> 0 \<and> resolve_compare demo b c \<le> 0
                   \<longrightarrow> resolve_compare demo a c \<le> 0)
               \<and> (\<forall>a b. resolve_compare demo a b \<le> 0 \<or> resolve_compare demo b a \<le> 0)
               \<longrightarrow> (\<forall>v \<in> set demoVisualizations.
                      resolve_compare demo (vr_resolve vr)
                        (handleCircumstance v wiki (v_splits ?p) (v_colors ?p) False)
                      \<le> 0)"
    and fj: "fromJS demo ?js demoDataSources demoVisualizations =
               Essence demo (?p \<lparr> v_visualization := Some (vr_visualization vr) \<rparr>)"
    by blast
  have best: "getBestVisualization demo demoVisualizations wiki [(''country'', 0)] None None
       = Some \<lparr> vr_visualization = table, vr_resolve = ready 8 \<rparr>"
    by (simp add: getBestVisualization_def index_def demo_values)
  have sp: "v_splits ?p = [(''country'', 0)]" "v_colors ?p = None"
    by (simp_all add: demo_values)
  from vr [unfolded sp best]
  have "vr = \<lparr> vr_visualization = table, vr_resolve = ready 8 \<rparr>" by simp
  then have v: "vr_visualization vr = table" and r: "vr_resolve vr = ready 8" by simp_all
  note rank [THEN mp, OF demo_compare, unfolded sp r]
  then have first: "resolve_compare demo (ready 8)
        (handleCircumstance totals wiki [(''country'', 0)] None False) \<le> 0"
    by (simp add: demoVisualizations_def)
  have "fromJS demo ?js demoDataSources demoVisualizations = Inr demoEssence"
    unfolding fj v
    by (simp add: Essence_def chooseVisualization_def constrainMeasures_def
          constrainDimensions_def getMeasure_def getDimension_def verdict_defs
          codec_defs demo_values Let_def)
  with fh have e: "fromHash demo ?h demoDataSources demoVisualizations = Inr (Some demoEssence)"
    by simp
  have "find (\<lambda>v. vis_id v = ''nope'') demoVisualizations = None"
    by (simp add: demo_values)
  moreover have "visualization demoEssence = table" by (simp add: demoEssence_def)
  ultimately show ?thesis using a e best first by blast
qed

lemmas toggle_defs =
  toggleMeasure_def valueOf_def Essence_def chooseVisualization_def OrderedSet_def

theorem toggleMeasure_round_trip_counterexample:
  "constructed demo demoSwapped
   \<and> selectedMeasures demoSwapped = [''added'', ''count'']
   \<and> getMeasure (dataSource demoSwapped) ''deleted'' = Some \<lparr> m_name = ''deleted'' \<rparr>
   \<and> toggleMeasure demo demoSwapped \<lparr> m_name = ''deleted'' \<rparr>
       = Inr (demoSwapped \<lparr> selectedMeasures := [''count'', ''added'', ''deleted''] \<rparr>)
   \<and> toggleMeasure demo (demoSwapped \<lparr> selectedMeasures := [''count'', ''added'', ''deleted''] \<rparr>)
         \<lparr> m_name = ''deleted'' \<rparr>
       = Inr (demoSwapped \<lparr> selectedMeasures := [''count'', ''added''] \<rparr>)
   \<and> selectedMeasures (demoSwapped \<lparr> selectedMeasures := [''count'', ''added''] \<rparr>)
       \<noteq> selectedMeasures demoSwapped
   \<and> \<not> equals (demoSwapped \<lparr> selectedMeasures := [''count'', ''added''] \<rparr>) demoSwapped"
proof -
  have "getMeasure (dataSource demoSwapped) ''deleted'' = Some \<lparr> m_name = ''deleted'' \<rparr>"
    by (simp add: getMeasure_def demo_values)
  moreover have "toggleMeasure demo demoSwapped \<lparr> m_name = ''deleted'' \<rparr>
       = Inr (demoSwapped \<lparr> selectedMeasures := [''count'', ''added'', ''deleted''] \<rparr>)"
    by (simp add: toggle_defs verdict_defs demo_values Let_def)
  moreover have "toggleMeasure demo
         (demoSwapped \<lparr> selectedMeasures := [''count'', ''added'', ''deleted''] \<rparr>)
         \<lparr> m_name = ''deleted'' \<rparr>
       = Inr (demoSwapped \<lparr> selectedMeasures := [''count'', ''added''] \<rparr>)"
    by (simp add: toggle_defs verdict_defs demo_values Let_def)
  moreover have "selectedMeasures demoSwapped = [''added'', ''count'']"
    by (simp add: demo_values)
  moreover have "\<not> equals (demoSwapped \<lparr> selectedMeasures := [''count'', ''added''] \<rparr>) demoSwapped"
    by (simp add: equals_def demo_values)
  ultimately show ?thesis using constructed_demoSwapped by simp
qed

theorem toggleMeasure_dataSource_order_witness:
  "constructed demo demoEssence
   \<and> inDataSourceOrder wiki [''count'', ''added'']
   \<and> (\<exists>e1 e2. toggleMeasure demo demoEssence \<lparr> m_name = ''deleted'' \<rparr> = Inr e1
          \<and> toggleMeasure demo e1 \<lparr> m_name = ''deleted'' \<rparr> = Inr e2
          \<and> selectedMeasures e2 = [''count'', ''added''])
   \<and> (\<exists>e1 e2 e3. toggleMeasure demo demoFiltered \<lparr> m_name = ''deleted'' \<rparr> = Inr e1
          \<and> toggleMeasure demo e1 \<lparr> m_name = ''count'' \<rparr> = Inr e2
          \<and> toggleMeasure demo e2 \<lparr> m_name = ''deleted'' \<rparr> = Inr e3
          \<and> selectedMeasures e3 = [''count'', ''added'']
          \<and> inDataSourceOrder wiki (selectedMeasures e3))"
proof -
  have ord: "inDataSourceOrder wiki [''count'', ''added'']"
    by (simp add: inDataSourceOrder_def OrderedSet_def demo_values)
  have h1: "m_name \<lparr> m_name = ''deleted'' \<rparr> \<notin> set (selectedMeasures demoEssence)
          \<and> m_name \<lparr> m_name = ''deleted'' \<rparr>
               \<in> set (map m_name (ds_measures (dataSource demoEssence)))"
    by (simp add: demo_values)
  have o1: "inDataSourceOrder (dataSource demoEssence) (selectedMeasures demoEssence)"
    by (simp add: inDataSourceOrder_def OrderedSet_def demo_values)
  have sel: "selectedMeasures demoEssence = [''count'', ''added'']"
    by (simp add: demo_values)
  from toggleMeasure_dataSource_order [OF constructed_demoEssence] h1 o1
  have first: "\<exists>e1 e2. toggleMeasure demo demoEssence \<lparr> m_name = ''deleted'' \<rparr> = Inr e1
          \<and> toggleMeasure demo e1 \<lparr> m_name = ''deleted'' \<rparr> = Inr e2
          \<and> selectedMeasures e2 = selectedMeasures demoEssence"
    by blast
  have h2: "m_name \<lparr> m_name = ''deleted'' \<rparr> \<notin> set (selectedMeasures demoFiltered)
          \<and> m_name \<lparr> m_name = ''count'' \<rparr> \<notin> set (selectedMeasures demoFiltered)
          \<and> m_name \<lparr> m_name = ''deleted'' \<rparr> \<noteq> m_name \<lparr> m_name = ''count'' \<rparr>
          \<and> m_name \<lparr> m_name = ''deleted'' \<rparr>
               \<in> set (map m_name (ds_measures (dataSource demoFiltered)))
          \<and> m_name \<lparr> m_name = ''count'' \<rparr>
               \<in> set (map m_name (ds_measures (dataSource demoFiltered)))"
    by (simp add: demo_values)
  have f3: "filter (\<lambda>n. n \<in> set (selectedMeasures demoFiltered)
                        \<or> n = m_name \<lparr> m_name = ''count'' \<rparr>)
              (OrderedSet (map m_name (ds_measures wiki)))
            = [''count'', ''added'']"
    by (simp add: OrderedSet_def demo_values)
  have dsf: "dataSource demoFiltered = wiki" by (simp add: demo_values)
  from toggleMeasure_dataSource_order [OF constructed_demoFiltered] h2
  have "\<exists>e1 e2 e3. toggleMeasure demo demoFiltered \<lparr> m_name = ''deleted'' \<rparr> = Inr e1
          \<and> toggleMeasure demo e1 \<lparr> m_name = ''count'' \<rparr> = Inr e2
          \<and> toggleMeasure demo e2 \<lparr> m_name = ''deleted'' \<rparr> = Inr e3
          \<and> selectedMeasures e3
               = filter (\<lambda>n. n \<in> set (selectedMeasures demoFiltered)
                               \<or> n = m_name \<lparr> m_name = ''count'' \<rparr>)
                   (OrderedSet (map m_name (ds_measures (dataSource demoFiltered))))
          \<and> inDataSourceOrder (dataSource demoFiltered) (selectedMeasures e3)"
    by blast
  then have second: "\<exists>e1 e2 e3. toggleMeasure demo demoFiltered \<lparr> m_name = ''deleted'' \<rparr> = Inr e1
          \<and> toggleMeasure demo e1 \<lparr> m_name = ''count'' \<rparr> = Inr e2
          \<and> toggleMeasure demo e2 \<lparr> m_name = ''deleted'' \<rparr> = Inr e3
          \<and> selectedMeasures e3 = [''count'', ''added'']
          \<and> inDataSourceOrder wiki (selectedMeasures e3)"
    unfolding dsf f3 .
  from constructed_demoEssence ord first second show ?thesis
    unfolding sel by blast
qed

lemmas change_defs =
  changeDataSource_def fromDataSource_def valueOf_def Essence_def chooseVisualization_def
  getBestVisualization_def index_def constrainMeasures_def constrainDimensions_def
  getMeasure_def getDimension_def OrderedSet_def

lemmas demo_defaults = demoSalesDefault_def demoWikiDefault_def

theorem changeDataSource_refresh_counterexample:
  "dataSources demoFiltered = [wiki, sales]
   \<and> dataSource demoFiltered = wiki
   \<and> ds_name wikiRefreshed = ds_name wiki
   \<and> wiki \<noteq> wikiRefreshed
   \<and> changeDataSource demo demoFiltered wikiRefreshed
       = Inr (demoFiltered \<lparr> dataSource := wikiRefreshed,
                              dataSources := [wikiRefreshed, sales] \<rparr>)
   \<and> fromDataSource demo wikiRefreshed (dataSources demoFiltered) (visualizations demoFiltered)
       = Inr demoWikiDefault
   \<and> filter' demoWikiDefault \<noteq> filter' demoFiltered
   \<and> splits demoWikiDefault \<noteq> splits demoFiltered
   \<and> changeDataSource demo demoFiltered sales = Inr demoSalesDefault
   \<and> constrainMeasures (selectedMeasures demoFiltered) sales = []
   \<and> selectedMeasures demoSalesDefault = [''revenue'']"
proof -
  have "dataSources demoFiltered = [wiki, sales]"
    by (simp add: demoFiltered_def demoEssence_def demoDataSources_def)
  moreover have "dataSource demoFiltered = wiki"
    by (simp add: demoFiltered_def demoEssence_def)
  moreover have "ds_name wikiRefreshed = ds_name wiki"
    by (simp add: demo_values)
  moreover have "wiki \<noteq> wikiRefreshed"
    by (simp add: demo_values)
  moreover have "changeDataSource demo demoFiltered wikiRefreshed
       = Inr (demoFiltered \<lparr> dataSource := wikiRefreshed,
                              dataSources := [wikiRefreshed, sales] \<rparr>)"
    by (simp add: change_defs verdict_defs demo_values Let_def)
  moreover have "fromDataSource demo wikiRefreshed (dataSources demoFiltered)
                   (visualizations demoFiltered) = Inr demoWikiDefault"
    by (simp add: change_defs verdict_defs demo_values demo_defaults Let_def)
  moreover have "filter' demoWikiDefault \<noteq> filter' demoFiltered"
    by (simp add: demo_values demo_defaults)
  moreover have "splits demoWikiDefault \<noteq> splits demoFiltered"
    by (simp add: demo_values demo_defaults)
  moreover have "changeDataSource demo demoFiltered sales = Inr demoSalesDefault"
    by (simp add: change_defs verdict_defs demo_values demo_defaults Let_def)
  moreover have "constrainMeasures (selectedMeasures demoFiltered) sales = []"
    by (simp add: constrainMeasures_def getMeasure_def demo_values)
  moreover have "selectedMeasures demoSalesDefault = [''revenue'']"
    by (simp add: demo_defaults)
  ultimately show ?thesis by blast
qed

theorem changeDataSource_paths_witness:
  "changeDataSource demo demoFiltered (sales \<lparr> ds_name := ''nope'' \<rparr>)
     = Inl (UnknownDataSource ''nope'')
   \<and> changeDataSource demo demoFiltered sales
       = fromDataSource demo sales demoDataSources demoVisualizations
   \<and> changeDataSource demo demoFiltered (sales \<lparr> ds_measures := [] \<rparr>)
       = Inl NonSelectedDataSource
   \<and> (\<exists>e'. changeDataSource demo demoFiltered wikiRefreshed = Inr e'
          \<and> dataSource e' = wikiRefreshed
          \<and> selectedMeasures e' = [''added'']
          \<and> pinnedDimensions e' = [''country'']
          \<and> pinnedSort e' = ''count'')"
proof -
  let ?nope = "sales \<lparr> ds_name := ''nope'' \<rparr>"
  let ?changed = "sales \<lparr> ds_measures := [] \<rparr>"
  have "find (\<lambda>d. ds_name d = ds_name ?nope) (dataSources demoFiltered) = None"
    by (simp add: demo_values)
  with changeDataSource_paths [of ?nope demoFiltered demo]
  have "changeDataSource demo demoFiltered ?nope = Inl (UnknownDataSource (ds_name ?nope))"
    by blast
  then have a: "changeDataSource demo demoFiltered ?nope = Inl (UnknownDataSource ''nope'')"
    by simp
  have "find (\<lambda>d. ds_name d = ds_name sales) (dataSources demoFiltered) = Some sales"
    by (simp add: demo_values)
  with changeDataSource_paths [of sales demoFiltered demo]
  have "changeDataSource demo demoFiltered sales
          = fromDataSource demo sales (dataSources demoFiltered) (visualizations demoFiltered)"
    by blast
  then have b: "changeDataSource demo demoFiltered sales
          = fromDataSource demo sales demoDataSources demoVisualizations"
    by (simp add: demoFiltered_def demoEssence_def)
  have "find (\<lambda>d. ds_name d = ds_name ?changed) (dataSources demoFiltered) = Some sales
        \<and> sales \<noteq> ?changed \<and> ds_name (dataSource demoFiltered) \<noteq> ds_name ?changed"
    by (simp add: demo_values)
  with changeDataSource_paths [of ?changed demoFiltered demo]
  have c: "changeDataSource demo demoFiltered ?changed = Inl NonSelectedDataSource"
    by blast
  obtain e' where E: "changeDataSource demo demoFiltered wikiRefreshed = Inr e'"
    by (simp add: change_defs verdict_defs demo_values Let_def)
  have "find (\<lambda>d. ds_name d = ds_name wikiRefreshed) (dataSources demoFiltered) = Some wiki
        \<and> wiki \<noteq> wikiRefreshed \<and> ds_name (dataSource demoFiltered) = ds_name wikiRefreshed"
    by (simp add: demo_values)
  with changeDataSource_paths [of wikiRefreshed demoFiltered demo] E
  have "dataSource e' = wikiRefreshed
        \<and> selectedMeasures e' = constrainMeasures (selectedMeasures demoFiltered) wikiRefreshed
        \<and> pinnedDimensions e' = constrainDimensions (pinnedDimensions demoFiltered) wikiRefreshed
        \<and> pinnedSort e' = (if getMeasure wikiRefreshed (pinnedSort demoFiltered) = None
                            then ds_defaultSortMeasure wikiRefreshed
                            else pinnedSort demoFiltered)"
    by blast
  then have "dataSource e' = wikiRefreshed \<and> selectedMeasures e' = [''added'']
        \<and> pinnedDimensions e' = [''country''] \<and> pinnedSort e' = ''count''"
    by (simp add: constrainMeasures_def constrainDimensions_def getMeasure_def
          getDimension_def demo_values)
  with E a b c show ?thesis by blast
qed

lemma constructed_demoColored: "constructed demo demoColored"
  by (rule constructedI) (simp_all add: verdict_defs demo_values demoColored_def)

lemma toHash_demoColored:
  \<open>toHash demo demoColored
     = ''#wiki/table/1/'' @ demoPayload
       @ '',"page",[["country","STRING",["US"],false,false]]''\<close>
  by (simp add: codec_defs demo_values demoColored_def Let_def)

lemma fromHash_toHash_demoColored:
  "fromHash demo (toHash demo demoColored) demoDataSources demoVisualizations
     = Inr (Some demoColored)"
  unfolding toHash_demoColored
  by (simp add: decode_defs verdict_defs codec_defs demo_values demoColored_def Let_def)

end
